theory Spec2Isabelle
  imports Main "HOL-Library.Word"
begin

unbundle bit_operations_syntax

section \<open>Machine types\<close>

text \<open>
  The tree is built for 32-bit ARM (ILP32): \<open>int\<close>, \<open>unsigned int\<close> and
  \<open>unsigned long\<close> are 32 bits wide, \<open>ext4_fsblk_t\<close> is \<open>unsigned long long\<close>.
  The \<open>__le16\<close>/\<open>__le32\<close>/\<open>__le64\<close> fields of the superblock are modelled by their
  CPU-order value, so \<open>cpu_to_le32\<close> and \<open>le32_to_cpu\<close> are the identity there. Group
  descriptors are kept as the bytes in memory, because the checksum reads them as bytes.
\<close>

type_synonym u8 = "8 word"
type_synonym u16 = "16 word"
type_synonym u32 = "32 word"
type_synonym u64 = "64 word"
type_synonym ulong = "32 word"
type_synonym cint = "32 word"
type_synonym bytes = "nat \<Rightarrow> u8" \<comment> \<open>the memory at a pointer: the byte at each offset\<close>

section \<open>Constants supplied by headers\<close>

text \<open>
  \<open>ext4.h\<close>, \<open>linux/fs.h\<close>, \<open>linux/jbd2.h\<close> and \<open>errno.h\<close> are not among the
  sources. Every constant, structure offset and build option that \<open>super.c\<close> takes from
  them is a field of the record below, and every function of the model takes the record as
  its first argument, so that each theorem holds for all values of the constants.
\<close>

record ext4_h =
  EXT4_FEATURE_INCOMPAT_SUPP :: u32
  EXT4_FEATURE_RO_COMPAT_SUPP :: u32
  EXT4_FEATURE_RO_COMPAT_HUGE_FILE :: u32
  EXT4_FEATURE_RO_COMPAT_BIGALLOC :: u32
  EXT4_FEATURE_RO_COMPAT_GDT_CSUM :: u32
  EXT4_FEATURE_INCOMPAT_EXTENTS :: u32
  EXT4_FEATURE_INCOMPAT_64BIT :: u32
  EXT4_FEATURE_INCOMPAT_FLEX_BG :: u32
  EXT4_FEATURE_INCOMPAT_RECOVER :: u32
  EXT4_FEATURE_INCOMPAT_MMP :: u32
  blkcnt_t_narrow :: bool \<comment> \<open>\<open>sizeof(blkcnt_t) < sizeof(u64)\<close>: built without CONFIG_LBDAF\<close>
  EXT4_MIN_DESC_SIZE_64BIT :: ulong
  EXT4_BG_INODE_ZEROED :: u16
  sizeof_s_error_func :: nat \<comment> \<open>\<open>sizeof(es->s_last_error_func)\<close>, the same for \<open>s_first_error_func\<close>\<close>
  offsetof_bg_block_bitmap_lo :: nat
  offsetof_bg_inode_bitmap_lo :: nat
  offsetof_bg_inode_table_lo :: nat
  offsetof_bg_flags :: nat
  offsetof_bg_checksum :: nat
  offsetof_bg_block_bitmap_hi :: nat
  offsetof_bg_inode_bitmap_hi :: nat
  offsetof_bg_inode_table_hi :: nat
  EXT4_VALID_FS :: u16
  EXT4_ERROR_FS :: u16
  MS_RDONLY :: ulong
  MS_POSIXACL :: ulong
  EXT4_MF_FS_ABORTED :: u32
  EXT4_MOUNT_ERRORS_CONT :: u32
  EXT4_MOUNT_ERRORS_RO :: u32
  EXT4_MOUNT_ERRORS_PANIC :: u32
  EXT4_MOUNT_DEBUG :: u32
  EXT4_MOUNT_POSIX_ACL :: u32
  EXT4_MOUNT_DATA_FLAGS :: u32
  EXT4_MOUNT_JOURNAL_DATA :: u32
  EXT4_MOUNT_DIOREAD_NOLOCK :: u32
  EXT4_MOUNT_INIT_INODE_TABLE :: u32
  EXT4_MOUNT2_EXPLICIT_DELALLOC :: u32
  JBD2_REC_ERR :: ulong
  EXT4_MAX_SUPP_REV :: u32
  EXT4_GOOD_OLD_REV :: u32
  EXT4_DYNAMIC_REV :: u32
  EXT4_GOOD_OLD_FIRST_INO :: u32
  EXT4_GOOD_OLD_INODE_SIZE :: u16
  EXT4_DFL_MAX_MNT_COUNT :: u16
  HZ :: ulong
  EIO :: cint
  EINVAL :: cint
  EROFS :: cint

section \<open>Superblock state\<close>

text \<open>
  \<open>struct ext4_super_block\<close>: the fields \<open>super.c\<close> reads or writes in the functions
  modelled here. \<open>s_blocks_count\<close> and \<open>s_free_blocks_count\<close> hold the 64-bit values that
  the inline helpers \<open>ext4_blocks_count\<close> and \<open>ext4_free_blocks_count_set\<close> of \<open>ext4.h\<close>
  read and write as a \<open>_lo\<close>/\<open>_hi\<close> pair. The two 32-byte function-name arrays are byte
  lists.
\<close>

record ext4_super_block =
  s_rev_level :: u32
  s_feature_compat :: u32
  s_feature_incompat :: u32
  s_feature_ro_compat :: u32
  s_uuid :: bytes
  s_desc_size :: u16
  s_first_data_block :: u32
  s_blocks_count :: u64
  s_free_blocks_count :: u64
  s_free_inodes_count :: u32
  s_kbytes_written :: u64
  s_state :: u16
  s_mnt_count :: u16
  s_max_mnt_count :: u16
  s_checkinterval :: u32
  s_lastcheck :: u32
  s_mtime :: u32
  s_wtime :: u32
  s_first_ino :: u32
  s_inode_size :: u16
  s_last_orphan :: u32
  s_error_count :: u32
  s_first_error_time :: u32
  s_first_error_ino :: u32
  s_first_error_block :: u64
  s_first_error_func :: "u8 list"
  s_first_error_line :: u32
  s_last_error_time :: u32
  s_last_error_ino :: u32
  s_last_error_line :: u32
  s_last_error_block :: u64
  s_last_error_func :: "u8 list"
  s_log_block_size :: u32

text \<open>
  The journal is an external collaborator. Of \<open>journal_t\<close> the model keeps the flag word
  that \<open>super.c\<close> tests, the recorded error number, and the parameters and the I/O priority
  of the journal task that \<open>super.c\<close> sets.
\<close>

record journal_t =
  j_flags :: ulong
  j_errno :: cint
  j_commit_interval :: ulong
  j_min_batch_time :: u32
  j_max_batch_time :: u32
  j_task_ioprio :: "u32 option" \<comment> \<open>\<open>j_task->io_context\<close>: \<open>None\<close> when NULL, otherwise its \<open>ioprio\<close>\<close>

text \<open>The state bits of the buffer head that holds the superblock block.\<close>

record buffer_head =
  b_write_io_error :: bool
  b_uptodate :: bool
  b_dirty :: bool

text \<open>
  \<open>struct ext4_sb_info\<close>. \<open>s_group_desc\<close> gives, for each group number, the memory at the
  address of its descriptor. The two per-CPU counters are kept as their signed 64-bit sums.
  \<open>s_err_report\<close> is the error-report timer: \<open>None\<close> when it is not pending, otherwise
  its expiry time in jiffies. \<open>s_orphan\<close> is the in-memory orphan list, newest first.
\<close>

record ext4_sb_info =
  s_es :: ext4_super_block
  s_sbh :: "buffer_head option"
  s_journal :: "journal_t option"
  s_mount_state :: u16
  s_mount_flags :: u32
  s_mount_opt :: u32
  s_mount_opt2 :: u32
  s_resuid :: u32
  s_resgid :: u32
  s_commit_interval :: ulong
  s_min_batch_time :: u32
  s_max_batch_time :: u32
  s_jquota_fmt :: cint
  s_qf_names :: "nat \<Rightarrow> string option"
  s_stripe :: ulong
  s_inode_readahead_blks :: u32
  s_li_wait_mult :: u32
  s_desc_size_sbi :: ulong
  s_groups_count :: u32
  s_blocks_per_group :: ulong
  s_itb_per_group :: ulong
  s_cluster_bits :: nat
  s_group_desc :: "u32 \<Rightarrow> bytes"
  s_freeclusters_counter :: u64
  s_freeinodes_counter :: u64
  s_kbytes_written_sbi :: u64
  s_sectors_written_start :: ulong
  s_err_report :: "ulong option"
  s_orphan :: "u32 list"

text \<open>
  An on-disk inode as the orphan walk sees it: the link count and the \<open>next\<close> pointer of
  the orphan chain that the inode itself stores.
\<close>

record ext4_inode =
  i_nlink :: u32
  i_next_orphan :: u32

text \<open>
  \<open>struct super_block\<close> with the block device behind it. \<open>bdi_dev_present\<close> is
  \<open>bdi->dev != NULL\<close>; \<open>bd_part_sectors\<close> is \<open>None\<close> when \<open>bd_part\<close> is NULL and otherwise
  the value of \<open>part_stat_read(bd_part, sectors[1])\<close>; \<open>bdev_ro\<close> is what
  \<open>bdev_read_only\<close> answers. \<open>blk_events\<close> lists, oldest first, what happened to the
  superblock buffer: it was marked dirty, or it was handed to the device by a synchronous
  write; each event carries the superblock image at that moment. \<open>inode_store\<close> maps an inode number to the
  inode the storage layer resolves it to; \<open>truncated\<close> and \<open>deleted\<close> list the inodes whose
  truncation or deletion has been finished, oldest first.
\<close>

datatype blk_event = Mark_buffer_dirty ext4_super_block | Submit_write ext4_super_block

record super_block =
  s_flags :: ulong
  s_dirt :: bool
  s_fs_info :: ext4_sb_info
  bdi_dev_present :: bool
  bd_part_sectors :: "ulong option"
  bdev_ro :: bool
  blk_events :: "blk_event list"
  inode_store :: "u32 \<Rightarrow> ext4_inode option"
  truncated :: "u32 list"
  deleted :: "u32 list"

text \<open>
  The tokens of the mount-option grammar (the anonymous \<open>enum\<close> of \<open>super.c\<close>). The table
  \<open>tokens\<close> that maps option text to them is read by \<open>match_token\<close> of \<open>lib/parser.c\<close>, which
  is not among the sources; it is a field of the \<open>kernel\<close> record below.
\<close>

datatype token =
    Opt_bsd_df | Opt_minix_df | Opt_grpid | Opt_nogrpid
  | Opt_resgid | Opt_resuid | Opt_sb | Opt_err_cont | Opt_err_panic | Opt_err_ro
  | Opt_nouid32 | Opt_debug | Opt_removed
  | Opt_user_xattr | Opt_nouser_xattr | Opt_acl | Opt_noacl
  | Opt_auto_da_alloc | Opt_noauto_da_alloc | Opt_noload
  | Opt_commit | Opt_min_batch_time | Opt_max_batch_time
  | Opt_journal_dev | Opt_journal_checksum | Opt_journal_async_commit
  | Opt_abort | Opt_data_journal | Opt_data_ordered | Opt_data_writeback
  | Opt_data_err_abort | Opt_data_err_ignore
  | Opt_usrjquota | Opt_grpjquota | Opt_offusrjquota | Opt_offgrpjquota
  | Opt_jqfmt_vfsold | Opt_jqfmt_vfsv0 | Opt_jqfmt_vfsv1 | Opt_quota
  | Opt_noquota | Opt_barrier | Opt_nobarrier | Opt_err
  | Opt_usrquota | Opt_grpquota | Opt_i_version
  | Opt_stripe | Opt_delalloc | Opt_nodelalloc | Opt_mblk_io_submit
  | Opt_nomblk_io_submit | Opt_block_validity | Opt_noblock_validity
  | Opt_inode_readahead_blks | Opt_journal_ioprio
  | Opt_dioread_nolock | Opt_dioread_lock
  | Opt_discard | Opt_nodiscard | Opt_init_itable | Opt_noinit_itable

text \<open>
  What the rest of the kernel answers during one call: the clock, the jiffies counter, the
  outcome of a synchronous buffer write (the value \<open>sync_dirty_buffer\<close> returns and whether
  the buffer carries a write error afterwards), the free counts summed over the group
  descriptors, and what the journal layer does to a journal on \<open>jbd2_journal_abort\<close>.
  The remaining fields are the collaborators that \<open>ext4_remount\<close> and the option parser
  call: the journal flush (its return value) and the clearing of the journal's recorded
  error, quota suspension, multi-mount protection, the lazy-init registration and the
  system-zone setup (all outside the state modelled here, so they are functions of the
  superblock), the parser primitives \<open>match_int\<close> (\<open>None\<close> when the text is not an integer)
  and \<open>match_strdup\<close> (\<open>None\<close> when the allocation fails) of \<open>lib/parser.c\<close>, \<open>match_token\<close>
  of the same file applied to the table \<open>tokens\<close> (the token of one option and the text of
  its argument, \<open>None\<close> when \<open>args[0].from\<close> stays 0), and whether any quota is loaded.
\<close>

record kernel =
  get_seconds :: ulong
  jiffies :: ulong
  sync_dirty_buffer_ret :: cint
  sync_write_io_error :: bool
  count_free_clusters :: u64
  count_free_inodes :: ulong
  jbd2_journal_abort :: "journal_t \<Rightarrow> cint \<Rightarrow> journal_t"
  jbd2_journal_flush :: "journal_t \<Rightarrow> cint"
  jbd2_journal_clear_err :: "journal_t \<Rightarrow> journal_t"
  dquot_suspend :: "super_block \<Rightarrow> cint"
  ext4_multi_mount_protect :: "super_block \<Rightarrow> cint"
  ext4_unregister_li_request :: "super_block \<Rightarrow> super_block"
  ext4_has_uninit_itable :: "super_block \<Rightarrow> u32"
  ext4_register_li_request :: "super_block \<Rightarrow> u32 \<Rightarrow> super_block"
  ext4_setup_system_zone :: "super_block \<Rightarrow> super_block"
  match_int :: "string \<Rightarrow> cint option"
  match_strdup :: "string \<Rightarrow> string option"
  match_token :: "string \<Rightarrow> token \<times> string option"
  sb_any_quota_loaded :: bool

datatype 'a outcome = Returned (returned: 'a) | Panic | Bug

datatype mount_step = is_Continue: Continue (step_sb: super_block) | Failed_mount

definition EXT4_SB :: "super_block \<Rightarrow> ext4_sb_info" where
  "EXT4_SB sb = s_fs_info sb"

definition upd_sbi :: "(ext4_sb_info \<Rightarrow> ext4_sb_info) \<Rightarrow> super_block \<Rightarrow> super_block" where
  "upd_sbi f sb = sb\<lparr>s_fs_info := f (s_fs_info sb)\<rparr>"

definition upd_es :: "(ext4_super_block \<Rightarrow> ext4_super_block) \<Rightarrow> super_block \<Rightarrow> super_block" where
  "upd_es f sb = upd_sbi (\<lambda>sbi. sbi\<lparr>s_es := f (s_es sbi)\<rparr>) sb"

text \<open>
  Modelled from the spec: the feature accessors \<open>EXT4_HAS_COMPAT_FEATURE\<close>,
  \<open>EXT4_HAS_RO_COMPAT_FEATURE\<close> and \<open>EXT4_HAS_INCOMPAT_FEATURE\<close> and the option test
  \<open>test_opt\<close> are macros of the absent \<open>ext4.h\<close>. The spec (design notes) describes them
  as raw bitmask tests on the feature bitsets and on the option word;
  \<open>ext4_feature_set_ok\<close> prints the same masked value it tests.
\<close>

definition EXT4_HAS_COMPAT_FEATURE :: "super_block \<Rightarrow> u32 \<Rightarrow> bool" where
  "EXT4_HAS_COMPAT_FEATURE sb msk \<longleftrightarrow> s_feature_compat (s_es (EXT4_SB sb)) AND msk \<noteq> 0"

definition EXT4_HAS_RO_COMPAT_FEATURE :: "super_block \<Rightarrow> u32 \<Rightarrow> bool" where
  "EXT4_HAS_RO_COMPAT_FEATURE sb msk \<longleftrightarrow> s_feature_ro_compat (s_es (EXT4_SB sb)) AND msk \<noteq> 0"

definition EXT4_HAS_INCOMPAT_FEATURE :: "super_block \<Rightarrow> u32 \<Rightarrow> bool" where
  "EXT4_HAS_INCOMPAT_FEATURE sb msk \<longleftrightarrow> s_feature_incompat (s_es (EXT4_SB sb)) AND msk \<noteq> 0"

definition test_opt :: "super_block \<Rightarrow> u32 \<Rightarrow> u32" where
  "test_opt sb opt = s_mount_opt (EXT4_SB sb) AND opt"

definition test_opt2 :: "super_block \<Rightarrow> u32 \<Rightarrow> u32" where
  "test_opt2 sb opt = s_mount_opt2 (EXT4_SB sb) AND opt"

section \<open>Feature gate\<close>

text \<open>
  \<open>ext4_feature_set_ok\<close>: the C function returns 1 (here \<open>True\<close>) when the volume can be
  mounted as requested and 0 otherwise; \<open>readonly\<close> is the C \<open>int\<close> argument, tested for
  being nonzero.
\<close>

definition ext4_feature_set_ok :: "ext4_h \<Rightarrow> super_block \<Rightarrow> cint \<Rightarrow> bool" where
  "ext4_feature_set_ok h sb readonly =
     (if EXT4_HAS_INCOMPAT_FEATURE sb (NOT (EXT4_FEATURE_INCOMPAT_SUPP h)) then False
      else if readonly \<noteq> 0 then True
      else if EXT4_HAS_RO_COMPAT_FEATURE sb (NOT (EXT4_FEATURE_RO_COMPAT_SUPP h)) then False
      else if EXT4_HAS_RO_COMPAT_FEATURE sb (EXT4_FEATURE_RO_COMPAT_HUGE_FILE h)
              \<and> blkcnt_t_narrow h then False
      else if EXT4_HAS_RO_COMPAT_FEATURE sb (EXT4_FEATURE_RO_COMPAT_BIGALLOC h)
              \<and> \<not> EXT4_HAS_INCOMPAT_FEATURE sb (EXT4_FEATURE_INCOMPAT_EXTENTS h) then False
      else True)"

section \<open>CRC-16\<close>

text \<open>
  Modelled from the spec: \<open>crc16\<close> is the kernel library routine of \<open>lib/crc16.c\<close>, which is
  not among the sources; the spec names its result only as a 16-bit checksum. The model is
  that routine: a byte-wise, table-driven CRC-16 with the reflected polynomial \<open>0xA001\<close>
  (\<open>x^16 + x^15 + x^2 + 1\<close>). \<open>crc16_table\<close> gives the entry of the 256-entry table for an
  index, computed by the eight shift steps that generate the table.
\<close>

definition crc16_shift :: "u16 \<Rightarrow> u16" where
  "crc16_shift c = (if bit c 0 then drop_bit 1 c XOR 0xA001 else drop_bit 1 c)"

definition crc16_table :: "u8 \<Rightarrow> u16" where
  "crc16_table i = (crc16_shift ^^ 8) (ucast i)"

definition crc16_byte :: "u16 \<Rightarrow> u8 \<Rightarrow> u16" where
  "crc16_byte crc data = drop_bit 8 crc XOR crc16_table (ucast ((crc XOR ucast data) AND 0xff))"

fun crc16 :: "u16 \<Rightarrow> u8 list \<Rightarrow> u16" where
  "crc16 crc [] = crc"
| "crc16 crc (b # buffer) = crc16 (crc16_byte crc b) buffer"

section \<open>Group descriptors\<close>

text \<open>Little-endian reads of a 16-bit and a 32-bit field at a byte offset, and the bytes of
  a \<open>__le32\<close> value in memory order.\<close>

definition get_le16 :: "bytes \<Rightarrow> nat \<Rightarrow> u16" where
  "get_le16 p off = ucast (p off) OR push_bit 8 (ucast (p (off + 1)))"

definition get_le32 :: "bytes \<Rightarrow> nat \<Rightarrow> u32" where
  "get_le32 p off = ucast (p off) OR push_bit 8 (ucast (p (off + 1)))
     OR push_bit 16 (ucast (p (off + 2))) OR push_bit 24 (ucast (p (off + 3)))"

definition le32_bytes :: "u32 \<Rightarrow> u8 list" where
  "le32_bytes v = [ucast v, ucast (drop_bit 8 v), ucast (drop_bit 16 v), ucast (drop_bit 24 v)]"

text \<open>
  Modelled from the spec: \<open>EXT4_DESC_SIZE\<close> and \<open>EXT4_BLOCKS_PER_GROUP\<close> are accessor macros
  of the absent \<open>ext4.h\<close> for the derived geometry kept in \<open>ext4_sb_info\<close> (descriptor size,
  blocks per group); \<open>ext4_get_group_desc\<close> (\<open>balloc.c\<close>, absent) returns the descriptor of
  a group from the descriptor table, an ordered sequence of fixed-size records, one per
  group.
\<close>

definition EXT4_DESC_SIZE :: "super_block \<Rightarrow> ulong" where
  "EXT4_DESC_SIZE sb = s_desc_size_sbi (EXT4_SB sb)"

definition EXT4_BLOCKS_PER_GROUP :: "super_block \<Rightarrow> ulong" where
  "EXT4_BLOCKS_PER_GROUP sb = s_blocks_per_group (EXT4_SB sb)"

definition ext4_get_group_desc :: "super_block \<Rightarrow> u32 \<Rightarrow> bytes" where
  "ext4_get_group_desc sb block_group = s_group_desc (EXT4_SB sb) block_group"

definition ext4_block_bitmap :: "ext4_h \<Rightarrow> super_block \<Rightarrow> bytes \<Rightarrow> u64" where
  "ext4_block_bitmap h sb bg =
     ucast (get_le32 bg (offsetof_bg_block_bitmap_lo h)) OR
     (if EXT4_DESC_SIZE sb \<ge> EXT4_MIN_DESC_SIZE_64BIT h
      then push_bit 32 (ucast (get_le32 bg (offsetof_bg_block_bitmap_hi h))) else 0)"

definition ext4_inode_bitmap :: "ext4_h \<Rightarrow> super_block \<Rightarrow> bytes \<Rightarrow> u64" where
  "ext4_inode_bitmap h sb bg =
     ucast (get_le32 bg (offsetof_bg_inode_bitmap_lo h)) OR
     (if EXT4_DESC_SIZE sb \<ge> EXT4_MIN_DESC_SIZE_64BIT h
      then push_bit 32 (ucast (get_le32 bg (offsetof_bg_inode_bitmap_hi h))) else 0)"

definition ext4_inode_table :: "ext4_h \<Rightarrow> super_block \<Rightarrow> bytes \<Rightarrow> u64" where
  "ext4_inode_table h sb bg =
     ucast (get_le32 bg (offsetof_bg_inode_table_lo h)) OR
     (if EXT4_DESC_SIZE sb \<ge> EXT4_MIN_DESC_SIZE_64BIT h
      then push_bit 32 (ucast (get_le32 bg (offsetof_bg_inode_table_hi h))) else 0)"

text \<open>
  \<open>ext4_group_desc_csum\<close>. \<open>sizeof(s_uuid)\<close> is 16 and \<open>sizeof(bg_checksum)\<close> is 2;
  \<open>~0\<close> passed as the \<open>u16\<close> seed is \<open>0xFFFF\<close>.
\<close>

definition ext4_group_desc_csum :: "ext4_h \<Rightarrow> ext4_sb_info \<Rightarrow> u32 \<Rightarrow> bytes \<Rightarrow> u16" where
  "ext4_group_desc_csum h sbi block_group gdp =
     (if s_feature_ro_compat (s_es sbi) AND EXT4_FEATURE_RO_COMPAT_GDT_CSUM h \<noteq> 0 then
        (let offset = offsetof_bg_checksum h;
             crc = crc16 (NOT 0) (map (s_uuid (s_es sbi)) [0..<16]);
             crc = crc16 crc (le32_bytes block_group);
             crc = crc16 crc (map gdp [0..<offset]);
             offset = offset + 2
         in if s_feature_incompat (s_es sbi) AND EXT4_FEATURE_INCOMPAT_64BIT h \<noteq> 0
               \<and> offset < unat (s_desc_size (s_es sbi))
            then crc16 crc (map gdp [offset..<unat (s_desc_size (s_es sbi))])
            else crc)
      else 0)"

definition bg_checksum :: "ext4_h \<Rightarrow> bytes \<Rightarrow> u16" where
  "bg_checksum h gdp = get_le16 gdp (offsetof_bg_checksum h)"

definition bg_flags :: "ext4_h \<Rightarrow> bytes \<Rightarrow> u16" where
  "bg_flags h gdp = get_le16 gdp (offsetof_bg_flags h)"

definition ext4_group_desc_csum_verify :: "ext4_h \<Rightarrow> ext4_sb_info \<Rightarrow> u32 \<Rightarrow> bytes \<Rightarrow> bool" where
  "ext4_group_desc_csum_verify h sbi block_group gdp =
     (if s_feature_ro_compat (s_es sbi) AND EXT4_FEATURE_RO_COMPAT_GDT_CSUM h \<noteq> 0
         \<and> bg_checksum h gdp \<noteq> ext4_group_desc_csum h sbi block_group gdp
      then False else True)"

text \<open>
  The loop of \<open>ext4_check_descriptors\<close>, from group \<open>i\<close> on. The result is the return
  value so far (\<open>False\<close> for \<open>return 0\<close>), the value of \<open>grp\<close>, and the groups for which
  the checksum-failure message was printed. \<open>ext4_lock_group\<close> and \<open>ext4_unlock_group\<close>
  do nothing in this sequential model.
\<close>

function check_descriptors_loop ::
  "ext4_h \<Rightarrow> super_block \<Rightarrow> bool \<Rightarrow> u32 \<Rightarrow> u64 \<Rightarrow> u32 \<Rightarrow> u32 list \<Rightarrow> bool \<times> u32 \<times> u32 list" where
  "check_descriptors_loop h sb flexbg_flag i first_block grp warned =
     (if i < s_groups_count (EXT4_SB sb) then
        (let sbi = EXT4_SB sb;
             gdp = ext4_get_group_desc sb i;
             last_block = (if i = s_groups_count sbi - 1 \<or> flexbg_flag
                           then s_blocks_count (s_es sbi) - 1
                           else first_block + ucast (EXT4_BLOCKS_PER_GROUP sb - 1));
             grp = (if grp = s_groups_count sbi \<and> bg_flags h gdp AND EXT4_BG_INODE_ZEROED h = 0
                    then i else grp);
             block_bitmap = ext4_block_bitmap h sb gdp;
             inode_bitmap = ext4_inode_bitmap h sb gdp;
             inode_table = ext4_inode_table h sb gdp;
             csum_ok = ext4_group_desc_csum_verify h sbi i gdp;
             warned = (if csum_ok then warned else warned @ [i])
         in if block_bitmap < first_block \<or> block_bitmap > last_block then (False, grp, warned)
            else if inode_bitmap < first_block \<or> inode_bitmap > last_block then (False, grp, warned)
            else if inode_table < first_block
                    \<or> inode_table + ucast (s_itb_per_group sbi) - 1 > last_block
                 then (False, grp, warned)
            else if \<not> csum_ok \<and> s_flags sb AND MS_RDONLY h = 0 then (False, grp, warned)
            else check_descriptors_loop h sb flexbg_flag (i + 1)
                   (if \<not> flexbg_flag then first_block + ucast (EXT4_BLOCKS_PER_GROUP sb)
                    else first_block) grp warned)
      else (True, grp, warned))"
  by pat_completeness auto
termination
proof (relation "measure (\<lambda>(h, sb, f, i, fb, grp, w). unat (s_groups_count (EXT4_SB sb)) - unat i)")
  show "wf (measure (\<lambda>(h, sb, f, i, fb, grp, w). unat (s_groups_count (EXT4_SB sb)) - unat i))"
    by simp
next
  fix h :: ext4_h and sb :: super_block and i :: u32
  assume lt: "i < s_groups_count (EXT4_SB sb)"
  have ul: "unat i < unat (s_groups_count (EXT4_SB sb))" using lt by (simp add: word_less_nat_alt)
  have "unat (s_groups_count (EXT4_SB sb)) < 2 ^ LENGTH(32)" by (rule unsigned_less)
  then have "unat i + unat (1 :: u32) < 2 ^ LENGTH(32)" using ul by simp
  then have "unat (i + 1) = unat i + 1" by (simp add: unat_add_lem [THEN iffD1])
  moreover note ul
  ultimately show "\<And>flexbg_flag first_block grp warned x xa xb xc xd xe xf xg xh.
       ((h, sb, flexbg_flag, i + 1, xh, xc, xg), (h, sb, flexbg_flag, i, first_block, grp, warned))
       \<in> measure (\<lambda>(h, sb, f, i, fb, grp, w). unat (s_groups_count (EXT4_SB sb)) - unat i)"
    by simp
qed

declare check_descriptors_loop.simps [simp del]

text \<open>
  \<open>ext4_check_descriptors\<close>: the return value, the value stored through
  \<open>first_not_zeroed\<close> (the caller passes a non-NULL pointer), the groups whose checksum
  failure was reported, and the superblock after the call. The two free counts written on
  success come from \<open>ext4_count_free_clusters\<close> and \<open>ext4_count_free_inodes\<close>
  (\<open>balloc.c\<close>, \<open>ialloc.c\<close>, absent), taken from the \<open>kernel\<close> record; \<open>EXT4_C2B\<close> shifts a
  cluster count left by the cluster bits.
\<close>

definition EXT4_C2B :: "ext4_sb_info \<Rightarrow> u64 \<Rightarrow> u64" where
  "EXT4_C2B sbi cluster = push_bit (s_cluster_bits sbi) cluster"

definition ext4_check_descriptors ::
  "ext4_h \<Rightarrow> kernel \<Rightarrow> super_block \<Rightarrow> bool \<times> u32 option \<times> u32 list \<times> super_block" where
  "ext4_check_descriptors h k sb =
     (let sbi = EXT4_SB sb;
          first_block = ucast (s_first_data_block (s_es sbi));
          flexbg_flag = EXT4_HAS_INCOMPAT_FEATURE sb (EXT4_FEATURE_INCOMPAT_FLEX_BG h)
      in case check_descriptors_loop h sb flexbg_flag 0 first_block (s_groups_count sbi) [] of
           (False, grp, warned) \<Rightarrow> (False, None, warned, sb)
         | (True, grp, warned) \<Rightarrow>
             (True, Some grp, warned,
              upd_es (\<lambda>es. es\<lparr>s_free_blocks_count := EXT4_C2B sbi (count_free_clusters k),
                               s_free_inodes_count := count_free_inodes k\<rparr>) sb))"

section \<open>Persisting the superblock\<close>

definition block_device_ejected :: "super_block \<Rightarrow> bool" where
  "block_device_ejected sb \<longleftrightarrow> \<not> bdi_dev_present sb"

text \<open>
  Modelled from the spec: the buffer layer (\<open>mark_buffer_dirty\<close>, \<open>sync_dirty_buffer\<close> of
  \<open>fs/buffer.c\<close>) and \<open>percpu_counter_sum_positive\<close> are absent. Marking the backing block
  dirty sets the dirty bit; the synchronous path hands a dirty block to the block I/O
  collaborator (\<open>write_block\<close>), blocks until the write completes and leaves the dirty bit
  clear; the runtime counters are read as non-negative sums.
\<close>

definition mark_buffer_dirty :: "super_block \<Rightarrow> buffer_head \<Rightarrow> buffer_head \<times> super_block" where
  "mark_buffer_dirty sb bh =
     (bh\<lparr>b_dirty := True\<rparr>,
      sb\<lparr>blk_events := blk_events sb @ [Mark_buffer_dirty (s_es (EXT4_SB sb))]\<rparr>)"

definition sync_dirty_buffer ::
  "kernel \<Rightarrow> super_block \<Rightarrow> buffer_head \<Rightarrow> cint \<times> buffer_head \<times> super_block" where
  "sync_dirty_buffer k sb bh =
     (if b_dirty bh
      then (sync_dirty_buffer_ret k,
            bh\<lparr>b_dirty := False, b_write_io_error := b_write_io_error bh \<or> sync_write_io_error k\<rparr>,
            sb\<lparr>blk_events := blk_events sb @ [Submit_write (s_es (EXT4_SB sb))]\<rparr>)
      else (0, bh, sb))"

definition percpu_counter_sum_positive :: "u64 \<Rightarrow> u64" where
  "percpu_counter_sum_positive fbc = (if fbc <s 0 then 0 else fbc)"

text \<open>
  \<open>ext4_commit_super\<close>: the returned error and the state after the call. The buffer head
  is written back into \<open>s_sbh\<close> at the end, as the C code updates it in place.
\<close>

definition ext4_commit_super :: "ext4_h \<Rightarrow> kernel \<Rightarrow> super_block \<Rightarrow> bool \<Rightarrow> cint \<times> super_block" where
  "ext4_commit_super h k sb sync =
     (case s_sbh (EXT4_SB sb) of
        None \<Rightarrow> (0, sb)
      | Some sbh \<Rightarrow>
         if block_device_ejected sb then (0, sb)
         else
          (let sbh = (if b_write_io_error sbh
                      then sbh\<lparr>b_write_io_error := False, b_uptodate := True\<rparr> else sbh);
               sb = (if s_flags sb AND MS_RDONLY h = 0
                     then upd_es (\<lambda>es. es\<lparr>s_wtime := get_seconds k\<rparr>) sb else sb);
               sbi = EXT4_SB sb;
               sb = (case bd_part_sectors sb of
                       Some sectors \<Rightarrow>
                         upd_es (\<lambda>es. es\<lparr>s_kbytes_written := s_kbytes_written_sbi sbi +
                            ucast (drop_bit 1 (sectors - s_sectors_written_start sbi))\<rparr>) sb
                     | None \<Rightarrow> upd_es (\<lambda>es. es\<lparr>s_kbytes_written := s_kbytes_written_sbi sbi\<rparr>) sb);
               sb = upd_es (\<lambda>es. es\<lparr>s_free_blocks_count :=
                        EXT4_C2B sbi (percpu_counter_sum_positive (s_freeclusters_counter sbi))\<rparr>) sb;
               sb = upd_es (\<lambda>es. es\<lparr>s_free_inodes_count :=
                        ucast (percpu_counter_sum_positive (s_freeinodes_counter sbi))\<rparr>) sb;
               sb = sb\<lparr>s_dirt := False\<rparr>;
               (sbh, sb) = mark_buffer_dirty sb sbh
           in if sync then
                (let (error, sbh, sb) = sync_dirty_buffer k sb sbh
                 in if error \<noteq> 0 then (error, upd_sbi (\<lambda>sbi. sbi\<lparr>s_sbh := Some sbh\<rparr>) sb)
                    else if b_write_io_error sbh
                    then (1, upd_sbi (\<lambda>sbi. sbi\<lparr>s_sbh :=
                               Some (sbh\<lparr>b_write_io_error := False, b_uptodate := True\<rparr>)\<rparr>) sb)
                    else (0, upd_sbi (\<lambda>sbi. sbi\<lparr>s_sbh := Some sbh\<rparr>) sb))
              else (0, upd_sbi (\<lambda>sbi. sbi\<lparr>s_sbh := Some sbh\<rparr>) sb)))"

section \<open>Error reporting\<close>

text \<open>\<open>strncpy(dst, src, n)\<close> as the resulting \<open>n\<close> bytes of \<open>dst\<close>: the bytes of \<open>src\<close> up
  to its terminating NUL, cut at \<open>n\<close>, padded with NUL bytes.\<close>

definition strncpy :: "u8 list \<Rightarrow> nat \<Rightarrow> u8 list" where
  "strncpy src n = take n (takeWhile (\<lambda>c. c \<noteq> 0) src @ replicate n 0)"

text \<open>
  \<open>__save_error_info\<close> (an Isabelle name cannot start with an underscore, so the model
  writes \<open>save_error_info'\<close>). \<open>mod_timer\<close> (absent) makes the timer pending with the given
  expiry time.
\<close>

definition save_error_info' :: "ext4_h \<Rightarrow> kernel \<Rightarrow> super_block \<Rightarrow> u8 list \<Rightarrow> u32 \<Rightarrow> super_block" where
  "save_error_info' h k sb func line =
     (let sb = upd_sbi (\<lambda>sbi. sbi\<lparr>s_mount_state := s_mount_state sbi OR EXT4_ERROR_FS h\<rparr>) sb;
          sb = upd_es (\<lambda>es. es\<lparr>s_state := s_state es OR EXT4_ERROR_FS h\<rparr>) sb;
          sb = upd_es (\<lambda>es. es\<lparr>s_last_error_time := get_seconds k\<rparr>) sb;
          sb = upd_es (\<lambda>es. es\<lparr>s_last_error_func := strncpy func (sizeof_s_error_func h)\<rparr>) sb;
          sb = upd_es (\<lambda>es. es\<lparr>s_last_error_line := line\<rparr>) sb;
          sb = (if s_first_error_time (s_es (EXT4_SB sb)) = 0
                then upd_es (\<lambda>es. es\<lparr>s_first_error_time := s_last_error_time es,
                                       s_first_error_func := strncpy func (sizeof_s_error_func h),
                                       s_first_error_line := line,
                                       s_first_error_ino := s_last_error_ino es,
                                       s_first_error_block := s_last_error_block es\<rparr>) sb
                else sb);
          sb = (if s_error_count (s_es (EXT4_SB sb)) = 0
                then upd_sbi (\<lambda>sbi. sbi\<lparr>s_err_report := Some (jiffies k + 24 * 60 * 60 * HZ h)\<rparr>) sb
                else sb)
      in upd_es (\<lambda>es. es\<lparr>s_error_count := s_error_count es + 1\<rparr>) sb)"

definition save_error_info :: "ext4_h \<Rightarrow> kernel \<Rightarrow> super_block \<Rightarrow> u8 list \<Rightarrow> u32 \<Rightarrow> super_block" where
  "save_error_info h k sb func line =
     snd (ext4_commit_super h k (save_error_info' h k sb func line) True)"

text \<open>
  \<open>ext4_handle_error\<close>, \<open>__ext4_error\<close> and \<open>__ext4_abort\<close> (here \<open>ext4_error\<close> and
  \<open>ext4_abort\<close>). A call either returns with a new state or ends in \<open>panic\<close>. The
  \<open>printk\<close> and \<open>ext4_msg\<close> lines are not part of the state.
\<close>

definition ext4_handle_error :: "ext4_h \<Rightarrow> kernel \<Rightarrow> super_block \<Rightarrow> super_block outcome" where
  "ext4_handle_error h k sb =
     (if s_flags sb AND MS_RDONLY h \<noteq> 0 then Returned sb
      else
       (let sb = (if test_opt sb (EXT4_MOUNT_ERRORS_CONT h) = 0
                  then (let journal = s_journal (EXT4_SB sb);
                            sb = upd_sbi (\<lambda>sbi. sbi\<lparr>s_mount_flags :=
                                    s_mount_flags sbi OR EXT4_MF_FS_ABORTED h\<rparr>) sb
                        in case journal of
                             Some j \<Rightarrow> upd_sbi (\<lambda>sbi. sbi\<lparr>s_journal :=
                                         Some (jbd2_journal_abort k j (- EIO h))\<rparr>) sb
                           | None \<Rightarrow> sb)
                  else sb);
            sb = (if test_opt sb (EXT4_MOUNT_ERRORS_RO h) \<noteq> 0
                  then sb\<lparr>s_flags := s_flags sb OR MS_RDONLY h\<rparr> else sb)
        in if test_opt sb (EXT4_MOUNT_ERRORS_PANIC h) \<noteq> 0 then
             (case s_journal (EXT4_SB sb) of
                Some j \<Rightarrow> if j_flags j AND JBD2_REC_ERR h = 0 then Returned sb else Panic
              | None \<Rightarrow> Panic)
           else Returned sb))"

definition ext4_error :: "ext4_h \<Rightarrow> kernel \<Rightarrow> super_block \<Rightarrow> u8 list \<Rightarrow> u32 \<Rightarrow> super_block outcome" where
  "ext4_error h k sb function line = ext4_handle_error h k (save_error_info h k sb function line)"

definition ext4_abort :: "ext4_h \<Rightarrow> kernel \<Rightarrow> super_block \<Rightarrow> u8 list \<Rightarrow> u32 \<Rightarrow> super_block outcome" where
  "ext4_abort h k sb function line =
     (let sb = save_error_info h k sb function line;
          sb = (if s_flags sb AND MS_RDONLY h = 0
                then (let sb = sb\<lparr>s_flags := s_flags sb OR MS_RDONLY h\<rparr>;
                          sb = upd_sbi (\<lambda>sbi. sbi\<lparr>s_mount_flags :=
                                  s_mount_flags sbi OR EXT4_MF_FS_ABORTED h\<rparr>) sb;
                          sb = (case s_journal (EXT4_SB sb) of
                                  Some j \<Rightarrow> upd_sbi (\<lambda>sbi. sbi\<lparr>s_journal :=
                                              Some (jbd2_journal_abort k j (- EIO h))\<rparr>) sb
                                | None \<Rightarrow> sb)
                      in save_error_info h k sb function line)
                else sb)
      in if test_opt sb (EXT4_MOUNT_ERRORS_PANIC h) \<noteq> 0 then
           (case s_journal (EXT4_SB sb) of
              Some j \<Rightarrow> if j_flags j AND JBD2_REC_ERR h = 0 then Returned sb else Panic
            | None \<Rightarrow> Panic)
         else Returned sb)"

section \<open>Mount-time setup\<close>

definition ext4_update_dynamic_rev :: "ext4_h \<Rightarrow> super_block \<Rightarrow> super_block" where
  "ext4_update_dynamic_rev h sb =
     (if s_rev_level (s_es (EXT4_SB sb)) > EXT4_GOOD_OLD_REV h then sb
      else upd_es (\<lambda>es. es\<lparr>s_first_ino := EXT4_GOOD_OLD_FIRST_INO h,
                             s_inode_size := EXT4_GOOD_OLD_INODE_SIZE h,
                             s_rev_level := EXT4_DYNAMIC_REV h\<rparr>) sb)"

text \<open>
  \<open>ext4_setup_super\<close>: the returned \<open>res\<close> and the state after the call. The chain of
  warnings (unchecked fs, fs with errors, mount count, check time) only prints; the debug
  line and \<open>cleancache_init_fs\<close> do not touch the state modelled here. \<open>(__s16) x\<close> is zero
  exactly when \<open>x\<close> is.
\<close>

definition ext4_setup_super :: "ext4_h \<Rightarrow> kernel \<Rightarrow> super_block \<Rightarrow> cint \<Rightarrow> ulong \<times> super_block" where
  "ext4_setup_super h k sb read_only =
     (let res = (if s_rev_level (s_es (EXT4_SB sb)) > EXT4_MAX_SUPP_REV h then MS_RDONLY h else 0)
      in if read_only \<noteq> 0 then (res, sb)
         else
          (let sb = (if s_journal (EXT4_SB sb) = None
                     then upd_es (\<lambda>es. es\<lparr>s_state := s_state es AND NOT (EXT4_VALID_FS h)\<rparr>) sb
                     else sb);
               sb = (if s_max_mnt_count (s_es (EXT4_SB sb)) = 0
                     then upd_es (\<lambda>es. es\<lparr>s_max_mnt_count := EXT4_DFL_MAX_MNT_COUNT h\<rparr>) sb
                     else sb);
               sb = upd_es (\<lambda>es. es\<lparr>s_mnt_count := s_mnt_count es + 1\<rparr>) sb;
               sb = upd_es (\<lambda>es. es\<lparr>s_mtime := get_seconds k\<rparr>) sb;
               sb = ext4_update_dynamic_rev h sb;
               sb = (if s_journal (EXT4_SB sb) \<noteq> None
                     then upd_es (\<lambda>es. es\<lparr>s_feature_incompat :=
                             s_feature_incompat es OR EXT4_FEATURE_INCOMPAT_RECOVER h\<rparr>) sb
                     else sb)
           in (res, snd (ext4_commit_super h k sb True))))"

text \<open>
  The step of \<open>ext4_fill_super\<close> that calls \<open>ext4_setup_super\<close>
  (\<open>if (ext4_setup_super(sb, es, sb->s_flags & MS_RDONLY)) sb->s_flags |= MS_RDONLY;\<close>).
  In \<open>ext4_fill_super\<close> a rejected mount is a jump to one of the \<open>failed_mount\<close> labels;
  this step has none, so it always continues.
\<close>

definition fill_super_setup_super :: "ext4_h \<Rightarrow> kernel \<Rightarrow> super_block \<Rightarrow> mount_step" where
  "fill_super_setup_super h k sb =
     (let (res, sb) = ext4_setup_super h k sb (s_flags sb AND MS_RDONLY h)
      in if res \<noteq> 0 then Continue (sb\<lparr>s_flags := s_flags sb OR MS_RDONLY h\<rparr>) else Continue sb)"

section \<open>Orphan cleanup\<close>

text \<open>
  Modelled from the spec: \<open>ext4_orphan_get\<close> (\<open>ialloc.c\<close>), \<open>ext4_truncate\<close> (\<open>inode.c\<close>)
  and \<open>iput\<close> (\<open>fs/inode.c\<close>) are absent. After the spec (orphan cleanup): the head
  identifier is resolved via the storage collaborator and may be unresolvable; an inode
  with a nonzero link count has its pending truncation finished, one with a zero link
  count has its deletion finished; then the walk advances to the next chain entry using
  the inode's own stored next field. Here \<open>ext4_orphan_get\<close> looks the number up in
  \<open>inode_store\<close>; \<open>ext4_truncate\<close> records the finished truncation; \<open>iput\<close> finishes the
  deletion of an inode without links (it leaves the store), takes the inode off the
  in-memory orphan list and stores the inode's next field in the head pointer.
\<close>

definition ext4_orphan_get :: "super_block \<Rightarrow> u32 \<Rightarrow> ext4_inode option" where
  "ext4_orphan_get sb ino = inode_store sb ino"

definition ext4_truncate :: "super_block \<Rightarrow> u32 \<Rightarrow> super_block" where
  "ext4_truncate sb ino = sb\<lparr>truncated := truncated sb @ [ino]\<rparr>"

definition iput :: "super_block \<Rightarrow> u32 \<Rightarrow> ext4_inode \<Rightarrow> super_block" where
  "iput sb ino inode =
     (let sb = (if i_nlink inode = 0
                then sb\<lparr>inode_store := (inode_store sb)(ino := None), deleted := deleted sb @ [ino]\<rparr>
                else sb);
          sb = upd_sbi (\<lambda>sbi. sbi\<lparr>s_orphan := remove1 ino (s_orphan sbi)\<rparr>) sb
      in upd_es (\<lambda>es. es\<lparr>s_last_orphan := i_next_orphan inode\<rparr>) sb)"

text \<open>
  The \<open>while (es->s_last_orphan)\<close> loop of \<open>ext4_orphan_cleanup\<close> with its two counters. The
  loop need not end (a chain may lead back into itself): not returning is the value
  \<open>None\<close>.
\<close>

partial_function (option) orphan_loop ::
  "super_block \<Rightarrow> cint \<Rightarrow> cint \<Rightarrow> (super_block \<times> cint \<times> cint) option" where
  "orphan_loop sb nr_orphans nr_truncates =
     (if s_last_orphan (s_es (EXT4_SB sb)) \<noteq> 0 then
        (let ino = s_last_orphan (s_es (EXT4_SB sb)) in
         case ext4_orphan_get sb ino of
           None \<Rightarrow> Some (upd_es (\<lambda>es. es\<lparr>s_last_orphan := 0\<rparr>) sb, nr_orphans, nr_truncates)
         | Some inode \<Rightarrow>
             (let sb = upd_sbi (\<lambda>sbi. sbi\<lparr>s_orphan := ino # s_orphan sbi\<rparr>) sb in
              if i_nlink inode \<noteq> 0
              then orphan_loop (iput (ext4_truncate sb ino) ino inode) nr_orphans (nr_truncates + 1)
              else orphan_loop (iput sb ino inode) (nr_orphans + 1) nr_truncates))
      else Some (sb, nr_orphans, nr_truncates))"

text \<open>
  \<open>ext4_orphan_cleanup\<close>: the state after the call with the final \<open>nr_orphans\<close> and
  \<open>nr_truncates\<close>. The \<open>CONFIG_QUOTA\<close> blocks are left out (quota accounting is outside the
  model; their change to \<open>s_flags\<close> is undone by the final restore).
\<close>

definition ext4_orphan_cleanup :: "ext4_h \<Rightarrow> super_block \<Rightarrow> (super_block \<times> cint \<times> cint) option" where
  "ext4_orphan_cleanup h sb =
     (let s_flags0 = s_flags sb in
      if s_last_orphan (s_es (EXT4_SB sb)) = 0 then Some (sb, 0, 0)
      else if bdev_ro sb then Some (sb, 0, 0)
      else if \<not> ext4_feature_set_ok h sb 0 then Some (sb, 0, 0)
      else if s_mount_state (EXT4_SB sb) AND EXT4_ERROR_FS h \<noteq> 0
      then Some (upd_es (\<lambda>es. es\<lparr>s_last_orphan := 0\<rparr>) sb, 0, 0)
      else
       (let sb = (if s_flags0 AND MS_RDONLY h \<noteq> 0
                  then sb\<lparr>s_flags := s_flags sb AND NOT (MS_RDONLY h)\<rparr> else sb)
        in case orphan_loop sb 0 0 of
             None \<Rightarrow> None
           | Some (sb, nr_orphans, nr_truncates) \<Rightarrow>
               Some (sb\<lparr>s_flags := s_flags0\<rparr>, nr_orphans, nr_truncates)))"

section \<open>Mount options and remount\<close>

text \<open>
  The further constants that option parsing and \<open>ext4_remount\<close> take from the absent headers
  (\<open>ext4.h\<close>, \<open>linux/fs.h\<close>, \<open>linux/jbd2.h\<close>, \<open>linux/quota.h\<close>, \<open>linux/ioprio.h\<close>,
  \<open>linux/pagemap.h\<close>) and the three build options that change the code of these
  functions.
\<close>

record mount_h =
  MS_I_VERSION :: ulong
  IOPRIO_PRIO_VALUE :: "u32 \<Rightarrow> u32 \<Rightarrow> u32"
  IOPRIO_CLASS_BE :: u32
  JBD2_DEFAULT_MAX_COMMIT_AGE :: cint
  EXT4_DEF_MAX_BATCH_TIME :: cint
  EXT4_DEF_LI_WAIT_MULT :: cint
  BLOCK_SIZE :: cint
  PAGE_CACHE_SIZE :: ulong
  EXT4_MOUNT_MINIX_DF :: u32
  EXT4_MOUNT_GRPID :: u32
  EXT4_MOUNT_MBLK_IO_SUBMIT :: u32
  EXT4_MOUNT_BLOCK_VALIDITY :: u32
  EXT4_MOUNT_DISCARD :: u32
  EXT4_MOUNT_DELALLOC :: u32
  EXT4_MOUNT_JOURNAL_CHECKSUM :: u32
  EXT4_MOUNT_JOURNAL_ASYNC_COMMIT :: u32
  EXT4_MOUNT_NOLOAD :: u32
  EXT4_MOUNT_DATA_ERR_ABORT :: u32
  EXT4_MOUNT_BARRIER :: u32
  EXT4_MOUNT_NO_AUTO_DA_ALLOC :: u32
  EXT4_MOUNT_ORDERED_DATA :: u32
  EXT4_MOUNT_WRITEBACK_DATA :: u32
  EXT4_MOUNT_XATTR_USER :: u32
  EXT4_MOUNT_NO_UID32 :: u32
  EXT4_MOUNT_QUOTA :: u32
  EXT4_MOUNT_USRQUOTA :: u32
  EXT4_MOUNT_GRPQUOTA :: u32
  EXT4_MOUNT_ERRORS_MASK :: u32
  QFMT_VFS_OLD :: u32
  QFMT_VFS_V0 :: u32
  QFMT_VFS_V1 :: u32
  USRQUOTA :: nat
  GRPQUOTA :: nat
  MAXQUOTAS :: nat
  CONFIG_QUOTA :: bool
  CONFIG_EXT4_FS_XATTR :: bool
  CONFIG_EXT4_FS_POSIX_ACL :: bool
  JBD2_BARRIER :: ulong
  JBD2_ABORT_ON_SYNCDATA_ERR :: ulong
  EXT4_FEATURE_COMPAT_HAS_JOURNAL :: u32

text \<open>
  Modelled from the spec: \<open>set_opt\<close>, \<open>clear_opt\<close> and \<open>set_opt2\<close> are macros of the absent
  \<open>ext4.h\<close>; like \<open>test_opt\<close> they are raw bitmask operations on the option words.
\<close>

definition set_opt :: "super_block \<Rightarrow> u32 \<Rightarrow> super_block" where
  "set_opt sb opt = upd_sbi (\<lambda>sbi. sbi\<lparr>s_mount_opt := s_mount_opt sbi OR opt\<rparr>) sb"

definition clear_opt :: "super_block \<Rightarrow> u32 \<Rightarrow> super_block" where
  "clear_opt sb opt = upd_sbi (\<lambda>sbi. sbi\<lparr>s_mount_opt := s_mount_opt sbi AND NOT opt\<rparr>) sb"

definition set_opt2 :: "super_block \<Rightarrow> u32 \<Rightarrow> super_block" where
  "set_opt2 sb opt = upd_sbi (\<lambda>sbi. sbi\<lparr>s_mount_opt2 := s_mount_opt2 sbi OR opt\<rparr>) sb"

definition DEFAULT_JOURNAL_IOPRIO :: "mount_h \<Rightarrow> u32" where
  "DEFAULT_JOURNAL_IOPRIO m = IOPRIO_PRIO_VALUE m (IOPRIO_CLASS_BE m) 3"

text \<open>
  \<open>set_qf_name\<close> and \<open>clear_qf_name\<close> (compiled under \<open>CONFIG_QUOTA\<close>): the return value and
  the state after the call. \<open>args\<close> is the text of the matched argument.
\<close>

definition set_qf_name :: "mount_h \<Rightarrow> kernel \<Rightarrow> super_block \<Rightarrow> nat \<Rightarrow> string \<Rightarrow> cint \<times> super_block" where
  "set_qf_name m k sb qtype args =
     (let sbi = EXT4_SB sb in
      if sb_any_quota_loaded k \<and> s_qf_names sbi qtype = None then (- 1, sb)
      else case match_strdup k args of
             None \<Rightarrow> (- 1, sb)
           | Some qname \<Rightarrow>
               if s_qf_names sbi qtype \<noteq> None \<and> s_qf_names sbi qtype \<noteq> Some qname then (- 1, sb)
               else
                (let sb = upd_sbi (\<lambda>sbi. sbi\<lparr>s_qf_names := (s_qf_names sbi)(qtype := Some qname)\<rparr>) sb
                 in if CHR ''/'' \<in> set qname
                    then (- 1, upd_sbi (\<lambda>sbi. sbi\<lparr>s_qf_names := (s_qf_names sbi)(qtype := None)\<rparr>) sb)
                    else (1, set_opt sb (EXT4_MOUNT_QUOTA m))))"

definition clear_qf_name :: "kernel \<Rightarrow> super_block \<Rightarrow> nat \<Rightarrow> cint \<times> super_block" where
  "clear_qf_name k sb qtype =
     (if sb_any_quota_loaded k \<and> s_qf_names (EXT4_SB sb) qtype \<noteq> None then (- 1, sb)
      else (1, upd_sbi (\<lambda>sbi. sbi\<lparr>s_qf_names := (s_qf_names sbi)(qtype := None)\<rparr>) sb))"

definition MOPT_SET :: u32 where "MOPT_SET = 0x0001"
definition MOPT_CLEAR :: u32 where "MOPT_CLEAR = 0x0002"
definition MOPT_NOSUPPORT :: u32 where "MOPT_NOSUPPORT = 0x0004"
definition MOPT_EXPLICIT :: u32 where "MOPT_EXPLICIT = 0x0008"
definition MOPT_CLEAR_ERR :: u32 where "MOPT_CLEAR_ERR = 0x0010"
definition MOPT_GTE0 :: u32 where "MOPT_GTE0 = 0x0020"
definition MOPT_Q :: "mount_h \<Rightarrow> u32" where
  "MOPT_Q m = (if CONFIG_QUOTA m then 0 else MOPT_NOSUPPORT)"
definition MOPT_QFMT :: "mount_h \<Rightarrow> u32" where
  "MOPT_QFMT m = (if CONFIG_QUOTA m then 0x0040 else MOPT_NOSUPPORT)"
definition MOPT_DATAJ :: u32 where "MOPT_DATAJ = 0x0080"

text \<open>
  The table \<open>ext4_mount_opts\<close>: token, option bits, flags. The closing row
  \<open>{Opt_err, 0, 0}\<close> is the end of the list.
\<close>

definition ext4_mount_opts :: "ext4_h \<Rightarrow> mount_h \<Rightarrow> (token \<times> u32 \<times> u32) list" where
  "ext4_mount_opts h m =
    [(Opt_minix_df, EXT4_MOUNT_MINIX_DF m, MOPT_SET),
     (Opt_bsd_df, EXT4_MOUNT_MINIX_DF m, MOPT_CLEAR),
     (Opt_grpid, EXT4_MOUNT_GRPID m, MOPT_SET),
     (Opt_nogrpid, EXT4_MOUNT_GRPID m, MOPT_CLEAR),
     (Opt_mblk_io_submit, EXT4_MOUNT_MBLK_IO_SUBMIT m, MOPT_SET),
     (Opt_nomblk_io_submit, EXT4_MOUNT_MBLK_IO_SUBMIT m, MOPT_CLEAR),
     (Opt_block_validity, EXT4_MOUNT_BLOCK_VALIDITY m, MOPT_SET),
     (Opt_noblock_validity, EXT4_MOUNT_BLOCK_VALIDITY m, MOPT_CLEAR),
     (Opt_dioread_nolock, EXT4_MOUNT_DIOREAD_NOLOCK h, MOPT_SET),
     (Opt_dioread_lock, EXT4_MOUNT_DIOREAD_NOLOCK h, MOPT_CLEAR),
     (Opt_discard, EXT4_MOUNT_DISCARD m, MOPT_SET),
     (Opt_nodiscard, EXT4_MOUNT_DISCARD m, MOPT_CLEAR),
     (Opt_delalloc, EXT4_MOUNT_DELALLOC m, MOPT_SET OR MOPT_EXPLICIT),
     (Opt_nodelalloc, EXT4_MOUNT_DELALLOC m, MOPT_CLEAR OR MOPT_EXPLICIT),
     (Opt_journal_checksum, EXT4_MOUNT_JOURNAL_CHECKSUM m, MOPT_SET),
     (Opt_journal_async_commit,
        EXT4_MOUNT_JOURNAL_ASYNC_COMMIT m OR EXT4_MOUNT_JOURNAL_CHECKSUM m, MOPT_SET),
     (Opt_noload, EXT4_MOUNT_NOLOAD m, MOPT_SET),
     (Opt_err_panic, EXT4_MOUNT_ERRORS_PANIC h, MOPT_SET OR MOPT_CLEAR_ERR),
     (Opt_err_ro, EXT4_MOUNT_ERRORS_RO h, MOPT_SET OR MOPT_CLEAR_ERR),
     (Opt_err_cont, EXT4_MOUNT_ERRORS_CONT h, MOPT_SET OR MOPT_CLEAR_ERR),
     (Opt_data_err_abort, EXT4_MOUNT_DATA_ERR_ABORT m, MOPT_SET),
     (Opt_data_err_ignore, EXT4_MOUNT_DATA_ERR_ABORT m, MOPT_CLEAR),
     (Opt_barrier, EXT4_MOUNT_BARRIER m, MOPT_SET),
     (Opt_nobarrier, EXT4_MOUNT_BARRIER m, MOPT_CLEAR),
     (Opt_noauto_da_alloc, EXT4_MOUNT_NO_AUTO_DA_ALLOC m, MOPT_SET),
     (Opt_auto_da_alloc, EXT4_MOUNT_NO_AUTO_DA_ALLOC m, MOPT_CLEAR),
     (Opt_noinit_itable, EXT4_MOUNT_INIT_INODE_TABLE h, MOPT_CLEAR),
     (Opt_commit, 0, MOPT_GTE0),
     (Opt_max_batch_time, 0, MOPT_GTE0),
     (Opt_min_batch_time, 0, MOPT_GTE0),
     (Opt_inode_readahead_blks, 0, MOPT_GTE0),
     (Opt_init_itable, 0, MOPT_GTE0),
     (Opt_stripe, 0, MOPT_GTE0),
     (Opt_data_journal, EXT4_MOUNT_JOURNAL_DATA h, MOPT_DATAJ),
     (Opt_data_ordered, EXT4_MOUNT_ORDERED_DATA m, MOPT_DATAJ),
     (Opt_data_writeback, EXT4_MOUNT_WRITEBACK_DATA m, MOPT_DATAJ)]
    @ (if CONFIG_EXT4_FS_XATTR m
       then [(Opt_user_xattr, EXT4_MOUNT_XATTR_USER m, MOPT_SET),
             (Opt_nouser_xattr, EXT4_MOUNT_XATTR_USER m, MOPT_CLEAR)]
       else [(Opt_user_xattr, 0, MOPT_NOSUPPORT),
             (Opt_nouser_xattr, 0, MOPT_NOSUPPORT)])
    @ (if CONFIG_EXT4_FS_POSIX_ACL m
       then [(Opt_acl, EXT4_MOUNT_POSIX_ACL h, MOPT_SET),
             (Opt_noacl, EXT4_MOUNT_POSIX_ACL h, MOPT_CLEAR)]
       else [(Opt_acl, 0, MOPT_NOSUPPORT),
             (Opt_noacl, 0, MOPT_NOSUPPORT)])
    @ [(Opt_nouid32, EXT4_MOUNT_NO_UID32 m, MOPT_SET),
       (Opt_debug, EXT4_MOUNT_DEBUG h, MOPT_SET),
       (Opt_quota, EXT4_MOUNT_QUOTA m OR EXT4_MOUNT_USRQUOTA m, MOPT_SET OR MOPT_Q m),
       (Opt_usrquota, EXT4_MOUNT_QUOTA m OR EXT4_MOUNT_USRQUOTA m, MOPT_SET OR MOPT_Q m),
       (Opt_grpquota, EXT4_MOUNT_QUOTA m OR EXT4_MOUNT_GRPQUOTA m, MOPT_SET OR MOPT_Q m),
       (Opt_noquota, EXT4_MOUNT_QUOTA m OR EXT4_MOUNT_USRQUOTA m OR EXT4_MOUNT_GRPQUOTA m,
          MOPT_CLEAR OR MOPT_Q m),
       (Opt_usrjquota, 0, MOPT_Q m),
       (Opt_grpjquota, 0, MOPT_Q m),
       (Opt_offusrjquota, 0, MOPT_Q m),
       (Opt_offgrpjquota, 0, MOPT_Q m),
       (Opt_jqfmt_vfsold, QFMT_VFS_OLD m, MOPT_QFMT m),
       (Opt_jqfmt_vfsv0, QFMT_VFS_V0 m, MOPT_QFMT m),
       (Opt_jqfmt_vfsv1, QFMT_VFS_V1 m, MOPT_QFMT m)]"

text \<open>\<open>is_power_of_2\<close> of \<open>linux/log2.h\<close>, on the argument converted to \<open>unsigned long\<close>.\<close>

definition is_power_of_2 :: "ulong \<Rightarrow> bool" where
  "is_power_of_2 n \<longleftrightarrow> n \<noteq> 0 \<and> n AND (n - 1) = 0"

text \<open>
  The body of the \<open>for\<close> loop of \<open>handle_mount_opt\<close> for the first row of the table with the
  given token: the return value and the state. \<open>from\<close> is \<open>args->from\<close> being non-zero and
  \<open>arg\<close> the integer read from it (0 without argument).
\<close>

definition mount_opt_row ::
  "ext4_h \<Rightarrow> mount_h \<Rightarrow> kernel \<Rightarrow> super_block \<Rightarrow> token \<Rightarrow> u32 \<Rightarrow> u32 \<Rightarrow> bool \<Rightarrow> cint \<Rightarrow> bool
     \<Rightarrow> cint \<times> super_block" where
  "mount_opt_row h m k sb token mount_opt mflags from arg is_remount =
     (if from \<and> mflags AND MOPT_GTE0 \<noteq> 0 \<and> arg <s 0 then (- 1, sb)
      else
       (let sb = (if mflags AND MOPT_EXPLICIT \<noteq> 0
                  then set_opt2 sb (EXT4_MOUNT2_EXPLICIT_DELALLOC h) else sb);
            sb = (if mflags AND MOPT_CLEAR_ERR \<noteq> 0
                  then clear_opt sb (EXT4_MOUNT_ERRORS_MASK m) else sb)
        in if token = Opt_noquota \<and> sb_any_quota_loaded k then (- 1, sb)
           else if mflags AND MOPT_NOSUPPORT \<noteq> 0 then (1, sb)
           else if token = Opt_commit then
             (1, upd_sbi (\<lambda>sbi. sbi\<lparr>s_commit_interval :=
                    HZ h * (if arg = 0 then JBD2_DEFAULT_MAX_COMMIT_AGE m else arg)\<rparr>) sb)
           else if token = Opt_max_batch_time then
             (1, upd_sbi (\<lambda>sbi. sbi\<lparr>s_max_batch_time :=
                    (if arg = 0 then EXT4_DEF_MAX_BATCH_TIME m else arg)\<rparr>) sb)
           else if token = Opt_min_batch_time then
             (1, upd_sbi (\<lambda>sbi. sbi\<lparr>s_min_batch_time := arg\<rparr>) sb)
           else if token = Opt_inode_readahead_blks then
             (if push_bit 30 1 <s arg then (- 1, sb)
              else if arg \<noteq> 0 \<and> \<not> is_power_of_2 arg then (- 1, sb)
              else (1, upd_sbi (\<lambda>sbi. sbi\<lparr>s_inode_readahead_blks := arg\<rparr>) sb))
           else if token = Opt_init_itable then
             (1, upd_sbi (\<lambda>sbi. sbi\<lparr>s_li_wait_mult :=
                    (if \<not> from then EXT4_DEF_LI_WAIT_MULT m else arg)\<rparr>)
                   (set_opt sb (EXT4_MOUNT_INIT_INODE_TABLE h)))
           else if token = Opt_stripe then
             (1, upd_sbi (\<lambda>sbi. sbi\<lparr>s_stripe := arg\<rparr>) sb)
           else if mflags AND MOPT_DATAJ \<noteq> 0 then
             (if is_remount then
                (if s_journal (EXT4_SB sb) = None then (1, sb)
                 else if test_opt sb (EXT4_MOUNT_DATA_FLAGS h) \<noteq> mount_opt then (- 1, sb)
                 else (1, sb))
              else (1, upd_sbi (\<lambda>sbi. sbi\<lparr>s_mount_opt := s_mount_opt sbi OR mount_opt\<rparr>)
                         (clear_opt sb (EXT4_MOUNT_DATA_FLAGS h))))
           else if CONFIG_QUOTA m \<and> mflags AND MOPT_QFMT m \<noteq> 0 then
             (if sb_any_quota_loaded k \<and> s_jquota_fmt (EXT4_SB sb) \<noteq> mount_opt then (- 1, sb)
              else (1, upd_sbi (\<lambda>sbi. sbi\<lparr>s_jquota_fmt := mount_opt\<rparr>) sb))
           else
            (let arg = (if \<not> from then 1 else arg) in
             if mflags AND MOPT_CLEAR = 0 \<and> mflags AND MOPT_SET = 0 then (- 1, sb)
             else
              (let arg = (if mflags AND MOPT_CLEAR \<noteq> 0 then (if arg = 0 then 1 else 0) else arg)
               in if arg \<noteq> 0
                  then (1, upd_sbi (\<lambda>sbi. sbi\<lparr>s_mount_opt := s_mount_opt sbi OR mount_opt\<rparr>) sb)
                  else (1, upd_sbi (\<lambda>sbi. sbi\<lparr>s_mount_opt := s_mount_opt sbi AND NOT mount_opt\<rparr>) sb)))))"

text \<open>
  The \<open>for\<close> loop of \<open>handle_mount_opt\<close> over the rows of the table: rows with another token
  are skipped, the first row with the token decides, and a token with no row is
  unrecognized.
\<close>

fun mount_opts_loop ::
  "ext4_h \<Rightarrow> mount_h \<Rightarrow> kernel \<Rightarrow> (token \<times> u32 \<times> u32) list \<Rightarrow> super_block \<Rightarrow> token \<Rightarrow> bool \<Rightarrow> cint
     \<Rightarrow> bool \<Rightarrow> cint \<times> super_block" where
  "mount_opts_loop h m k [] sb token from arg is_remount = (- 1, sb)"
| "mount_opts_loop h m k ((mtoken, mount_opt, mflags) # rows) sb token from arg is_remount =
     (if token \<noteq> mtoken then mount_opts_loop h m k rows sb token from arg is_remount
      else mount_opt_row h m k sb token mount_opt mflags from arg is_remount)"

text \<open>
  \<open>handle_mount_opt\<close>: the return value, the state, and the values behind the two pointers
  \<open>journal_devnum\<close> (\<open>None\<close> for the NULL pointer that \<open>ext4_remount\<close> passes; it is written
  only when \<open>is_remount\<close> is false) and \<open>journal_ioprio\<close>. \<open>args\<close> is the text of the argument
  that \<open>match_token\<close> found, \<open>None\<close> when \<open>args->from\<close> is 0.
\<close>

definition handle_mount_opt ::
  "ext4_h \<Rightarrow> mount_h \<Rightarrow> kernel \<Rightarrow> super_block \<Rightarrow> token \<Rightarrow> string option \<Rightarrow> ulong option \<Rightarrow> u32 \<Rightarrow> bool
     \<Rightarrow> cint \<times> super_block \<times> ulong option \<times> u32" where
  "handle_mount_opt h m k sb token args journal_devnum journal_ioprio is_remount =
     (if CONFIG_QUOTA m \<and> token = Opt_usrjquota then
        (let (r, sb) = set_qf_name m k sb (USRQUOTA m) (case args of Some a \<Rightarrow> a | None \<Rightarrow> [])
         in (r, sb, journal_devnum, journal_ioprio))
      else if CONFIG_QUOTA m \<and> token = Opt_grpjquota then
        (let (r, sb) = set_qf_name m k sb (GRPQUOTA m) (case args of Some a \<Rightarrow> a | None \<Rightarrow> [])
         in (r, sb, journal_devnum, journal_ioprio))
      else if CONFIG_QUOTA m \<and> token = Opt_offusrjquota then
        (let (r, sb) = clear_qf_name k sb (USRQUOTA m) in (r, sb, journal_devnum, journal_ioprio))
      else if CONFIG_QUOTA m \<and> token = Opt_offgrpjquota then
        (let (r, sb) = clear_qf_name k sb (GRPQUOTA m) in (r, sb, journal_devnum, journal_ioprio))
      else
        case (case args of None \<Rightarrow> Some 0 | Some a \<Rightarrow> match_int k a) of
          None \<Rightarrow> (- 1, sb, journal_devnum, journal_ioprio)
        | Some arg \<Rightarrow>
            if token = Opt_sb then (1, sb, journal_devnum, journal_ioprio)
            else if token = Opt_removed then (1, sb, journal_devnum, journal_ioprio)
            else if token = Opt_resuid then
              (1, upd_sbi (\<lambda>sbi. sbi\<lparr>s_resuid := arg\<rparr>) sb, journal_devnum, journal_ioprio)
            else if token = Opt_resgid then
              (1, upd_sbi (\<lambda>sbi. sbi\<lparr>s_resgid := arg\<rparr>) sb, journal_devnum, journal_ioprio)
            else if token = Opt_abort then
              (1, upd_sbi (\<lambda>sbi. sbi\<lparr>s_mount_flags := s_mount_flags sbi OR EXT4_MF_FS_ABORTED h\<rparr>) sb,
               journal_devnum, journal_ioprio)
            else if token = Opt_i_version then
              (1, sb\<lparr>s_flags := s_flags sb OR MS_I_VERSION m\<rparr>, journal_devnum, journal_ioprio)
            else if token = Opt_journal_dev then
              (if is_remount then (- 1, sb, journal_devnum, journal_ioprio)
               else (1, sb, map_option (\<lambda>_. arg) journal_devnum, journal_ioprio))
            else if token = Opt_journal_ioprio then
              (if arg <s 0 \<or> 7 <s arg then (- 1, sb, journal_devnum, journal_ioprio)
               else (1, sb, journal_devnum, IOPRIO_PRIO_VALUE m (IOPRIO_CLASS_BE m) arg))
            else
              (let (r, sb) = mount_opts_loop h m k (ext4_mount_opts h m) sb token (args \<noteq> None) arg
                               is_remount
               in (r, sb, journal_devnum, journal_ioprio)))"

text \<open>
  \<open>strsep(&options, ",")\<close> called until it returns NULL: the pieces of the option string
  between commas, in order. \<open>acc\<close> holds the current piece reversed.
\<close>

fun strsep :: "string \<Rightarrow> string \<Rightarrow> string list" where
  "strsep acc [] = [rev acc]"
| "strsep acc (c # cs) = (if c = CHR '','' then rev acc # strsep [] cs else strsep (c # acc) cs)"

text \<open>The \<open>while\<close> loop of \<open>parse_options\<close> over the pieces; the first component is false
  when an option was refused (\<open>return 0\<close> inside the loop).\<close>

fun parse_options_loop ::
  "ext4_h \<Rightarrow> mount_h \<Rightarrow> kernel \<Rightarrow> string list \<Rightarrow> super_block \<Rightarrow> ulong option \<Rightarrow> u32 \<Rightarrow> bool
     \<Rightarrow> bool \<times> super_block \<times> ulong option \<times> u32" where
  "parse_options_loop h m k [] sb journal_devnum journal_ioprio is_remount =
     (True, sb, journal_devnum, journal_ioprio)"
| "parse_options_loop h m k (p # ps) sb journal_devnum journal_ioprio is_remount =
     (if p = [] then parse_options_loop h m k ps sb journal_devnum journal_ioprio is_remount
      else
       (let (token, args) = match_token k p;
            (r, sb, journal_devnum, journal_ioprio) =
               handle_mount_opt h m k sb token args journal_devnum journal_ioprio is_remount
        in if r <s 0 then (False, sb, journal_devnum, journal_ioprio)
           else parse_options_loop h m k ps sb journal_devnum journal_ioprio is_remount))"

text \<open>
  \<open>parse_options\<close>: the return value (1 or 0), the state, and the values behind the two
  pointers. \<open>options\<close> is \<open>None\<close> for a NULL string. The block size is
  \<open>BLOCK_SIZE << s_log_block_size\<close>, compared with \<open>PAGE_CACHE_SIZE\<close> as \<open>unsigned long\<close>.
\<close>

definition parse_options ::
  "ext4_h \<Rightarrow> mount_h \<Rightarrow> kernel \<Rightarrow> string option \<Rightarrow> super_block \<Rightarrow> ulong option \<Rightarrow> u32 \<Rightarrow> bool
     \<Rightarrow> cint \<times> super_block \<times> ulong option \<times> u32" where
  "parse_options h m k options sb journal_devnum journal_ioprio is_remount =
     (case options of
        None \<Rightarrow> (1, sb, journal_devnum, journal_ioprio)
      | Some opts \<Rightarrow>
         (let (ok, sb, journal_devnum, journal_ioprio) =
                parse_options_loop h m k (strsep [] opts) sb journal_devnum journal_ioprio is_remount
          in if \<not> ok then (0, sb, journal_devnum, journal_ioprio)
             else
              (let sbi = EXT4_SB sb;
                   quota_names = (CONFIG_QUOTA m
                      \<and> (s_qf_names sbi (USRQUOTA m) \<noteq> None \<or> s_qf_names sbi (GRPQUOTA m) \<noteq> None));
                   sb = (if quota_names \<and> test_opt sb (EXT4_MOUNT_USRQUOTA m) \<noteq> 0
                            \<and> s_qf_names sbi (USRQUOTA m) \<noteq> None
                         then clear_opt sb (EXT4_MOUNT_USRQUOTA m) else sb);
                   sb = (if quota_names \<and> test_opt sb (EXT4_MOUNT_GRPQUOTA m) \<noteq> 0
                            \<and> s_qf_names sbi (GRPQUOTA m) \<noteq> None
                         then clear_opt sb (EXT4_MOUNT_GRPQUOTA m) else sb)
               in if quota_names \<and> (test_opt sb (EXT4_MOUNT_GRPQUOTA m) \<noteq> 0
                                     \<or> test_opt sb (EXT4_MOUNT_USRQUOTA m) \<noteq> 0)
                  then (0, sb, journal_devnum, journal_ioprio)
                  else if quota_names \<and> s_jquota_fmt sbi = 0
                  then (0, sb, journal_devnum, journal_ioprio)
                  else if test_opt sb (EXT4_MOUNT_DIOREAD_NOLOCK h) \<noteq> 0
                          \<and> push_bit (unat (s_log_block_size (s_es sbi))) (BLOCK_SIZE m)
                              < PAGE_CACHE_SIZE m
                  then (0, sb, journal_devnum, journal_ioprio)
                  else (1, sb, journal_devnum, journal_ioprio))))"

text \<open>\<open>ext4_init_journal_params\<close>: the journal after the call.\<close>

definition ext4_init_journal_params :: "mount_h \<Rightarrow> super_block \<Rightarrow> journal_t \<Rightarrow> journal_t" where
  "ext4_init_journal_params m sb journal =
     (let sbi = EXT4_SB sb;
          journal = journal\<lparr>j_commit_interval := s_commit_interval sbi,
                            j_min_batch_time := s_min_batch_time sbi,
                            j_max_batch_time := s_max_batch_time sbi\<rparr>;
          journal = (if test_opt sb (EXT4_MOUNT_BARRIER m) \<noteq> 0
                     then journal\<lparr>j_flags := j_flags journal OR JBD2_BARRIER m\<rparr>
                     else journal\<lparr>j_flags := j_flags journal AND NOT (JBD2_BARRIER m)\<rparr>)
      in if test_opt sb (EXT4_MOUNT_DATA_ERR_ABORT m) \<noteq> 0
         then journal\<lparr>j_flags := j_flags journal OR JBD2_ABORT_ON_SYNCDATA_ERR m\<rparr>
         else journal\<lparr>j_flags := j_flags journal AND NOT (JBD2_ABORT_ON_SYNCDATA_ERR m)\<rparr>)"

text \<open>
  \<open>ext4_mark_recovery_complete\<close> and \<open>ext4_clear_journal_err\<close>. \<open>BUG_ON\<close> ends the call
  (\<open>Bug\<close>); so does handing a NULL journal to the journal layer, which \<open>ext4_remount\<close>
  excludes by testing \<open>s_journal\<close> before either call. The flush is seen through its
  return value; \<open>jbd2_journal_errno\<close> reads the error recorded in the journal.
\<close>

definition ext4_mark_recovery_complete ::
  "ext4_h \<Rightarrow> mount_h \<Rightarrow> kernel \<Rightarrow> super_block \<Rightarrow> super_block outcome" where
  "ext4_mark_recovery_complete h m k sb =
     (let journal = s_journal (EXT4_SB sb) in
      if \<not> EXT4_HAS_COMPAT_FEATURE sb (EXT4_FEATURE_COMPAT_HAS_JOURNAL m)
      then (if journal \<noteq> None then Bug else Returned sb)
      else case journal of
             None \<Rightarrow> Bug
           | Some j \<Rightarrow>
               if jbd2_journal_flush k j <s 0 then Returned sb
               else if EXT4_HAS_INCOMPAT_FEATURE sb (EXT4_FEATURE_INCOMPAT_RECOVER h)
                       \<and> s_flags sb AND MS_RDONLY h \<noteq> 0
               then Returned (snd (ext4_commit_super h k
                      (upd_es (\<lambda>es. es\<lparr>s_feature_incompat :=
                           s_feature_incompat es AND NOT (EXT4_FEATURE_INCOMPAT_RECOVER h)\<rparr>) sb) True))
               else Returned sb)"

definition ext4_clear_journal_err ::
  "ext4_h \<Rightarrow> mount_h \<Rightarrow> kernel \<Rightarrow> super_block \<Rightarrow> super_block outcome" where
  "ext4_clear_journal_err h m k sb =
     (if \<not> EXT4_HAS_COMPAT_FEATURE sb (EXT4_FEATURE_COMPAT_HAS_JOURNAL m) then Bug
      else case s_journal (EXT4_SB sb) of
             None \<Rightarrow> Bug
           | Some journal \<Rightarrow>
               if j_errno journal \<noteq> 0 then
                 (let sb = upd_sbi (\<lambda>sbi. sbi\<lparr>s_mount_state := s_mount_state sbi OR EXT4_ERROR_FS h\<rparr>) sb;
                      sb = upd_es (\<lambda>es. es\<lparr>s_state := s_state es OR EXT4_ERROR_FS h\<rparr>) sb;
                      sb = snd (ext4_commit_super h k sb True)
                  in Returned (upd_sbi (\<lambda>sbi. sbi\<lparr>s_journal :=
                                  Some (jbd2_journal_clear_err k journal)\<rparr>) sb))
               else Returned sb)"

text \<open>
  \<open>struct ext4_mount_options\<close>, the snapshot \<open>old_opts\<close> that \<open>ext4_remount\<close> takes on entry
  (the field \<open>old_opts.s_mount_opt\<close> is \<open>old_s_mount_opt\<close>, and so on; the two quota fields
  exist under \<open>CONFIG_QUOTA\<close> only and are not read without it).
\<close>

record ext4_mount_options =
  old_s_mount_opt :: u32
  old_s_mount_opt2 :: u32
  old_s_resuid :: u32
  old_s_resgid :: u32
  old_s_commit_interval :: ulong
  old_s_min_batch_time :: u32
  old_s_max_batch_time :: u32
  old_s_jquota_fmt :: cint
  old_s_qf_names :: "nat \<Rightarrow> string option"

definition store_opts :: "super_block \<Rightarrow> ext4_mount_options" where
  "store_opts sb =
     (let sbi = EXT4_SB sb in
      \<lparr>old_s_mount_opt = s_mount_opt sbi,
       old_s_mount_opt2 = s_mount_opt2 sbi,
       old_s_resuid = s_resuid sbi,
       old_s_resgid = s_resgid sbi,
       old_s_commit_interval = s_commit_interval sbi,
       old_s_min_batch_time = s_min_batch_time sbi,
       old_s_max_batch_time = s_max_batch_time sbi,
       old_s_jquota_fmt = s_jquota_fmt sbi,
       old_s_qf_names = s_qf_names sbi\<rparr>)"

text \<open>The code at the label \<open>restore_opts\<close>: the state in which \<open>ext4_remount\<close> returns
  its error.\<close>

definition restore_opts :: "mount_h \<Rightarrow> super_block \<Rightarrow> ulong \<Rightarrow> ext4_mount_options \<Rightarrow> super_block" where
  "restore_opts m sb old_sb_flags old_opts =
     (let sb = sb\<lparr>s_flags := old_sb_flags\<rparr>;
          sb = upd_sbi (\<lambda>sbi. sbi\<lparr>s_mount_opt := old_s_mount_opt old_opts,
                                  s_mount_opt2 := old_s_mount_opt2 old_opts,
                                  s_resuid := old_s_resuid old_opts,
                                  s_resgid := old_s_resgid old_opts,
                                  s_commit_interval := old_s_commit_interval old_opts,
                                  s_min_batch_time := old_s_min_batch_time old_opts,
                                  s_max_batch_time := old_s_max_batch_time old_opts\<rparr>) sb
      in if CONFIG_QUOTA m
         then upd_sbi (\<lambda>sbi. sbi\<lparr>s_jquota_fmt := old_s_jquota_fmt old_opts,
                                  s_qf_names := (\<lambda>i. if i < MAXQUOTAS m then old_s_qf_names old_opts i
                                                      else s_qf_names sbi i)\<rparr>) sb
         else sb)"

text \<open>
  The loop of \<open>ext4_remount\<close> over the group descriptors, from group \<open>g\<close> on: true when
  every checksum verifies.
\<close>

function remount_csum_loop :: "ext4_h \<Rightarrow> super_block \<Rightarrow> u32 \<Rightarrow> bool" where
  "remount_csum_loop h sb g =
     (if g < s_groups_count (EXT4_SB sb) then
        (if \<not> ext4_group_desc_csum_verify h (EXT4_SB sb) g (ext4_get_group_desc sb g) then False
         else remount_csum_loop h sb (g + 1))
      else True)"
  by pat_completeness auto
termination
proof (relation "measure (\<lambda>(h, sb, g). unat (s_groups_count (EXT4_SB sb)) - unat g)")
  show "wf (measure (\<lambda>(h, sb, g). unat (s_groups_count (EXT4_SB sb)) - unat g))"
    by simp
next
  fix h :: ext4_h and sb :: super_block and g :: u32
  assume lt: "g < s_groups_count (EXT4_SB sb)"
  have ul: "unat g < unat (s_groups_count (EXT4_SB sb))" using lt by (simp add: word_less_nat_alt)
  have "unat (s_groups_count (EXT4_SB sb)) < 2 ^ LENGTH(32)" by (rule unsigned_less)
  then have "unat g + unat (1 :: u32) < 2 ^ LENGTH(32)" using ul by simp
  then have "unat (g + 1) = unat g + 1" by (simp add: unat_add_lem [THEN iffD1])
  then show "((h, sb, g + 1), (h, sb, g))
       \<in> measure (\<lambda>(h, sb, g). unat (s_groups_count (EXT4_SB sb)) - unat g)"
    using ul by simp
qed

declare remount_csum_loop.simps [simp del]

text \<open>
  The two arms of the read-only/read-write transition in \<open>ext4_remount\<close>. Each gives
  either the error with which the function jumps to \<open>restore_opts\<close> (\<open>Inl\<close>) or the state
  with which it goes on (\<open>Inr\<close>). \<open>dquot_suspend\<close> and \<open>ext4_multi_mount_protect\<close> are seen
  through their return values.
\<close>

definition remount_to_ro ::
  "ext4_h \<Rightarrow> mount_h \<Rightarrow> kernel \<Rightarrow> super_block \<Rightarrow> (cint \<times> super_block + super_block) outcome" where
  "remount_to_ro h m k sb =
     (let err = dquot_suspend k sb in
      if err <s 0 then Returned (Inl (err, sb))
      else
       (let sb = sb\<lparr>s_flags := s_flags sb OR MS_RDONLY h\<rparr>;
            sbi = EXT4_SB sb;
            sb = (if s_state (s_es sbi) AND EXT4_VALID_FS h = 0
                     \<and> s_mount_state sbi AND EXT4_VALID_FS h \<noteq> 0
                  then upd_es (\<lambda>es. es\<lparr>s_state := s_mount_state sbi\<rparr>) sb else sb)
        in if s_journal (EXT4_SB sb) \<noteq> None
           then (case ext4_mark_recovery_complete h m k sb of
                   Returned sb \<Rightarrow> Returned (Inr sb) | Panic \<Rightarrow> Panic | Bug \<Rightarrow> Bug)
           else Returned (Inr sb)))"

definition remount_to_rw ::
  "ext4_h \<Rightarrow> mount_h \<Rightarrow> kernel \<Rightarrow> super_block \<Rightarrow> (cint \<times> super_block + super_block) outcome" where
  "remount_to_rw h m k sb =
     (if \<not> ext4_feature_set_ok h sb 0 then Returned (Inl (- EROFS h, sb))
      else if \<not> remount_csum_loop h sb 0 then Returned (Inl (- EINVAL h, sb))
      else if s_last_orphan (s_es (EXT4_SB sb)) \<noteq> 0 then Returned (Inl (- EINVAL h, sb))
      else
        case (if s_journal (EXT4_SB sb) \<noteq> None then ext4_clear_journal_err h m k sb
              else Returned sb) of
          Panic \<Rightarrow> Panic
        | Bug \<Rightarrow> Bug
        | Returned sb \<Rightarrow>
           (let sb = upd_sbi (\<lambda>sbi. sbi\<lparr>s_mount_state := s_state (s_es sbi)\<rparr>) sb;
                (res, sb) = ext4_setup_super h k sb 0;
                sb = (if res = 0 then sb\<lparr>s_flags := s_flags sb AND NOT (MS_RDONLY h)\<rparr> else sb)
            in if EXT4_HAS_INCOMPAT_FEATURE sb (EXT4_FEATURE_INCOMPAT_MMP h)
                  \<and> ext4_multi_mount_protect k sb \<noteq> 0
               then Returned (Inl (- EROFS h, sb))
               else Returned (Inr sb)))"

text \<open>
  \<open>ext4_remount\<close>: the returned error and the state after the call, or the way the call
  ends without returning. \<open>flags\<close> is the value of \<open>*flags\<close>, which the function only
  reads; \<open>data\<close> is the option string, \<open>None\<close> when NULL. \<open>set_task_ioprio\<close> gives the journal
  task the priority. The lazy-init request and the system zone are outside the state
  modelled here; the quota resume and the release of strings do not touch it.
\<close>

definition ext4_remount ::
  "ext4_h \<Rightarrow> mount_h \<Rightarrow> kernel \<Rightarrow> super_block \<Rightarrow> cint \<Rightarrow> string option \<Rightarrow> (cint \<times> super_block) outcome" where
  "ext4_remount h m k sb flags data =
     (let old_sb_flags = s_flags sb;
          old_opts = store_opts sb;
          journal_ioprio =
            (case s_journal (EXT4_SB sb) of
               Some j \<Rightarrow> (case j_task_ioprio j of Some p \<Rightarrow> p | None \<Rightarrow> DEFAULT_JOURNAL_IOPRIO m)
             | None \<Rightarrow> DEFAULT_JOURNAL_IOPRIO m);
          (ok, sb, journal_devnum, journal_ioprio) =
             parse_options h m k data sb None journal_ioprio True
      in if ok = 0 then Returned (- EINVAL h, restore_opts m sb old_sb_flags old_opts)
         else if test_opt sb (EXT4_MOUNT_DATA_FLAGS h) = EXT4_MOUNT_JOURNAL_DATA h
                 \<and> test_opt2 sb (EXT4_MOUNT2_EXPLICIT_DELALLOC h) \<noteq> 0
         then Returned (- EINVAL h, restore_opts m sb old_sb_flags old_opts)
         else if test_opt sb (EXT4_MOUNT_DATA_FLAGS h) = EXT4_MOUNT_JOURNAL_DATA h
                 \<and> test_opt sb (EXT4_MOUNT_DIOREAD_NOLOCK h) \<noteq> 0
         then Returned (- EINVAL h, restore_opts m sb old_sb_flags old_opts)
         else
           case (if s_mount_flags (EXT4_SB sb) AND EXT4_MF_FS_ABORTED h \<noteq> 0
                 then ext4_abort h k sb (map of_char ''ext4_remount'') 4435
                 else Returned sb) of
             Panic \<Rightarrow> Panic
           | Bug \<Rightarrow> Bug
           | Returned sb \<Rightarrow>
              (let sb = sb\<lparr>s_flags := (s_flags sb AND NOT (MS_POSIXACL h))
                              OR (if test_opt sb (EXT4_MOUNT_POSIX_ACL h) \<noteq> 0
                                  then MS_POSIXACL h else 0)\<rparr>;
                   sb = (case s_journal (EXT4_SB sb) of
                           Some j \<Rightarrow> upd_sbi (\<lambda>sbi. sbi\<lparr>s_journal :=
                               Some ((ext4_init_journal_params m sb j)
                                       \<lparr>j_task_ioprio := Some journal_ioprio\<rparr>)\<rparr>) sb
                         | None \<Rightarrow> sb)
               in case (if flags AND MS_RDONLY h \<noteq> s_flags sb AND MS_RDONLY h then
                          (if s_mount_flags (EXT4_SB sb) AND EXT4_MF_FS_ABORTED h \<noteq> 0
                           then Returned (Inl (- EROFS h, sb))
                           else if flags AND MS_RDONLY h \<noteq> 0 then remount_to_ro h m k sb
                           else remount_to_rw h m k sb)
                        else Returned (Inr sb)) of
                    Panic \<Rightarrow> Panic
                  | Bug \<Rightarrow> Bug
                  | Returned (Inl (err, sb)) \<Rightarrow>
                      Returned (err, restore_opts m sb old_sb_flags old_opts)
                  | Returned (Inr sb) \<Rightarrow>
                     (let sb = (if s_flags sb AND MS_RDONLY h \<noteq> 0
                                   \<or> test_opt sb (EXT4_MOUNT_INIT_INODE_TABLE h) = 0
                                then ext4_unregister_li_request k sb
                                else ext4_register_li_request k sb (ext4_has_uninit_itable k sb));
                          sb = ext4_setup_system_zone k sb;
                          sb = (if s_journal (EXT4_SB sb) = None \<and> old_sb_flags AND MS_RDONLY h = 0
                                then snd (ext4_commit_super h k sb True) else sb)
                      in Returned (0, sb))))"

section \<open>A concrete configuration\<close>

text \<open>
  The values the headers of this kernel generation give the constants, and one small
  volume. They are used for the concrete instances below only; no general theorem depends
  on them.
\<close>

definition sample_h :: ext4_h where
  "sample_h = \<lparr>
     EXT4_FEATURE_INCOMPAT_SUPP = 0x3D6,
     EXT4_FEATURE_RO_COMPAT_SUPP = 0x27F,
     EXT4_FEATURE_RO_COMPAT_HUGE_FILE = 0x8,
     EXT4_FEATURE_RO_COMPAT_BIGALLOC = 0x200,
     EXT4_FEATURE_RO_COMPAT_GDT_CSUM = 0x10,
     EXT4_FEATURE_INCOMPAT_EXTENTS = 0x40,
     EXT4_FEATURE_INCOMPAT_64BIT = 0x80,
     EXT4_FEATURE_INCOMPAT_FLEX_BG = 0x200,
     EXT4_FEATURE_INCOMPAT_RECOVER = 0x4,
     EXT4_FEATURE_INCOMPAT_MMP = 0x100,
     blkcnt_t_narrow = False,
     EXT4_MIN_DESC_SIZE_64BIT = 64,
     EXT4_BG_INODE_ZEROED = 0x4,
     sizeof_s_error_func = 32,
     offsetof_bg_block_bitmap_lo = 0,
     offsetof_bg_inode_bitmap_lo = 4,
     offsetof_bg_inode_table_lo = 8,
     offsetof_bg_flags = 18,
     offsetof_bg_checksum = 30,
     offsetof_bg_block_bitmap_hi = 32,
     offsetof_bg_inode_bitmap_hi = 36,
     offsetof_bg_inode_table_hi = 40,
     EXT4_VALID_FS = 0x1,
     EXT4_ERROR_FS = 0x2,
     MS_RDONLY = 0x1,
     MS_POSIXACL = 0x10000,
     EXT4_MF_FS_ABORTED = 0x2,
     EXT4_MOUNT_ERRORS_CONT = 0x10,
     EXT4_MOUNT_ERRORS_RO = 0x20,
     EXT4_MOUNT_ERRORS_PANIC = 0x40,
     EXT4_MOUNT_DEBUG = 0x8,
     EXT4_MOUNT_POSIX_ACL = 0x8000,
     EXT4_MOUNT_DATA_FLAGS = 0xC00,
     EXT4_MOUNT_JOURNAL_DATA = 0x400,
     EXT4_MOUNT_DIOREAD_NOLOCK = 0x400000,
     EXT4_MOUNT_INIT_INODE_TABLE = 0x4000000,
     EXT4_MOUNT2_EXPLICIT_DELALLOC = 0x1,
     JBD2_REC_ERR = 0x80,
     EXT4_MAX_SUPP_REV = 1,
     EXT4_GOOD_OLD_REV = 0,
     EXT4_DYNAMIC_REV = 1,
     EXT4_GOOD_OLD_FIRST_INO = 11,
     EXT4_GOOD_OLD_INODE_SIZE = 128,
     EXT4_DFL_MAX_MNT_COUNT = 20,
     HZ = 100,
     EIO = 5,
     EINVAL = 22,
     EROFS = 30 \<rparr>"

definition sample_es :: ext4_super_block where
  "sample_es = \<lparr>
     s_rev_level = 1,
     s_feature_compat = 0,
     s_feature_incompat = 0x42,
     s_feature_ro_compat = 0x10,
     s_uuid = (\<lambda>i. of_nat i),
     s_desc_size = 32,
     s_first_data_block = 1,
     s_blocks_count = 16385,
     s_free_blocks_count = 100,
     s_free_inodes_count = 50,
     s_kbytes_written = 0,
     s_state = 1,
     s_mnt_count = 3,
     s_max_mnt_count = 20,
     s_checkinterval = 0,
     s_lastcheck = 0,
     s_mtime = 1000,
     s_wtime = 1000,
     s_first_ino = 11,
     s_inode_size = 256,
     s_last_orphan = 0,
     s_error_count = 0,
     s_first_error_time = 0,
     s_first_error_ino = 0,
     s_first_error_block = 0,
     s_first_error_func = replicate 32 0,
     s_first_error_line = 0,
     s_last_error_time = 0,
     s_last_error_ino = 0,
     s_last_error_line = 0,
     s_last_error_block = 0,
     s_last_error_func = replicate 32 0,
     s_log_block_size = 2 \<rparr>"

definition sample_sbi :: ext4_sb_info where
  "sample_sbi = \<lparr>
     s_es = sample_es,
     s_sbh = Some \<lparr>b_write_io_error = False, b_uptodate = True, b_dirty = False\<rparr>,
     s_journal = None,
     s_mount_state = 1,
     s_mount_flags = 0,
     s_mount_opt = 0x20,
     s_mount_opt2 = 0,
     s_resuid = 0,
     s_resgid = 0,
     s_commit_interval = 500,
     s_min_batch_time = 0,
     s_max_batch_time = 15000,
     s_jquota_fmt = 0,
     s_qf_names = (\<lambda>i. None),
     s_stripe = 0,
     s_inode_readahead_blks = 32,
     s_li_wait_mult = 10,
     s_desc_size_sbi = 32,
     s_groups_count = 2,
     s_blocks_per_group = 8192,
     s_itb_per_group = 64,
     s_cluster_bits = 0,
     s_group_desc = (\<lambda>g i. 0),
     s_freeclusters_counter = 70,
     s_freeinodes_counter = 40,
     s_kbytes_written_sbi = 7,
     s_sectors_written_start = 0,
     s_err_report = None,
     s_orphan = [] \<rparr>"

definition sample_sb :: super_block where
  "sample_sb = \<lparr>
     s_flags = 0,
     s_dirt = False,
     s_fs_info = sample_sbi,
     bdi_dev_present = True,
     bd_part_sectors = None,
     bdev_ro = False,
     blk_events = [],
     inode_store = (\<lambda>ino. None),
     truncated = [],
     deleted = [] \<rparr>"

definition sample_k :: kernel where
  "sample_k = \<lparr>
     get_seconds = 2000,
     jiffies = 300,
     sync_dirty_buffer_ret = 0,
     sync_write_io_error = False,
     count_free_clusters = 70,
     count_free_inodes = 40,
     jbd2_journal_abort = (\<lambda>j e. j\<lparr>j_errno := e\<rparr>),
     jbd2_journal_flush = (\<lambda>j. 0),
     jbd2_journal_clear_err = (\<lambda>j. j\<lparr>j_errno := 0\<rparr>),
     dquot_suspend = (\<lambda>sb. 0),
     ext4_multi_mount_protect = (\<lambda>sb. 0),
     ext4_unregister_li_request = (\<lambda>sb. sb),
     ext4_has_uninit_itable = (\<lambda>sb. 0),
     ext4_register_li_request = (\<lambda>sb g. sb),
     ext4_setup_system_zone = (\<lambda>sb. sb),
     match_int = (\<lambda>s. if s = ''8'' then Some 8 else None),
     match_strdup = Some,
     match_token = (\<lambda>p. if p = ''stripe=8'' then (Opt_stripe, Some ''8'')
                        else if p = ''abort'' then (Opt_abort, None)
                        else (Opt_err, None)),
     sb_any_quota_loaded = False \<rparr>"

text \<open>A volume mounted read-only under the panic policy (\<open>errors=panic\<close>).\<close>

definition sample_sb_ro_panic :: super_block where
  "sample_sb_ro_panic =
     (upd_sbi (\<lambda>sbi. sbi\<lparr>s_mount_opt := 0x40\<rparr>) sample_sb)\<lparr>s_flags := 1\<rparr>"

text \<open>A volume with the error flag in its mount state and a pending orphan chain headed by
  inode 12, on a device that is writable and on one that is read-only.\<close>

definition sample_sb_error_orphan :: super_block where
  "sample_sb_error_orphan =
     upd_sbi (\<lambda>sbi. sbi\<lparr>s_mount_state := 3\<rparr>) (upd_es (\<lambda>es. es\<lparr>s_last_orphan := 12\<rparr>) sample_sb)"

definition sample_sb_error_orphan_ro :: super_block where
  "sample_sb_error_orphan_ro = sample_sb_error_orphan\<lparr>bdev_ro := True\<rparr>"

text \<open>A volume whose superblock carries revision level 2, one above the maximum supported.\<close>

definition sample_sb_rev2 :: super_block where
  "sample_sb_rev2 = upd_es (\<lambda>es. es\<lparr>s_rev_level := 2\<rparr>) sample_sb"

text \<open>The sample volume after its device has been ejected, and after an earlier error
  has been recorded.\<close>

definition sample_sb_ejected :: super_block where
  "sample_sb_ejected = sample_sb\<lparr>bdi_dev_present := False\<rparr>"

definition sample_sb_seen_error :: super_block where
  "sample_sb_seen_error =
     upd_es (\<lambda>es. es\<lparr>s_first_error_time := 500, s_first_error_line := 3, s_error_count := 4\<rparr>) sample_sb"

text \<open>
  The three location tests of \<open>ext4_check_descriptors\<close> for one group, and the value
  \<open>first_block\<close> has when the loop reaches group \<open>i\<close>: the first data block, advanced by
  the blocks of a group for every earlier group unless the flex_bg feature is set.
\<close>

definition desc_in_range :: "ext4_h \<Rightarrow> super_block \<Rightarrow> bool \<Rightarrow> u32 \<Rightarrow> u64 \<Rightarrow> bool" where
  "desc_in_range h sb flexbg_flag i first_block =
     (let sbi = EXT4_SB sb;
          gdp = ext4_get_group_desc sb i;
          last_block = (if i = s_groups_count sbi - 1 \<or> flexbg_flag
                        then s_blocks_count (s_es sbi) - 1
                        else first_block + ucast (EXT4_BLOCKS_PER_GROUP sb - 1));
          block_bitmap = ext4_block_bitmap h sb gdp;
          inode_bitmap = ext4_inode_bitmap h sb gdp;
          inode_table = ext4_inode_table h sb gdp
      in \<not> (block_bitmap < first_block \<or> block_bitmap > last_block)
         \<and> \<not> (inode_bitmap < first_block \<or> inode_bitmap > last_block)
         \<and> \<not> (inode_table < first_block
               \<or> inode_table + ucast (s_itb_per_group sbi) - 1 > last_block))"

definition group_first_block :: "super_block \<Rightarrow> bool \<Rightarrow> u32 \<Rightarrow> u64" where
  "group_first_block sb flexbg_flag i =
     (if flexbg_flag then ucast (s_first_data_block (s_es (EXT4_SB sb)))
      else ucast (s_first_data_block (s_es (EXT4_SB sb)))
           + ucast i * ucast (EXT4_BLOCKS_PER_GROUP sb))"

definition descriptors_in_range :: "ext4_h \<Rightarrow> super_block \<Rightarrow> bool" where
  "descriptors_in_range h sb =
     (\<forall>i < s_groups_count (EXT4_SB sb).
        desc_in_range h sb (EXT4_HAS_INCOMPAT_FEATURE sb (EXT4_FEATURE_INCOMPAT_FLEX_BG h)) i
          (group_first_block sb (EXT4_HAS_INCOMPAT_FEATURE sb (EXT4_FEATURE_INCOMPAT_FLEX_BG h)) i))"

text \<open>
  A volume with one group. Its descriptor \<open>sample_gd\<close> places the block bitmap, the inode
  bitmap and the inode table at blocks 3, 4 and 5 and stores checksum 0.
  \<open>sample_gd_stored c\<close> is the same descriptor with \<open>c\<close> in its checksum field;
  \<open>sample_csum\<close> is the checksum the code computes for the descriptor as group 0 of the
  sample volume. So \<open>sample_gd_stored sample_csum\<close> carries the right checksum and
  \<open>sample_gd_stored (sample_csum XOR 1)\<close> the right checksum with one bit of its first byte
  flipped.
\<close>

definition sample_gd :: bytes where
  "sample_gd = (\<lambda>i. if i = 0 then 3 else if i = 4 then 4 else if i = 8 then 5 else 0)"

definition sample_gd_stored :: "u16 \<Rightarrow> bytes" where
  "sample_gd_stored c =
     (\<lambda>i. if i = 30 then ucast c else if i = 31 then ucast (drop_bit 8 c) else sample_gd i)"

definition sample_csum :: u16 where
  "sample_csum = ext4_group_desc_csum sample_h sample_sbi 0 sample_gd"

definition sample_sb_one_group :: "bytes \<Rightarrow> ulong \<Rightarrow> super_block" where
  "sample_sb_one_group gd flags =
     (upd_sbi (\<lambda>sbi. sbi\<lparr>s_groups_count := 1, s_group_desc := (\<lambda>g. gd)\<rparr>) sample_sb)
       \<lparr>s_flags := flags\<rparr>"

text \<open>
  The descriptor bytes that \<open>ext4_group_desc_csum\<close> feeds to the CRC: the bytes before the
  checksum field and, when the 64-bit feature is set, the bytes after the field up to the
  stored descriptor size.
\<close>

definition csum_covered :: "ext4_h \<Rightarrow> ext4_sb_info \<Rightarrow> nat \<Rightarrow> bool" where
  "csum_covered h sbi i \<longleftrightarrow>
     i < offsetof_bg_checksum h
     \<or> (s_feature_incompat (s_es sbi) AND EXT4_FEATURE_INCOMPAT_64BIT h \<noteq> 0
        \<and> offsetof_bg_checksum h + 2 \<le> i \<and> i < unat (s_desc_size (s_es sbi)))"

text \<open>The byte sequence the CRC is run over: the four buffers of the successive \<open>crc16\<close>
  calls of \<open>ext4_group_desc_csum\<close>, in order.\<close>

definition csum_input :: "ext4_h \<Rightarrow> ext4_sb_info \<Rightarrow> u32 \<Rightarrow> bytes \<Rightarrow> u8 list" where
  "csum_input h sbi g gdp =
     map (s_uuid (s_es sbi)) [0..<16] @ le32_bytes g @ map gdp [0..<offsetof_bg_checksum h] @
     (if s_feature_incompat (s_es sbi) AND EXT4_FEATURE_INCOMPAT_64BIT h \<noteq> 0
         \<and> offsetof_bg_checksum h + 2 < unat (s_desc_size (s_es sbi))
      then map gdp [offsetof_bg_checksum h + 2..<unat (s_desc_size (s_es sbi))] else [])"

text \<open>
  A well-formed orphan chain: the list of the inode numbers on the chain that starts at
  \<open>head\<close>. Every entry is nonzero and resolvable, each inode's stored next field is the
  following entry, and the last inode's next field is zero. \<open>unlinked\<close> tells whether an
  inode number resolves to an inode with link count zero.
\<close>

fun orphan_chain :: "(u32 \<Rightarrow> ext4_inode option) \<Rightarrow> u32 \<Rightarrow> u32 list \<Rightarrow> bool" where
  "orphan_chain st head [] \<longleftrightarrow> head = 0"
| "orphan_chain st head (ino # inos) \<longleftrightarrow>
     head = ino \<and> ino \<noteq> 0 \<and>
     (case st ino of None \<Rightarrow> False | Some inode \<Rightarrow> orphan_chain st (i_next_orphan inode) inos)"

definition unlinked :: "(u32 \<Rightarrow> ext4_inode option) \<Rightarrow> u32 \<Rightarrow> bool" where
  "unlinked st ino = (case st ino of None \<Rightarrow> False | Some inode \<Rightarrow> i_nlink inode = 0)"

text \<open>A volume with a chain of two orphans: inode 12 without links, then inode 15 with one
  link.\<close>

definition sample_sb_two_orphans :: super_block where
  "sample_sb_two_orphans =
     (upd_es (\<lambda>es. es\<lparr>s_last_orphan := 12\<rparr>) sample_sb)
       \<lparr>inode_store := (\<lambda>ino. if ino = 12 then Some \<lparr>i_nlink = 0, i_next_orphan = 15\<rparr>
                              else if ino = 15 then Some \<lparr>i_nlink = 1, i_next_orphan = 0\<rparr>
                              else None)\<rparr>"

section \<open>Properties\<close>

subsection \<open>Feature gate\<close>

text \<open>
  C1. Feature-compatibility check. (a) An incompatible-feature bit outside the supported
  set makes the check fail, whatever the \<open>readonly\<close> argument. (b) When every incompatible
  bit is supported and a read-only-compatible bit outside the supported set is present, the
  check fails exactly when the mount is requested writable (\<open>readonly = 0\<close>). (c) The
  result does not depend on the compatible-feature bitset.
\<close>

theorem feature_gate:
  "(s_feature_incompat (s_es (EXT4_SB sb)) AND NOT (EXT4_FEATURE_INCOMPAT_SUPP h) \<noteq> 0
      \<longrightarrow> \<not> ext4_feature_set_ok h sb readonly)
   \<and> (s_feature_incompat (s_es (EXT4_SB sb)) AND NOT (EXT4_FEATURE_INCOMPAT_SUPP h) = 0
      \<and> s_feature_ro_compat (s_es (EXT4_SB sb)) AND NOT (EXT4_FEATURE_RO_COMPAT_SUPP h) \<noteq> 0
      \<longrightarrow> (\<not> ext4_feature_set_ok h sb readonly \<longleftrightarrow> readonly = 0))
   \<and> ext4_feature_set_ok h (upd_es (\<lambda>es. es\<lparr>s_feature_compat := c\<rparr>) sb) readonly
       = ext4_feature_set_ok h sb readonly"
  by (simp add: ext4_feature_set_ok_def EXT4_HAS_INCOMPAT_FEATURE_def
      EXT4_HAS_RO_COMPAT_FEATURE_def EXT4_SB_def upd_es_def upd_sbi_def)

lemmas sample_defs = sample_h_def sample_es_def sample_sbi_def sample_sb_def sample_k_def

lemmas accessor_defs = EXT4_SB_def upd_es_def upd_sbi_def EXT4_HAS_INCOMPAT_FEATURE_def
  EXT4_HAS_RO_COMPAT_FEATURE_def test_opt_def test_opt2_def

theorem feature_gate_witness:
  "\<not> ext4_feature_set_ok sample_h (upd_es (\<lambda>es. es\<lparr>s_feature_incompat := 0x1042\<rparr>) sample_sb) 1
   \<and> \<not> ext4_feature_set_ok sample_h (upd_es (\<lambda>es. es\<lparr>s_feature_ro_compat := 0x1010\<rparr>) sample_sb) 0
   \<and> ext4_feature_set_ok sample_h (upd_es (\<lambda>es. es\<lparr>s_feature_ro_compat := 0x1010\<rparr>) sample_sb) 1
   \<and> ext4_feature_set_ok sample_h (upd_es (\<lambda>es. es\<lparr>s_feature_compat := 0xFFFF\<rparr>) sample_sb) 0"
  using feature_gate [where sb = "upd_es (\<lambda>es. es\<lparr>s_feature_incompat := 0x1042\<rparr>) sample_sb"
                        and h = sample_h and readonly = 1 and c = 0]
        feature_gate [where sb = "upd_es (\<lambda>es. es\<lparr>s_feature_ro_compat := 0x1010\<rparr>) sample_sb"
                        and h = sample_h and readonly = 0 and c = 0]
        feature_gate [where sb = "upd_es (\<lambda>es. es\<lparr>s_feature_ro_compat := 0x1010\<rparr>) sample_sb"
                        and h = sample_h and readonly = 1 and c = 0]
        feature_gate [where sb = sample_sb and h = sample_h and readonly = 0 and c = "0xFFFF"]
  by (simp add: sample_defs accessor_defs ext4_feature_set_ok_def)

subsection \<open>Frame of the persist and recording steps\<close>

lemma commit_super_frame:
  "s_flags (snd (ext4_commit_super h k sb sync)) = s_flags sb"
  "s_journal (EXT4_SB (snd (ext4_commit_super h k sb sync))) = s_journal (EXT4_SB sb)"
  "s_mount_flags (EXT4_SB (snd (ext4_commit_super h k sb sync))) = s_mount_flags (EXT4_SB sb)"
  "s_mount_opt (EXT4_SB (snd (ext4_commit_super h k sb sync))) = s_mount_opt (EXT4_SB sb)"
  "s_mount_state (EXT4_SB (snd (ext4_commit_super h k sb sync))) = s_mount_state (EXT4_SB sb)"
  by (simp_all add: ext4_commit_super_def accessor_defs mark_buffer_dirty_def sync_dirty_buffer_def
        Let_def split: option.split)

lemma save_error_info'_frame:
  "s_flags (save_error_info' h k sb func line) = s_flags sb"
  "s_journal (EXT4_SB (save_error_info' h k sb func line)) = s_journal (EXT4_SB sb)"
  "s_mount_flags (EXT4_SB (save_error_info' h k sb func line)) = s_mount_flags (EXT4_SB sb)"
  "s_mount_opt (EXT4_SB (save_error_info' h k sb func line)) = s_mount_opt (EXT4_SB sb)"
  by (simp_all add: save_error_info'_def accessor_defs Let_def)

lemma save_error_info_frame:
  "s_flags (save_error_info h k sb func line) = s_flags sb"
  "s_journal (EXT4_SB (save_error_info h k sb func line)) = s_journal (EXT4_SB sb)"
  "s_mount_flags (EXT4_SB (save_error_info h k sb func line)) = s_mount_flags (EXT4_SB sb)"
  "s_mount_opt (EXT4_SB (save_error_info h k sb func line)) = s_mount_opt (EXT4_SB sb)"
  by (simp_all add: save_error_info_def commit_super_frame save_error_info'_frame)

subsection \<open>Fault handling on a read-only volume\<close>

text \<open>
  C10. When a fault is handled on a volume whose \<open>s_flags\<close> carry \<open>MS_RDONLY\<close>,
  \<open>ext4_handle_error\<close> returns with the state untouched, whatever the error policy in
  \<open>s_mount_opt\<close> (the panic policy included): no panic, no journal abort, no abort flag, no
  change of the mount flags. A whole \<open>__ext4_error\<close> call therefore returns exactly the
  state that the diagnostic recording of \<open>save_error_info\<close> produced, and the recording
  itself leaves \<open>s_flags\<close>, \<open>s_mount_flags\<close>, the journal and the option word as they were.
\<close>

theorem handle_error_readonly:
  "s_flags sb AND MS_RDONLY h \<noteq> 0 \<Longrightarrow>
     ext4_handle_error h k sb = Returned sb
   \<and> ext4_error h k sb function line = Returned (save_error_info h k sb function line)
   \<and> s_flags (save_error_info h k sb function line) = s_flags sb
   \<and> s_mount_flags (EXT4_SB (save_error_info h k sb function line)) = s_mount_flags (EXT4_SB sb)
   \<and> s_journal (EXT4_SB (save_error_info h k sb function line)) = s_journal (EXT4_SB sb)
   \<and> s_mount_opt (EXT4_SB (save_error_info h k sb function line)) = s_mount_opt (EXT4_SB sb)"
  by (simp add: ext4_handle_error_def ext4_error_def save_error_info_frame)

theorem handle_error_readonly_witness:
  "s_flags sample_sb_ro_panic AND MS_RDONLY sample_h \<noteq> 0
   \<and> test_opt sample_sb_ro_panic (EXT4_MOUNT_ERRORS_PANIC sample_h) \<noteq> 0
   \<and> ext4_handle_error sample_h sample_k sample_sb_ro_panic = Returned sample_sb_ro_panic
   \<and> ext4_error sample_h sample_k sample_sb_ro_panic [] 7 \<noteq> Panic"
proof -
  have ro: "s_flags sample_sb_ro_panic AND MS_RDONLY sample_h \<noteq> 0"
    by (simp add: sample_sb_ro_panic_def sample_defs accessor_defs)
  have pol: "test_opt sample_sb_ro_panic (EXT4_MOUNT_ERRORS_PANIC sample_h) \<noteq> 0"
    by (simp add: sample_sb_ro_panic_def sample_defs accessor_defs)
  show ?thesis
    using ro pol handle_error_readonly [OF ro, of sample_k "[]" 7] by simp
qed

subsection \<open>Orphan cleanup on a volume with errors\<close>

text \<open>
  C9, as amended. When the mount state carries the error flag, \<open>ext4_orphan_cleanup\<close>
  returns without resolving, truncating or deleting any inode, however long the chain: the
  state is returned as it was, except that the orphan head pointer is set to zero when the
  device is writable and the feature set allows a read-write mount. On a read-only device,
  or with a feature set that does not allow a read-write mount, the earlier guards return
  first and the head pointer keeps its value.
\<close>

theorem orphan_cleanup_error_fs:
  "s_mount_state (EXT4_SB sb) AND EXT4_ERROR_FS h \<noteq> 0 \<Longrightarrow>
     ext4_orphan_cleanup h sb =
       Some (if s_last_orphan (s_es (EXT4_SB sb)) = 0 \<or> bdev_ro sb \<or> \<not> ext4_feature_set_ok h sb 0
             then sb else upd_es (\<lambda>es. es\<lparr>s_last_orphan := 0\<rparr>) sb, 0, 0)"
  by (simp add: ext4_orphan_cleanup_def Let_def)

theorem orphan_cleanup_error_fs_witness:
  "s_mount_state (EXT4_SB sample_sb_error_orphan) AND EXT4_ERROR_FS sample_h \<noteq> 0
   \<and> ext4_orphan_cleanup sample_h sample_sb_error_orphan =
       Some (upd_es (\<lambda>es. es\<lparr>s_last_orphan := 0\<rparr>) sample_sb_error_orphan, 0, 0)"
proof -
  have e: "s_mount_state (EXT4_SB sample_sb_error_orphan) AND EXT4_ERROR_FS sample_h \<noteq> 0"
    by (simp add: sample_sb_error_orphan_def sample_defs accessor_defs)
  have g: "\<not> (s_last_orphan (s_es (EXT4_SB sample_sb_error_orphan)) = 0
              \<or> bdev_ro sample_sb_error_orphan
              \<or> \<not> ext4_feature_set_ok sample_h sample_sb_error_orphan 0)"
    by (simp add: sample_sb_error_orphan_def sample_defs accessor_defs ext4_feature_set_ok_def)
  show ?thesis using e g orphan_cleanup_error_fs [OF e] by simp
qed

text \<open>
  C9 as stated fails: with the error flag set and a chain headed by inode 12 on a read-only
  device, the call returns the state unchanged and the head pointer is still 12.
\<close>

theorem orphan_cleanup_error_fs_counterexample:
  "s_mount_state (EXT4_SB sample_sb_error_orphan_ro) AND EXT4_ERROR_FS sample_h \<noteq> 0
   \<and> ext4_orphan_cleanup sample_h sample_sb_error_orphan_ro = Some (sample_sb_error_orphan_ro, 0, 0)
   \<and> s_last_orphan (s_es (EXT4_SB sample_sb_error_orphan_ro)) = 12"
  by (simp add: sample_sb_error_orphan_ro_def sample_sb_error_orphan_def ext4_orphan_cleanup_def
        sample_defs accessor_defs Let_def)

subsection \<open>Revision level above the supported maximum\<close>

text \<open>
  C5, as amended. A superblock revision level above \<open>EXT4_MAX_SUPP_REV\<close> does not reject
  the mount: \<open>ext4_setup_super\<close> returns \<open>MS_RDONLY\<close>, and the step of \<open>ext4_fill_super\<close>
  that calls it sets \<open>MS_RDONLY\<close> in \<open>s_flags\<close> and continues mounting (read-only mode is
  forced).
\<close>

theorem setup_super_rev_too_high:
  "s_rev_level (s_es (EXT4_SB sb)) > EXT4_MAX_SUPP_REV h \<Longrightarrow> MS_RDONLY h \<noteq> 0 \<Longrightarrow>
     fst (ext4_setup_super h k sb read_only) = MS_RDONLY h
   \<and> fill_super_setup_super h k sb =
       Continue ((snd (ext4_setup_super h k sb (s_flags sb AND MS_RDONLY h)))
                   \<lparr>s_flags := s_flags (snd (ext4_setup_super h k sb (s_flags sb AND MS_RDONLY h)))
                                 OR MS_RDONLY h\<rparr>)"
  by (simp add: ext4_setup_super_def fill_super_setup_super_def Let_def split_def)

theorem setup_super_rev_too_high_witness:
  "s_rev_level (s_es (EXT4_SB sample_sb_rev2)) > EXT4_MAX_SUPP_REV sample_h
   \<and> fst (ext4_setup_super sample_h sample_k sample_sb_rev2 0) = 1
   \<and> is_Continue (fill_super_setup_super sample_h sample_k sample_sb_rev2)"
proof -
  have r: "s_rev_level (s_es (EXT4_SB sample_sb_rev2)) > EXT4_MAX_SUPP_REV sample_h"
    by (simp add: sample_sb_rev2_def sample_defs accessor_defs)
  have m: "MS_RDONLY sample_h \<noteq> 0" by (simp add: sample_h_def)
  have v: "MS_RDONLY sample_h = 1" by (simp add: sample_h_def)
  show ?thesis
    using r setup_super_rev_too_high [OF r m, of sample_k 0] by (simp add: v)
qed

text \<open>
  C5 as stated fails: a read-write mount request for the volume with revision level 2 is
  not rejected; the step continues with \<open>MS_RDONLY\<close> set in \<open>s_flags\<close>.
\<close>

theorem setup_super_rev_too_high_counterexample:
  "s_rev_level (s_es (EXT4_SB sample_sb_rev2)) > EXT4_MAX_SUPP_REV sample_h
   \<and> s_flags sample_sb_rev2 = 0
   \<and> fill_super_setup_super sample_h sample_k sample_sb_rev2 \<noteq> Failed_mount
   \<and> s_flags (step_sb (fill_super_setup_super sample_h sample_k sample_sb_rev2)) = 1"
  by (simp add: fill_super_setup_super_def ext4_setup_super_def commit_super_frame
        sample_sb_rev2_def sample_defs accessor_defs Let_def split_def ext4_update_dynamic_rev_def)

subsection \<open>Persisting the superblock\<close>

lemmas commit_unfold = ext4_commit_super_def accessor_defs mark_buffer_dirty_def
        sync_dirty_buffer_def Let_def

lemma commit_super_guard:
  "s_sbh (EXT4_SB sb) = None \<or> block_device_ejected sb \<Longrightarrow> ext4_commit_super h k sb sync = (0, sb)"
  by (auto simp add: ext4_commit_super_def split: option.split)

lemma commit_super_wtime:
  "s_sbh (EXT4_SB sb) = Some bh \<Longrightarrow> \<not> block_device_ejected sb \<Longrightarrow>
   s_wtime (s_es (EXT4_SB (snd (ext4_commit_super h k sb sync)))) =
     (if s_flags sb AND MS_RDONLY h = 0 then get_seconds k else s_wtime (s_es (EXT4_SB sb)))"
  by (simp add: commit_unfold split: option.split)

lemma commit_super_free_blocks:
  "s_sbh (EXT4_SB sb) = Some bh \<Longrightarrow> \<not> block_device_ejected sb \<Longrightarrow>
   s_free_blocks_count (s_es (EXT4_SB (snd (ext4_commit_super h k sb sync)))) =
     EXT4_C2B (EXT4_SB sb) (percpu_counter_sum_positive (s_freeclusters_counter (EXT4_SB sb)))"
  by (simp add: commit_unfold EXT4_C2B_def split: option.split)

lemma commit_super_free_inodes:
  "s_sbh (EXT4_SB sb) = Some bh \<Longrightarrow> \<not> block_device_ejected sb \<Longrightarrow>
   s_free_inodes_count (s_es (EXT4_SB (snd (ext4_commit_super h k sb sync)))) =
     ucast (percpu_counter_sum_positive (s_freeinodes_counter (EXT4_SB sb)))"
  by (simp add: commit_unfold split: option.split)

lemma commit_super_events:
  "s_sbh (EXT4_SB sb) = Some bh \<Longrightarrow> \<not> block_device_ejected sb \<Longrightarrow>
   blk_events (snd (ext4_commit_super h k sb sync)) =
     blk_events sb @ Mark_buffer_dirty (s_es (EXT4_SB (snd (ext4_commit_super h k sb sync)))) #
       (if sync then [Submit_write (s_es (EXT4_SB (snd (ext4_commit_super h k sb sync))))] else [])"
  by (simp add: commit_unfold split: option.split)

text \<open>
  C8. Persist guard conditions. When the backing device has been ejected,
  \<open>ext4_commit_super\<close> returns 0 with the state exactly as it was: nothing is written and
  nothing is modified. When the superblock buffer exists and the device is present, the
  last-write timestamp becomes the current time if and only if \<open>MS_RDONLY\<close> is not set
  (otherwise it keeps its value), the free-block and free-inode counts are recomputed from
  the runtime counters, and the buffer is then marked dirty (and written when \<open>sync\<close> is
  set): the image marked dirty is the final image, the recomputed counters included.
\<close>

theorem commit_super_guards:
  "(block_device_ejected sb \<longrightarrow> ext4_commit_super h k sb sync = (0, sb))
   \<and> (s_sbh (EXT4_SB sb) \<noteq> None \<and> \<not> block_device_ejected sb \<longrightarrow>
        s_wtime (s_es (EXT4_SB (snd (ext4_commit_super h k sb sync)))) =
           (if s_flags sb AND MS_RDONLY h = 0 then get_seconds k else s_wtime (s_es (EXT4_SB sb)))
      \<and> s_free_blocks_count (s_es (EXT4_SB (snd (ext4_commit_super h k sb sync)))) =
           EXT4_C2B (EXT4_SB sb) (percpu_counter_sum_positive (s_freeclusters_counter (EXT4_SB sb)))
      \<and> s_free_inodes_count (s_es (EXT4_SB (snd (ext4_commit_super h k sb sync)))) =
           ucast (percpu_counter_sum_positive (s_freeinodes_counter (EXT4_SB sb)))
      \<and> blk_events (snd (ext4_commit_super h k sb sync)) =
           blk_events sb @ Mark_buffer_dirty (s_es (EXT4_SB (snd (ext4_commit_super h k sb sync)))) #
             (if sync then [Submit_write (s_es (EXT4_SB (snd (ext4_commit_super h k sb sync))))] else []))"
proof (intro conjI impI)
  assume "block_device_ejected sb"
  then show "ext4_commit_super h k sb sync = (0, sb)" by (simp add: commit_super_guard)
next
  assume a: "s_sbh (EXT4_SB sb) \<noteq> None \<and> \<not> block_device_ejected sb"
  then obtain bh where b: "s_sbh (EXT4_SB sb) = Some bh" by auto
  from a have e: "\<not> block_device_ejected sb" by simp
  show "s_wtime (s_es (EXT4_SB (snd (ext4_commit_super h k sb sync)))) =
           (if s_flags sb AND MS_RDONLY h = 0 then get_seconds k else s_wtime (s_es (EXT4_SB sb)))"
    by (rule commit_super_wtime [OF b e])
  show "s_free_blocks_count (s_es (EXT4_SB (snd (ext4_commit_super h k sb sync)))) =
           EXT4_C2B (EXT4_SB sb) (percpu_counter_sum_positive (s_freeclusters_counter (EXT4_SB sb)))"
    by (rule commit_super_free_blocks [OF b e])
  show "s_free_inodes_count (s_es (EXT4_SB (snd (ext4_commit_super h k sb sync)))) =
           ucast (percpu_counter_sum_positive (s_freeinodes_counter (EXT4_SB sb)))"
    by (rule commit_super_free_inodes [OF b e])
  show "blk_events (snd (ext4_commit_super h k sb sync)) =
           blk_events sb @ Mark_buffer_dirty (s_es (EXT4_SB (snd (ext4_commit_super h k sb sync)))) #
             (if sync then [Submit_write (s_es (EXT4_SB (snd (ext4_commit_super h k sb sync))))] else [])"
    by (rule commit_super_events [OF b e])
qed

theorem commit_super_guards_witness:
  "block_device_ejected sample_sb_ejected
   \<and> ext4_commit_super sample_h sample_k sample_sb_ejected True = (0, sample_sb_ejected)
   \<and> s_wtime (s_es (EXT4_SB (snd (ext4_commit_super sample_h sample_k sample_sb False)))) = 2000
   \<and> s_wtime (s_es (EXT4_SB (snd (ext4_commit_super sample_h sample_k sample_sb_ro_panic False)))) = 1000
   \<and> s_free_blocks_count (s_es (EXT4_SB (snd (ext4_commit_super sample_h sample_k sample_sb False)))) = 70
   \<and> s_free_inodes_count (s_es (EXT4_SB (snd (ext4_commit_super sample_h sample_k sample_sb False)))) = 40"
  using commit_super_guards [of sample_sb_ejected sample_h sample_k True]
        commit_super_guards [of sample_sb sample_h sample_k False]
        commit_super_guards [of sample_sb_ro_panic sample_h sample_k False]
  by (simp add: sample_sb_ejected_def sample_sb_ro_panic_def sample_defs accessor_defs
        block_device_ejected_def EXT4_C2B_def percpu_counter_sum_positive_def word_sless_alt)

subsection \<open>Error reporting\<close>

lemma commit_super_error_fields:
  "s_last_error_time (s_es (EXT4_SB (snd (ext4_commit_super h k sb sync)))) = s_last_error_time (s_es (EXT4_SB sb))"
  "s_last_error_func (s_es (EXT4_SB (snd (ext4_commit_super h k sb sync)))) = s_last_error_func (s_es (EXT4_SB sb))"
  "s_last_error_line (s_es (EXT4_SB (snd (ext4_commit_super h k sb sync)))) = s_last_error_line (s_es (EXT4_SB sb))"
  "s_first_error_time (s_es (EXT4_SB (snd (ext4_commit_super h k sb sync)))) = s_first_error_time (s_es (EXT4_SB sb))"
  "s_first_error_func (s_es (EXT4_SB (snd (ext4_commit_super h k sb sync)))) = s_first_error_func (s_es (EXT4_SB sb))"
  "s_first_error_line (s_es (EXT4_SB (snd (ext4_commit_super h k sb sync)))) = s_first_error_line (s_es (EXT4_SB sb))"
  "s_first_error_ino (s_es (EXT4_SB (snd (ext4_commit_super h k sb sync)))) = s_first_error_ino (s_es (EXT4_SB sb))"
  "s_first_error_block (s_es (EXT4_SB (snd (ext4_commit_super h k sb sync)))) = s_first_error_block (s_es (EXT4_SB sb))"
  "s_error_count (s_es (EXT4_SB (snd (ext4_commit_super h k sb sync)))) = s_error_count (s_es (EXT4_SB sb))"
  "s_err_report (EXT4_SB (snd (ext4_commit_super h k sb sync))) = s_err_report (EXT4_SB sb)"
  by (simp_all add: commit_unfold split: option.split)

lemma save_error_info'_fields:
  "s_last_error_time (s_es (EXT4_SB (save_error_info' h k sb func line))) = get_seconds k"
  "s_last_error_func (s_es (EXT4_SB (save_error_info' h k sb func line))) = strncpy func (sizeof_s_error_func h)"
  "s_last_error_line (s_es (EXT4_SB (save_error_info' h k sb func line))) = line"
  "s_first_error_time (s_es (EXT4_SB (save_error_info' h k sb func line))) =
     (if s_first_error_time (s_es (EXT4_SB sb)) = 0 then get_seconds k else s_first_error_time (s_es (EXT4_SB sb)))"
  "s_first_error_func (s_es (EXT4_SB (save_error_info' h k sb func line))) =
     (if s_first_error_time (s_es (EXT4_SB sb)) = 0 then strncpy func (sizeof_s_error_func h)
      else s_first_error_func (s_es (EXT4_SB sb)))"
  "s_first_error_line (s_es (EXT4_SB (save_error_info' h k sb func line))) =
     (if s_first_error_time (s_es (EXT4_SB sb)) = 0 then line else s_first_error_line (s_es (EXT4_SB sb)))"
  "s_first_error_ino (s_es (EXT4_SB (save_error_info' h k sb func line))) =
     (if s_first_error_time (s_es (EXT4_SB sb)) = 0 then s_last_error_ino (s_es (EXT4_SB sb))
      else s_first_error_ino (s_es (EXT4_SB sb)))"
  "s_first_error_block (s_es (EXT4_SB (save_error_info' h k sb func line))) =
     (if s_first_error_time (s_es (EXT4_SB sb)) = 0 then s_last_error_block (s_es (EXT4_SB sb))
      else s_first_error_block (s_es (EXT4_SB sb)))"
  "s_error_count (s_es (EXT4_SB (save_error_info' h k sb func line))) = s_error_count (s_es (EXT4_SB sb)) + 1"
  "s_err_report (EXT4_SB (save_error_info' h k sb func line)) =
     (if s_error_count (s_es (EXT4_SB sb)) = 0 then Some (jiffies k + 24 * 60 * 60 * HZ h)
      else s_err_report (EXT4_SB sb))"
  "blk_events (save_error_info' h k sb func line) = blk_events sb"
  "s_sbh (EXT4_SB (save_error_info' h k sb func line)) = s_sbh (EXT4_SB sb)"
  "block_device_ejected (save_error_info' h k sb func line) = block_device_ejected sb"
  by (simp_all add: save_error_info'_def accessor_defs block_device_ejected_def Let_def)

lemma save_error_info_events:
  "blk_events (save_error_info h k sb func line) =
     blk_events sb @
       (if s_sbh (EXT4_SB sb) = None \<or> block_device_ejected sb then []
        else [Mark_buffer_dirty (s_es (EXT4_SB (save_error_info h k sb func line))),
              Submit_write (s_es (EXT4_SB (save_error_info h k sb func line)))])"
proof (cases "s_sbh (EXT4_SB sb) = None \<or> block_device_ejected sb")
  case True
  then have "s_sbh (EXT4_SB (save_error_info' h k sb func line)) = None
             \<or> block_device_ejected (save_error_info' h k sb func line)"
    by (simp add: save_error_info'_fields)
  then show ?thesis using True
    by (simp add: save_error_info_def commit_super_guard save_error_info'_fields)
next
  case False
  then obtain bh where b: "s_sbh (EXT4_SB (save_error_info' h k sb func line)) = Some bh"
    by (auto simp add: save_error_info'_fields)
  from False have e: "\<not> block_device_ejected (save_error_info' h k sb func line)"
    by (simp add: save_error_info'_fields)
  show ?thesis
    using False commit_super_events [OF b e, of h k True]
    by (simp add: save_error_info_def save_error_info'_fields)
qed

text \<open>
  C7. Error reporting. Every call of \<open>save_error_info\<close> sets the last-error time, function
  and line to the current fault; sets the first-error fields only when they were unset
  (\<open>s_first_error_time = 0\<close>) and leaves them as they were otherwise; adds one to the
  error count; arms the error-report timer when the count was zero (the first error) and
  leaves the timer alone otherwise; and persists the superblock synchronously through
  \<open>ext4_commit_super\<close> with \<open>sync = 1\<close>: the final image, which holds the recorded fault,
  is marked dirty and handed to the device, unless the buffer is missing or the device has
  been ejected, the two cases in which the persist step writes nothing.
\<close>

theorem save_error_info_records:
  "s_last_error_time (s_es (EXT4_SB (save_error_info h k sb func line))) = get_seconds k
   \<and> s_last_error_func (s_es (EXT4_SB (save_error_info h k sb func line))) =
        strncpy func (sizeof_s_error_func h)
   \<and> s_last_error_line (s_es (EXT4_SB (save_error_info h k sb func line))) = line
   \<and> s_first_error_time (s_es (EXT4_SB (save_error_info h k sb func line))) =
        (if s_first_error_time (s_es (EXT4_SB sb)) = 0 then get_seconds k
         else s_first_error_time (s_es (EXT4_SB sb)))
   \<and> s_first_error_func (s_es (EXT4_SB (save_error_info h k sb func line))) =
        (if s_first_error_time (s_es (EXT4_SB sb)) = 0 then strncpy func (sizeof_s_error_func h)
         else s_first_error_func (s_es (EXT4_SB sb)))
   \<and> s_first_error_line (s_es (EXT4_SB (save_error_info h k sb func line))) =
        (if s_first_error_time (s_es (EXT4_SB sb)) = 0 then line
         else s_first_error_line (s_es (EXT4_SB sb)))
   \<and> s_first_error_ino (s_es (EXT4_SB (save_error_info h k sb func line))) =
        (if s_first_error_time (s_es (EXT4_SB sb)) = 0 then s_last_error_ino (s_es (EXT4_SB sb))
         else s_first_error_ino (s_es (EXT4_SB sb)))
   \<and> s_first_error_block (s_es (EXT4_SB (save_error_info h k sb func line))) =
        (if s_first_error_time (s_es (EXT4_SB sb)) = 0 then s_last_error_block (s_es (EXT4_SB sb))
         else s_first_error_block (s_es (EXT4_SB sb)))
   \<and> s_error_count (s_es (EXT4_SB (save_error_info h k sb func line))) =
        s_error_count (s_es (EXT4_SB sb)) + 1
   \<and> s_err_report (EXT4_SB (save_error_info h k sb func line)) =
        (if s_error_count (s_es (EXT4_SB sb)) = 0 then Some (jiffies k + 24 * 60 * 60 * HZ h)
         else s_err_report (EXT4_SB sb))
   \<and> blk_events (save_error_info h k sb func line) =
        blk_events sb @
          (if s_sbh (EXT4_SB sb) = None \<or> block_device_ejected sb then []
           else [Mark_buffer_dirty (s_es (EXT4_SB (save_error_info h k sb func line))),
                 Submit_write (s_es (EXT4_SB (save_error_info h k sb func line)))])"
  using save_error_info_events [of h k sb func line]
  by (simp add: save_error_info_def commit_super_error_fields save_error_info'_fields)
theorem save_error_info_records_witness:
  "s_error_count (s_es (EXT4_SB (save_error_info sample_h sample_k sample_sb [102, 110] 7))) = 1
   \<and> s_last_error_time (s_es (EXT4_SB (save_error_info sample_h sample_k sample_sb [102, 110] 7))) = 2000
   \<and> s_last_error_line (s_es (EXT4_SB (save_error_info sample_h sample_k sample_sb [102, 110] 7))) = 7
   \<and> s_first_error_time (s_es (EXT4_SB (save_error_info sample_h sample_k sample_sb [102, 110] 7))) = 2000
   \<and> s_err_report (EXT4_SB (save_error_info sample_h sample_k sample_sb [102, 110] 7)) = Some 8640300
   \<and> length (blk_events (save_error_info sample_h sample_k sample_sb [102, 110] 7)) = 2
   \<and> s_first_error_time (s_es (EXT4_SB (save_error_info sample_h sample_k sample_sb_seen_error [102, 110] 7))) = 500
   \<and> s_first_error_line (s_es (EXT4_SB (save_error_info sample_h sample_k sample_sb_seen_error [102, 110] 7))) = 3
   \<and> s_error_count (s_es (EXT4_SB (save_error_info sample_h sample_k sample_sb_seen_error [102, 110] 7))) = 5
   \<and> s_err_report (EXT4_SB (save_error_info sample_h sample_k sample_sb_seen_error [102, 110] 7)) = None"
proof -
  have c: "get_seconds sample_k = 2000" "jiffies sample_k = 300" "HZ sample_h = 100"
    by (simp_all add: sample_defs)
  have a: "s_first_error_time (s_es (EXT4_SB sample_sb)) = 0"
          "s_error_count (s_es (EXT4_SB sample_sb)) = 0"
          "s_sbh (EXT4_SB sample_sb) \<noteq> None" "\<not> block_device_ejected sample_sb"
          "blk_events sample_sb = []"
    by (simp_all add: sample_defs accessor_defs block_device_ejected_def)
  have b: "s_first_error_time (s_es (EXT4_SB sample_sb_seen_error)) = 500"
          "s_first_error_line (s_es (EXT4_SB sample_sb_seen_error)) = 3"
          "s_error_count (s_es (EXT4_SB sample_sb_seen_error)) = 4"
          "s_err_report (EXT4_SB sample_sb_seen_error) = None"
    by (simp_all add: sample_sb_seen_error_def sample_defs accessor_defs)
  show ?thesis
    using save_error_info_records [of sample_h sample_k sample_sb "[102, 110]" 7]
          save_error_info_records [of sample_h sample_k sample_sb_seen_error "[102, 110]" 7]
    by (simp add: a b c)
qed

subsection \<open>CRC-16: a changed byte changes the checksum\<close>

lemma shift_linear: "crc16_shift (a XOR b) = crc16_shift a XOR crc16_shift b"
  unfolding crc16_shift_def
  by (auto simp add: bit_eq_iff bit_simps)

lemma shift_top: "bit (crc16_shift a) 15 = bit a 0"
proof -
  have "\<not> bit a 16" using bit_imp_le_length [of a 16] by auto
  then show ?thesis unfolding crc16_shift_def by (simp add: bit_simps)
qed

lemma shift_drop: "drop_bit 1 a = (if bit a 0 then crc16_shift a XOR 0xA001 else crc16_shift a)"
  unfolding crc16_shift_def by (simp add: xor.assoc)

lemma shift_inj: "crc16_shift a = crc16_shift b \<Longrightarrow> a = b"
proof -
  assume e: "crc16_shift a = crc16_shift b"
  have b0: "bit a 0 = bit b 0" using shift_top [of a] shift_top [of b] e by simp
  have d: "drop_bit 1 a = drop_bit 1 b" using shift_drop [of a] shift_drop [of b] e b0 by simp
  show "a = b"
  proof (rule bit_word_eqI)
    fix n assume "n < LENGTH(16)"
    show "bit a n = bit b n"
    proof (cases n)
      case 0 then show ?thesis using b0 by simp
    next
      case (Suc m)
      have "bit (drop_bit 1 a) m = bit (drop_bit 1 b) m" using d by simp
      then show ?thesis using Suc by (simp add: bit_drop_bit_eq)
    qed
  qed
qed

lemma shiftn_inj: "(crc16_shift ^^ n) a = (crc16_shift ^^ n) b \<Longrightarrow> a = b"
  by (induction n) (auto dest: shift_inj)

lemma shiftn_linear: "(crc16_shift ^^ n) (a XOR b) = (crc16_shift ^^ n) a XOR (crc16_shift ^^ n) b"
  by (induction n arbitrary: a b) (simp_all add: shift_linear)

lemma shiftn_high: "take_bit n x = 0 \<Longrightarrow> (crc16_shift ^^ n) x = drop_bit n x"
proof (induction n arbitrary: x)
  case 0 then show ?case by simp
next
  case (Suc n)
  have nb: "\<not> bit x 0" using Suc.prems by (metis bit_take_bit_iff bit_0_eq zero_less_Suc bot_apply bot_bool_def)
  have "take_bit n (drop_bit 1 x) = 0"
    using Suc.prems by (metis take_bit_drop_bit drop_bit_of_0 plus_1_eq_Suc add.commute)
  then have "(crc16_shift ^^ n) (drop_bit 1 x) = drop_bit n (drop_bit 1 x)" by (rule Suc.IH)
  moreover have "crc16_shift x = drop_bit 1 x" using nb by (simp add: crc16_shift_def)
  ultimately show ?case by (simp add: funpow_swap1)
qed


lemma low_byte: "(ucast (ucast (x AND 0xff :: u16) :: u8) :: u16) = take_bit 8 x"
proof -
  have m: "(0xff :: u16) = mask 8" by (simp add: mask_eq_exp_minus_1)
  have "x AND 0xff = take_bit 8 x" by (simp only: m take_bit_eq_mask)
  moreover have "(ucast (ucast (take_bit 8 x :: u16) :: u8) :: u16) = take_bit 8 x"
    by (rule bit_word_eqI) (auto simp add: bit_simps)
  ultimately show ?thesis by simp
qed

lemma xor_right_cancel: "(a :: 'a :: len word) XOR d = b XOR d \<Longrightarrow> a = b"
proof -
  assume "a XOR d = b XOR d"
  then have "(a XOR d) XOR d = (b XOR d) XOR d" by simp
  then show "a = b" by (simp add: xor.assoc)
qed

lemma xor_left_cancel: "(c :: 'a :: len word) XOR a = c XOR b \<Longrightarrow> a = b"
  using xor_right_cancel [of a c b] by (simp add: xor.commute)

lemma ucast_8_16_inj: "(ucast (d :: u8) :: u16) = ucast e \<Longrightarrow> d = e"
proof (rule bit_word_eqI)
  fix n assume e: "(ucast d :: u16) = ucast e" and n: "n < LENGTH(8)"
  have "bit (ucast d :: u16) n = bit (ucast e :: u16) n" using e by simp
  then show "bit d n = bit e n" using n by (simp add: bit_simps)
qed


lemma split_byte: "(x :: u16) = take_bit 8 x XOR push_bit 8 (drop_bit 8 x)"
  by (rule bit_word_eqI) (auto simp add: bit_simps)

lemma drop_ucast: "drop_bit 8 (c XOR (ucast (d :: u8) :: u16)) = drop_bit 8 c"
  by (rule bit_word_eqI) (auto simp add: bit_simps dest: bit_imp_le_length)

lemma high_part: "(crc16_shift ^^ 8) (push_bit 8 (y :: u16)) = drop_bit 8 (push_bit 8 y)"
  by (rule shiftn_high) (simp add: take_bit_push_bit)

lemma crc16_byte_shift: "crc16_byte crc data = (crc16_shift ^^ 8) (crc XOR ucast data)"
proof -
  define x where "x = crc XOR (ucast data :: u16)"
  have "(crc16_shift ^^ 8) x
        = (crc16_shift ^^ 8) (take_bit 8 x) XOR (crc16_shift ^^ 8) (push_bit 8 (drop_bit 8 x))"
    using split_byte [of x] shiftn_linear [of 8 "take_bit 8 x" "push_bit 8 (drop_bit 8 x)"] by simp
  also have "(crc16_shift ^^ 8) (push_bit 8 (drop_bit 8 x)) = drop_bit 8 x"
    by (subst high_part) (rule bit_word_eqI, auto simp add: bit_simps dest: bit_imp_le_length)
  also have "drop_bit 8 x = drop_bit 8 crc" unfolding x_def by (rule drop_ucast)
  finally have "(crc16_shift ^^ 8) x = (crc16_shift ^^ 8) (take_bit 8 x) XOR drop_bit 8 crc" .
  then show ?thesis
    unfolding crc16_byte_def crc16_table_def x_def [symmetric] low_byte
    by (simp add: xor.commute)
qed

lemma crc16_byte_inj_crc: "crc16_byte a d = crc16_byte b d \<Longrightarrow> a = b"
  unfolding crc16_byte_shift by (drule shiftn_inj) (rule xor_right_cancel)

lemma crc16_byte_inj_data: "crc16_byte c d = crc16_byte c e \<Longrightarrow> d = e"
proof -
  assume "crc16_byte c d = crc16_byte c e"
  then have "c XOR (ucast d :: u16) = c XOR ucast e"
    unfolding crc16_byte_shift by (rule shiftn_inj)
  then have "(ucast d :: u16) = ucast e" by (rule xor_left_cancel)
  then show "d = e" by (rule ucast_8_16_inj)
qed

lemma crc16_inj_crc: "crc16 a bs = crc16 b bs \<Longrightarrow> a = b"
  by (induction bs arbitrary: a b) (auto dest: crc16_byte_inj_crc)

lemma crc16_append: "crc16 c (xs @ ys) = crc16 (crc16 c xs) ys"
  by (induction xs arbitrary: c) simp_all

lemma crc16_flip:
  assumes "i < length xs" "b \<noteq> xs ! i"
  shows "crc16 c (xs[i := b]) \<noteq> crc16 c xs"
proof -
  have xs: "xs = take i xs @ xs ! i # drop (Suc i) xs"
    using assms(1) by (simp add: id_take_nth_drop)
  have ys: "xs[i := b] = take i xs @ b # drop (Suc i) xs"
    using assms(1) by (simp add: upd_conv_take_nth_drop)
  show ?thesis
  proof
    assume "crc16 c (xs[i := b]) = crc16 c xs"
    then have "crc16 c (take i xs @ b # drop (Suc i) xs) = crc16 c (take i xs @ xs ! i # drop (Suc i) xs)"
      using xs ys by simp
    then have "crc16_byte (crc16 c (take i xs)) b = crc16_byte (crc16 c (take i xs)) (xs ! i)"
      by (simp add: crc16_append) (erule crc16_inj_crc)
    then show False using assms(2) by (auto dest: crc16_byte_inj_data)
  qed
qed


lemma csum_as_crc:
  "ext4_group_desc_csum h sbi g gdp =
     (if s_feature_ro_compat (s_es sbi) AND EXT4_FEATURE_RO_COMPAT_GDT_CSUM h \<noteq> 0
      then crc16 (NOT 0) (csum_input h sbi g gdp) else 0)"
  by (simp add: ext4_group_desc_csum_def csum_input_def crc16_append Let_def)

lemma map_upd_upt:
  "a \<le> i \<Longrightarrow> i < c \<Longrightarrow> map (f(i := b)) [a..<c] = (map f [a..<c])[i - a := b]"
  by (rule nth_equalityI) (auto simp add: nth_list_update)

lemma map_upd_upt_outside:
  "i < a \<or> c \<le> i \<Longrightarrow> map (f(i := b)) [a..<c] = map f [a..<c]"
  by auto

lemma crc16_flip_mid:
  assumes "k < length ys" "b \<noteq> ys ! k"
  shows "crc16 c (xs @ ys[k := b] @ zs) \<noteq> crc16 c (xs @ ys @ zs)"
proof -
  have "xs @ ys[k := b] @ zs = (xs @ ys @ zs)[length xs + k := b]"
    using assms(1) by (simp add: list_update_append)
  moreover have "(xs @ ys @ zs) ! (length xs + k) = ys ! k"
    using assms(1) by (simp add: nth_append)
  moreover have "length xs + k < length (xs @ ys @ zs)" using assms(1) by simp
  ultimately show ?thesis using crc16_flip [of "length xs + k" "xs @ ys @ zs" b c] assms(2) by simp
qed

lemma csum_input_agree:
  assumes "s_feature_incompat (s_es sbi) AND EXT4_FEATURE_INCOMPAT_64BIT h \<noteq> 0
             \<longleftrightarrow> s_feature_incompat (s_es sbi') AND EXT4_FEATURE_INCOMPAT_64BIT h \<noteq> 0"
    and "s_desc_size (s_es sbi) = s_desc_size (s_es sbi')"
    and "\<forall>i < 16. s_uuid (s_es sbi) i = s_uuid (s_es sbi') i"
    and "\<forall>i. csum_covered h sbi i \<longrightarrow> gdp i = gdp' i"
  shows "csum_input h sbi g gdp = csum_input h sbi' g gdp'"
  using assms by (auto simp add: csum_input_def csum_covered_def)

lemma csum_input_flip_desc:
  assumes "csum_covered h sbi i" "b \<noteq> gdp i"
  shows "crc16 c (csum_input h sbi g (gdp(i := b))) \<noteq> crc16 c (csum_input h sbi g gdp)"
proof (cases "i < offsetof_bg_checksum h")
  case True
  let ?H = "map (s_uuid (s_es sbi)) [0..<16] @ le32_bytes g"
  let ?P = "map gdp [0..<offsetof_bg_checksum h]"
  define T where "T = (if s_feature_incompat (s_es sbi) AND EXT4_FEATURE_INCOMPAT_64BIT h \<noteq> 0
         \<and> offsetof_bg_checksum h + 2 < unat (s_desc_size (s_es sbi))
      then map gdp [offsetof_bg_checksum h + 2..<unat (s_desc_size (s_es sbi))] else [])"
  have p: "map (gdp(i := b)) [0..<offsetof_bg_checksum h] = ?P[i := b]"
    using True map_upd_upt [of 0 i "offsetof_bg_checksum h" gdp b] by simp
  have t: "map (gdp(i := b)) [offsetof_bg_checksum h + 2..<unat (s_desc_size (s_es sbi))]
           = map gdp [offsetof_bg_checksum h + 2..<unat (s_desc_size (s_es sbi))]"
    using True by (intro map_upd_upt_outside) simp
  have in1: "csum_input h sbi g gdp = ?H @ ?P @ T"
    unfolding csum_input_def T_def by simp
  have in2: "csum_input h sbi g (gdp(i := b)) = ?H @ ?P[i := b] @ T"
    unfolding csum_input_def T_def p t by simp
  have k: "i < length ?P" "b \<noteq> ?P ! i" using True assms(2) by simp_all
  show ?thesis
    unfolding in1 in2 by (rule crc16_flip_mid [OF k])
next
  case False
  let ?o = "offsetof_bg_checksum h + 2"
  let ?d = "unat (s_desc_size (s_es sbi))"
  let ?H = "map (s_uuid (s_es sbi)) [0..<16] @ le32_bytes g @ map gdp [0..<offsetof_bg_checksum h]"
  let ?T = "map gdp [?o..<?d]"
  from False assms(1) have c64: "s_feature_incompat (s_es sbi) AND EXT4_FEATURE_INCOMPAT_64BIT h \<noteq> 0"
    and lo: "?o \<le> i" and hi: "i < ?d" by (auto simp add: csum_covered_def)
  have lt: "?o < ?d" using lo hi by simp
  have p: "map (gdp(i := b)) [0..<offsetof_bg_checksum h] = map gdp [0..<offsetof_bg_checksum h]"
    using lo by (intro map_upd_upt_outside) simp
  have t: "map (gdp(i := b)) [?o..<?d] = ?T[i - ?o := b]"
    using lo hi by (rule map_upd_upt)
  have cond: "(s_feature_incompat (s_es sbi) AND EXT4_FEATURE_INCOMPAT_64BIT h \<noteq> 0 \<and> ?o < ?d) = True"
    using c64 lt by simp
  have in1: "csum_input h sbi g gdp = ?H @ ?T @ []"
    unfolding csum_input_def cond by simp
  have in2: "csum_input h sbi g (gdp(i := b)) = ?H @ ?T[i - ?o := b] @ []"
    unfolding csum_input_def cond p t by simp
  have "?o + (i - ?o) = i" using lo by simp
  then have nth: "?T ! (i - ?o) = gdp i" using lo hi by (simp del: add_2_eq_Suc add_2_eq_Suc')
  have k: "i - ?o < length ?T" "b \<noteq> ?T ! (i - ?o)" using lo hi assms(2) nth by simp_all
  show ?thesis
    unfolding in1 in2 by (rule crc16_flip_mid [OF k])
qed

lemma csum_input_flip_uuid:
  assumes "i < 16" "b \<noteq> s_uuid (s_es sbi) i"
  shows "crc16 c (csum_input h (sbi\<lparr>s_es := (s_es sbi)\<lparr>s_uuid := (s_uuid (s_es sbi))(i := b)\<rparr>\<rparr>) g gdp)
         \<noteq> crc16 c (csum_input h sbi g gdp)"
proof -
  let ?U = "map (s_uuid (s_es sbi)) [0..<16]"
  define R where "R = le32_bytes g @ map gdp [0..<offsetof_bg_checksum h] @
     (if s_feature_incompat (s_es sbi) AND EXT4_FEATURE_INCOMPAT_64BIT h \<noteq> 0
         \<and> offsetof_bg_checksum h + 2 < unat (s_desc_size (s_es sbi))
      then map gdp [offsetof_bg_checksum h + 2..<unat (s_desc_size (s_es sbi))] else [])"
  have u: "map ((s_uuid (s_es sbi))(i := b)) [0..<16] = ?U[i := b]"
    using assms(1) map_upd_upt [of 0 i 16 "s_uuid (s_es sbi)" b] by simp
  have in1: "csum_input h sbi g gdp = [] @ ?U @ R"
    unfolding csum_input_def R_def by simp
  have in2: "csum_input h (sbi\<lparr>s_es := (s_es sbi)\<lparr>s_uuid := (s_uuid (s_es sbi))(i := b)\<rparr>\<rparr>) g gdp
             = [] @ ?U[i := b] @ R"
    unfolding csum_input_def R_def by (simp add: u)
  have k: "i < length ?U" "b \<noteq> ?U ! i" using assms by simp_all
  show ?thesis
    unfolding in1 in2 by (rule crc16_flip_mid [OF k])
qed

lemma le32_byte_flip:
  "j < 4 \<Longrightarrow> k < 4 \<Longrightarrow>
   (ucast (drop_bit (8 * k) ((g :: u32) XOR push_bit (8 * j) (ucast (d :: u8)))) :: u8)
     = ucast (drop_bit (8 * k) g) XOR (if k = j then d else 0)"
proof (rule bit_word_eqI)
  fix n assume j: "j < 4" and k: "k < 4" and n: "n < LENGTH(8)"
  have n8: "n < 8" using n by simp
  have a: "8 * j \<le> 8 * k + n \<and> 8 * k + n - 8 * j < 8 \<longleftrightarrow> k = j" using n8 by auto
  have b: "k = j \<Longrightarrow> 8 * k + n - 8 * j = n" by simp
  have c: "8 * k + n < 32" using k n8 by simp
  show "bit (ucast (drop_bit (8 * k) (g XOR push_bit (8 * j) (ucast d))) :: u8) n
        = bit (ucast (drop_bit (8 * k) g) XOR (if k = j then d else 0) :: u8) n"
  proof (cases "k = j")
    case True
    then show ?thesis using n8 c by (simp add: bit_simps)
  next
    case False
    have "\<not> (8 * j \<le> 8 * k + n \<and> bit d (8 * k + n - 8 * j))"
    proof
      assume h: "8 * j \<le> 8 * k + n \<and> bit d (8 * k + n - 8 * j)"
      then have "8 * k + n - 8 * j < 8" using bit_imp_le_length [of d "8 * k + n - 8 * j"] by simp
      then show False using h a False by simp
    qed
    then show ?thesis using False n8 c by (auto simp add: bit_simps)
  qed
qed

lemma le32_bytes_flip:
  "j < 4 \<Longrightarrow> le32_bytes (g XOR push_bit (8 * j) (ucast (d :: u8)))
           = (le32_bytes g)[j := le32_bytes g ! j XOR d]"
proof -
  assume j: "j < 4"
  have k: "\<And>k. k < 4 \<Longrightarrow> (ucast (drop_bit (8 * k) (g XOR push_bit (8 * j) (ucast d))) :: u8)
     = ucast (drop_bit (8 * k) g) XOR (if k = j then d else 0)"
    using j by (rule le32_byte_flip)
  from j consider "j = 0" | "j = 1" | "j = 2" | "j = 3" by linarith
  then show ?thesis
  proof cases
    case 1 then show ?thesis using k [of 0] k [of 1] k [of 2] k [of 3] by (simp add: le32_bytes_def)
  next
    case 2 then show ?thesis using k [of 0] k [of 1] k [of 2] k [of 3] by (simp add: le32_bytes_def)
  next
    case 3 then show ?thesis using k [of 0] k [of 1] k [of 2] k [of 3] by (simp add: le32_bytes_def)
  next
    case 4 then show ?thesis using k [of 0] k [of 1] k [of 2] k [of 3] by (simp add: le32_bytes_def)
  qed
qed

lemma csum_input_flip_group:
  assumes "j < 4" "d \<noteq> 0"
  shows "crc16 c (csum_input h sbi (g XOR push_bit (8 * j) (ucast (d :: u8))) gdp)
         \<noteq> crc16 c (csum_input h sbi g gdp)"
proof -
  let ?U = "map (s_uuid (s_es sbi)) [0..<16]"
  let ?G = "le32_bytes g"
  define R where "R = map gdp [0..<offsetof_bg_checksum h] @
     (if s_feature_incompat (s_es sbi) AND EXT4_FEATURE_INCOMPAT_64BIT h \<noteq> 0
         \<and> offsetof_bg_checksum h + 2 < unat (s_desc_size (s_es sbi))
      then map gdp [offsetof_bg_checksum h + 2..<unat (s_desc_size (s_es sbi))] else [])"
  have in1: "csum_input h sbi g gdp = ?U @ ?G @ R"
    unfolding csum_input_def R_def by simp
  have in2: "csum_input h sbi (g XOR push_bit (8 * j) (ucast d)) gdp = ?U @ ?G[j := ?G ! j XOR d] @ R"
    unfolding csum_input_def R_def le32_bytes_flip [OF assms(1)] by simp
  have "?G ! j XOR d \<noteq> ?G ! j"
  proof
    assume "?G ! j XOR d = ?G ! j"
    then have "?G ! j XOR d = ?G ! j XOR 0" by simp
    then have "d = 0" by (rule xor_left_cancel)
    then show False using assms(2) by simp
  qed
  moreover have "j < length ?G" using assms(1) by (simp add: le32_bytes_def)
  ultimately show ?thesis
    unfolding in1 in2 by (intro crc16_flip_mid) simp_all
qed

subsection \<open>Input range of the descriptor checksum\<close>

text \<open>
  C6. With the checksum feature enabled, \<open>ext4_group_desc_csum\<close> is a 16-bit function of
  the 16 UUID bytes, the group index and the covered descriptor bytes (\<open>csum_covered\<close>: the
  bytes before the checksum field and, when the 64-bit feature is set and the stored
  descriptor size reaches beyond the field, the bytes after it up to that size). (a) Two
  volumes and descriptors that agree on these inputs (and on the 64-bit feature test and the
  descriptor size, which fix the range) have the same checksum, so a change outside the
  covered range, the checksum field included, leaves the result unchanged. (b) Changing any
  single covered descriptor byte, (c) any single UUID byte, or (d) any single byte of the
  group index changes the result.
\<close>

theorem group_desc_csum_input_range:
  "s_feature_ro_compat (s_es sbi) AND EXT4_FEATURE_RO_COMPAT_GDT_CSUM h \<noteq> 0 \<Longrightarrow>
     (\<forall>(sbi' :: ext4_sb_info) gdp'.
         s_feature_ro_compat (s_es sbi') AND EXT4_FEATURE_RO_COMPAT_GDT_CSUM h \<noteq> 0
         \<and> (s_feature_incompat (s_es sbi') AND EXT4_FEATURE_INCOMPAT_64BIT h \<noteq> 0
              \<longleftrightarrow> s_feature_incompat (s_es sbi) AND EXT4_FEATURE_INCOMPAT_64BIT h \<noteq> 0)
         \<and> s_desc_size (s_es sbi') = s_desc_size (s_es sbi)
         \<and> (\<forall>i < 16. s_uuid (s_es sbi') i = s_uuid (s_es sbi) i)
         \<and> (\<forall>i. csum_covered h sbi i \<longrightarrow> gdp' i = gdp i)
         \<longrightarrow> ext4_group_desc_csum h sbi' g gdp' = ext4_group_desc_csum h sbi g gdp)
   \<and> (\<forall>i b. csum_covered h sbi i \<and> b \<noteq> gdp i
         \<longrightarrow> ext4_group_desc_csum h sbi g (gdp(i := b)) \<noteq> ext4_group_desc_csum h sbi g gdp)
   \<and> (\<forall>i b. i < 16 \<and> b \<noteq> s_uuid (s_es sbi) i
         \<longrightarrow> ext4_group_desc_csum h (sbi\<lparr>s_es := (s_es sbi)\<lparr>s_uuid := (s_uuid (s_es sbi))(i := b)\<rparr>\<rparr>) g gdp
              \<noteq> ext4_group_desc_csum h sbi g gdp)
   \<and> (\<forall>j d. j < 4 \<and> d \<noteq> 0
         \<longrightarrow> ext4_group_desc_csum h sbi (g XOR push_bit (8 * j) (ucast (d :: u8))) gdp
              \<noteq> ext4_group_desc_csum h sbi g gdp)"
proof (intro conjI allI impI)
  assume en: "s_feature_ro_compat (s_es sbi) AND EXT4_FEATURE_RO_COMPAT_GDT_CSUM h \<noteq> 0"
  {
    fix sbi' :: ext4_sb_info and gdp'
    assume a: "s_feature_ro_compat (s_es sbi') AND EXT4_FEATURE_RO_COMPAT_GDT_CSUM h \<noteq> 0
         \<and> (s_feature_incompat (s_es sbi') AND EXT4_FEATURE_INCOMPAT_64BIT h \<noteq> 0
              \<longleftrightarrow> s_feature_incompat (s_es sbi) AND EXT4_FEATURE_INCOMPAT_64BIT h \<noteq> 0)
         \<and> s_desc_size (s_es sbi') = s_desc_size (s_es sbi)
         \<and> (\<forall>i < 16. s_uuid (s_es sbi') i = s_uuid (s_es sbi) i)
         \<and> (\<forall>i. csum_covered h sbi i \<longrightarrow> gdp' i = gdp i)"
    then have "csum_input h sbi g gdp = csum_input h sbi' g gdp'"
      by (intro csum_input_agree) simp_all
    then show "ext4_group_desc_csum h sbi' g gdp' = ext4_group_desc_csum h sbi g gdp"
      using a en by (simp add: csum_as_crc)
  }
  {
    fix i :: nat and b :: u8 assume "csum_covered h sbi i \<and> b \<noteq> gdp i"
    then show "ext4_group_desc_csum h sbi g (gdp(i := b)) \<noteq> ext4_group_desc_csum h sbi g gdp"
      using en csum_input_flip_desc [of h sbi i b gdp "NOT 0" g] by (simp add: csum_as_crc)
  }
  {
    fix i :: nat and b :: u8 assume "i < 16 \<and> b \<noteq> s_uuid (s_es sbi) i"
    then show "ext4_group_desc_csum h (sbi\<lparr>s_es := (s_es sbi)\<lparr>s_uuid := (s_uuid (s_es sbi))(i := b)\<rparr>\<rparr>) g gdp
              \<noteq> ext4_group_desc_csum h sbi g gdp"
      using en csum_input_flip_uuid [of i b sbi "NOT 0" h g gdp] by (simp add: csum_as_crc)
  }
  {
    fix j :: nat and d :: u8 assume "j < 4 \<and> d \<noteq> 0"
    then show "ext4_group_desc_csum h sbi (g XOR push_bit (8 * j) (ucast d)) gdp
              \<noteq> ext4_group_desc_csum h sbi g gdp"
      using en csum_input_flip_group [of j d "NOT 0" h sbi g gdp] by (simp add: csum_as_crc)
  }
qed


theorem group_desc_csum_input_range_witness:
  "s_feature_ro_compat (s_es sample_sbi) AND EXT4_FEATURE_RO_COMPAT_GDT_CSUM sample_h \<noteq> 0
   \<and> ext4_group_desc_csum sample_h sample_sbi 0 (sample_gd(30 := 7))
       = ext4_group_desc_csum sample_h sample_sbi 0 sample_gd
   \<and> ext4_group_desc_csum sample_h sample_sbi 0 (sample_gd(40 := 7))
       = ext4_group_desc_csum sample_h sample_sbi 0 sample_gd
   \<and> ext4_group_desc_csum sample_h sample_sbi 0 (sample_gd(3 := 9))
       \<noteq> ext4_group_desc_csum sample_h sample_sbi 0 sample_gd
   \<and> ext4_group_desc_csum sample_h sample_sbi (0 XOR push_bit (8 * 1) (ucast (2 :: u8))) sample_gd
       \<noteq> ext4_group_desc_csum sample_h sample_sbi 0 sample_gd"
proof -
  have en: "s_feature_ro_compat (s_es sample_sbi) AND EXT4_FEATURE_RO_COMPAT_GDT_CSUM sample_h \<noteq> 0"
    by (simp add: sample_defs)
  have cov: "\<And>i. csum_covered sample_h sample_sbi i \<longleftrightarrow> i < 30"
    by (simp add: csum_covered_def sample_defs)
  note t = group_desc_csum_input_range [OF en, where g = 0 and gdp = sample_gd]
  have a: "ext4_group_desc_csum sample_h sample_sbi 0 (sample_gd(30 := 7))
       = ext4_group_desc_csum sample_h sample_sbi 0 sample_gd"
    using t [THEN conjunct1, rule_format, of sample_sbi "sample_gd(30 := 7)"] en
    by (simp add: cov)
  have b: "ext4_group_desc_csum sample_h sample_sbi 0 (sample_gd(40 := 7))
       = ext4_group_desc_csum sample_h sample_sbi 0 sample_gd"
    using t [THEN conjunct1, rule_format, of sample_sbi "sample_gd(40 := 7)"] en
    by (simp add: cov)
  have c: "ext4_group_desc_csum sample_h sample_sbi 0 (sample_gd(3 := 9))
       \<noteq> ext4_group_desc_csum sample_h sample_sbi 0 sample_gd"
    using t [THEN conjunct2, THEN conjunct1, rule_format, of 3 9]
    by (simp add: cov sample_gd_def)
  have d: "ext4_group_desc_csum sample_h sample_sbi (0 XOR push_bit (8 * 1) (ucast (2 :: u8))) sample_gd
       \<noteq> ext4_group_desc_csum sample_h sample_sbi 0 sample_gd"
    using t [THEN conjunct2, THEN conjunct2, THEN conjunct2, rule_format, of 1 2]
    by simp
  show ?thesis using en a b c d by simp
qed

subsection \<open>Group-descriptor verification\<close>

lemma word32_succ:
  "(i :: u32) < n \<Longrightarrow> unat (i + 1) = Suc (unat i)"
proof -
  assume lt: "i < n"
  have ul: "unat i < unat n" using lt by (simp add: word_less_nat_alt)
  have "unat n < 2 ^ LENGTH(32)" by (rule unsigned_less)
  then have "unat i + unat (1 :: u32) < 2 ^ LENGTH(32)" using ul by simp
  then show ?thesis by (simp add: unat_add_lem [THEN iffD1])
qed

lemma ucast_succ:
  "(i :: u32) < n \<Longrightarrow> (ucast (i + 1) :: u64) = ucast i + 1"
proof -
  assume lt: "i < n"
  have "(ucast (i + 1) :: u64) = of_nat (unat (i + 1))" by simp
  also have "\<dots> = of_nat (Suc (unat i))" using word32_succ [OF lt] by simp
  also have "\<dots> = ucast i + 1" by simp
  finally show ?thesis .
qed

lemma group_first_block_succ:
  "i < n \<Longrightarrow> group_first_block sb f (i + 1) =
     (if \<not> f then group_first_block sb f i + ucast (EXT4_BLOCKS_PER_GROUP sb)
      else group_first_block sb f i)"
  by (simp add: group_first_block_def ucast_succ ring_distribs)

lemma loop_step:
  "i < s_groups_count (EXT4_SB sb) \<Longrightarrow> desc_in_range h sb f i fb \<Longrightarrow>
   check_descriptors_loop h sb f i fb grp w =
     (if \<not> ext4_group_desc_csum_verify h (EXT4_SB sb) i (ext4_get_group_desc sb i)
         \<and> s_flags sb AND MS_RDONLY h = 0
      then (False,
            if grp = s_groups_count (EXT4_SB sb)
               \<and> bg_flags h (ext4_get_group_desc sb i) AND EXT4_BG_INODE_ZEROED h = 0 then i else grp,
            w @ [i])
      else check_descriptors_loop h sb f (i + 1)
             (if \<not> f then fb + ucast (EXT4_BLOCKS_PER_GROUP sb) else fb)
             (if grp = s_groups_count (EXT4_SB sb)
                 \<and> bg_flags h (ext4_get_group_desc sb i) AND EXT4_BG_INODE_ZEROED h = 0 then i else grp)
             (if ext4_group_desc_csum_verify h (EXT4_SB sb) i (ext4_get_group_desc sb i)
              then w else w @ [i]))"
  by (subst check_descriptors_loop.simps) (auto simp add: desc_in_range_def Let_def)

lemma loop_done:
  "\<not> i < s_groups_count (EXT4_SB sb) \<Longrightarrow> check_descriptors_loop h sb f i fb grp w = (True, grp, w)"
  by (subst check_descriptors_loop.simps) simp


lemma loop_characterised:
  assumes rng: "\<forall>j. i \<le> j \<and> j < s_groups_count (EXT4_SB sb) \<longrightarrow>
                  desc_in_range h sb f j (group_first_block sb f j)"
  shows "i \<le> s_groups_count (EXT4_SB sb) \<Longrightarrow>
         fst (check_descriptors_loop h sb f i (group_first_block sb f i) grp w) \<longleftrightarrow>
           (s_flags sb AND MS_RDONLY h \<noteq> 0
            \<or> (\<forall>j. i \<le> j \<and> j < s_groups_count (EXT4_SB sb) \<longrightarrow>
                   ext4_group_desc_csum_verify h (EXT4_SB sb) j (ext4_get_group_desc sb j)))"
  using rng
proof (induction "unat (s_groups_count (EXT4_SB sb)) - unat i" arbitrary: i grp w)
  case 0
  then have "\<not> i < s_groups_count (EXT4_SB sb)" by (simp add: word_less_nat_alt)
  then show ?case by (auto simp add: loop_done)
next
  case (Suc d)
  let ?n = "s_groups_count (EXT4_SB sb)"
  have lt: "i < ?n" using Suc.hyps(2) by (simp add: word_less_nat_alt)
  have su: "unat (i + 1) = Suc (unat i)" by (rule word32_succ [OF lt])
  have le: "i + 1 \<le> ?n" using lt by (rule inc_le)
  have d: "d = unat ?n - unat (i + 1)" using Suc.hyps(2) su by simp
  have ir: "desc_in_range h sb f i (group_first_block sb f i)" using Suc.prems(2) lt by simp
  have rng': "\<forall>j. i + 1 \<le> j \<and> j < ?n \<longrightarrow> desc_in_range h sb f j (group_first_block sb f j)"
  proof (intro allI impI)
    fix j assume "i + 1 \<le> j \<and> j < ?n"
    moreover have "i \<le> i + 1" using su by (simp add: word_le_nat_alt)
    ultimately have "i \<le> j \<and> j < ?n" by auto
    then show "desc_in_range h sb f j (group_first_block sb f j)" using Suc.prems(2) by simp
  qed
  have split: "\<And>P. (\<forall>j. i \<le> j \<and> j < ?n \<longrightarrow> P j) \<longleftrightarrow> (P i \<and> (\<forall>j. i + 1 \<le> j \<and> j < ?n \<longrightarrow> P j))"
  proof -
    fix P :: "u32 \<Rightarrow> bool"
    have "\<And>j. i \<le> j \<longleftrightarrow> j = i \<or> i + 1 \<le> j"
      using su by (auto simp add: word_le_nat_alt word_unat_eq_iff)
    then show "(\<forall>j. i \<le> j \<and> j < ?n \<longrightarrow> P j) \<longleftrightarrow> (P i \<and> (\<forall>j. i + 1 \<le> j \<and> j < ?n \<longrightarrow> P j))"
      using lt by auto
  qed
  note IH = Suc.hyps(1) [OF d le rng']
  let ?v = "ext4_group_desc_csum_verify h (EXT4_SB sb) i (ext4_get_group_desc sb i)"
  show ?case
  proof (cases "\<not> ?v \<and> s_flags sb AND MS_RDONLY h = 0")
    case True
    then show ?thesis
      by (subst loop_step [OF lt ir], subst split) simp
  next
    case False
    have "fst (check_descriptors_loop h sb f i (group_first_block sb f i) grp w) =
          fst (check_descriptors_loop h sb f (i + 1) (group_first_block sb f (i + 1))
             (if grp = s_groups_count (EXT4_SB sb)
                 \<and> bg_flags h (ext4_get_group_desc sb i) AND EXT4_BG_INODE_ZEROED h = 0 then i else grp)
             (if ?v then w else w @ [i]))"
      by (subst loop_step [OF lt ir])
         (simp only: False if_False group_first_block_succ [OF lt, symmetric])
    also have "\<dots> \<longleftrightarrow> (s_flags sb AND MS_RDONLY h \<noteq> 0
            \<or> (\<forall>j. i + 1 \<le> j \<and> j < ?n \<longrightarrow>
                   ext4_group_desc_csum_verify h (EXT4_SB sb) j (ext4_get_group_desc sb j)))"
      by (rule IH)
    also have "\<dots> \<longleftrightarrow> (s_flags sb AND MS_RDONLY h \<noteq> 0
            \<or> (\<forall>j. i \<le> j \<and> j < ?n \<longrightarrow>
                   ext4_group_desc_csum_verify h (EXT4_SB sb) j (ext4_get_group_desc sb j)))"
      using False split [of "\<lambda>j. ext4_group_desc_csum_verify h (EXT4_SB sb) j (ext4_get_group_desc sb j)"]
      by auto
    finally show ?thesis .
  qed
qed


lemma check_descriptors_fst:
  "fst (ext4_check_descriptors h k sb) =
     fst (check_descriptors_loop h sb (EXT4_HAS_INCOMPAT_FEATURE sb (EXT4_FEATURE_INCOMPAT_FLEX_BG h)) 0
            (group_first_block sb (EXT4_HAS_INCOMPAT_FEATURE sb (EXT4_FEATURE_INCOMPAT_FLEX_BG h)) 0)
            (s_groups_count (EXT4_SB sb)) [])"
  by (simp add: ext4_check_descriptors_def group_first_block_def Let_def split: prod.split bool.split)


lemma loop_warned:
  assumes rng: "\<forall>j. i \<le> j \<and> j < s_groups_count (EXT4_SB sb) \<longrightarrow>
                  desc_in_range h sb f j (group_first_block sb f j)"
  shows "i \<le> s_groups_count (EXT4_SB sb) \<Longrightarrow>
         fst (check_descriptors_loop h sb f i (group_first_block sb f i) grp w) \<Longrightarrow>
         set (snd (snd (check_descriptors_loop h sb f i (group_first_block sb f i) grp w))) =
           set w \<union> {j. i \<le> j \<and> j < s_groups_count (EXT4_SB sb)
                       \<and> \<not> ext4_group_desc_csum_verify h (EXT4_SB sb) j (ext4_get_group_desc sb j)}"
  using rng
proof (induction "unat (s_groups_count (EXT4_SB sb)) - unat i" arbitrary: i grp w)
  case 0
  then have "\<not> i < s_groups_count (EXT4_SB sb)" by (simp add: word_less_nat_alt)
  then show ?case by (auto simp add: loop_done)
next
  case (Suc d)
  let ?n = "s_groups_count (EXT4_SB sb)"
  let ?V = "\<lambda>j. ext4_group_desc_csum_verify h (EXT4_SB sb) j (ext4_get_group_desc sb j)"
  have lt: "i < ?n" using Suc.hyps(2) by (simp add: word_less_nat_alt)
  have su: "unat (i + 1) = Suc (unat i)" by (rule word32_succ [OF lt])
  have le: "i + 1 \<le> ?n" using lt by (rule inc_le)
  have d: "d = unat ?n - unat (i + 1)" using Suc.hyps(2) su by simp
  have ir: "desc_in_range h sb f i (group_first_block sb f i)" using Suc.prems(3) lt by simp
  have ii: "i \<le> i + 1" using su by (simp add: word_le_nat_alt)
  have rng': "\<forall>j. i + 1 \<le> j \<and> j < ?n \<longrightarrow> desc_in_range h sb f j (group_first_block sb f j)"
    using Suc.prems(3) ii by auto
  have idx: "\<And>j. i \<le> j \<longleftrightarrow> j = i \<or> i + 1 \<le> j"
    using su by (auto simp add: word_le_nat_alt word_unat_eq_iff)
  let ?grp = "if grp = ?n \<and> bg_flags h (ext4_get_group_desc sb i) AND EXT4_BG_INODE_ZEROED h = 0
              then i else grp"
  let ?w = "if ?V i then w else w @ [i]"
  have nf: "\<not> (\<not> ?V i \<and> s_flags sb AND MS_RDONLY h = 0)"
  proof
    assume "\<not> ?V i \<and> s_flags sb AND MS_RDONLY h = 0"
    then have "\<not> fst (check_descriptors_loop h sb f i (group_first_block sb f i) grp w)"
      by (subst loop_step [OF lt ir]) simp
    then show False using Suc.prems(2) by simp
  qed
  have eq: "check_descriptors_loop h sb f i (group_first_block sb f i) grp w =
            check_descriptors_loop h sb f (i + 1) (group_first_block sb f (i + 1)) ?grp ?w"
    by (subst loop_step [OF lt ir])
       (simp only: nf if_False group_first_block_succ [OF lt, symmetric])
  have ok: "fst (check_descriptors_loop h sb f (i + 1) (group_first_block sb f (i + 1)) ?grp ?w)"
    using Suc.prems(2) eq by simp
  have "set (snd (snd (check_descriptors_loop h sb f (i + 1) (group_first_block sb f (i + 1)) ?grp ?w)))
        = set ?w \<union> {j. i + 1 \<le> j \<and> j < ?n \<and> \<not> ?V j}"
    by (rule Suc.hyps(1) [OF d le ok rng'])
  also have "\<dots> = set w \<union> {j. i \<le> j \<and> j < ?n \<and> \<not> ?V j}"
    using lt idx by auto
  finally show ?case using eq by simp
qed

lemma check_descriptors_warned:
  "fst (snd (snd (ext4_check_descriptors h k sb))) =
     snd (snd (check_descriptors_loop h sb (EXT4_HAS_INCOMPAT_FEATURE sb (EXT4_FEATURE_INCOMPAT_FLEX_BG h)) 0
            (group_first_block sb (EXT4_HAS_INCOMPAT_FEATURE sb (EXT4_FEATURE_INCOMPAT_FLEX_BG h)) 0)
            (s_groups_count (EXT4_SB sb)) []))"
  by (simp add: ext4_check_descriptors_def group_first_block_def Let_def split: prod.split bool.split)

text \<open>
  C2. Group-descriptor verification. When every descriptor's block bitmap, inode bitmap
  and inode table lie in range, \<open>ext4_check_descriptors\<close> succeeds exactly when the
  volume is mounted read-only or every descriptor passes \<open>ext4_group_desc_csum_verify\<close>
  (which it does when the stored checksum is right or the checksum feature is off). So a
  checksum mismatch fails a writable mount and is tolerated by a read-only one; and when
  the call succeeds, the groups for which the checksum failure was reported are exactly
  the groups that fail verification.
\<close>

theorem check_descriptors_checksum:
  "descriptors_in_range h sb \<Longrightarrow>
     (fst (ext4_check_descriptors h k sb) \<longleftrightarrow>
        (s_flags sb AND MS_RDONLY h \<noteq> 0
         \<or> (\<forall>i < s_groups_count (EXT4_SB sb).
               ext4_group_desc_csum_verify h (EXT4_SB sb) i (ext4_get_group_desc sb i))))
   \<and> (fst (ext4_check_descriptors h k sb) \<longrightarrow>
        set (fst (snd (snd (ext4_check_descriptors h k sb)))) =
          {i. i < s_groups_count (EXT4_SB sb)
              \<and> \<not> ext4_group_desc_csum_verify h (EXT4_SB sb) i (ext4_get_group_desc sb i)})"
proof -
  assume r: "descriptors_in_range h sb"
  let ?f = "EXT4_HAS_INCOMPAT_FEATURE sb (EXT4_FEATURE_INCOMPAT_FLEX_BG h)"
  have rng: "\<forall>j. 0 \<le> j \<and> j < s_groups_count (EXT4_SB sb) \<longrightarrow>
                desc_in_range h sb ?f j (group_first_block sb ?f j)"
    using r by (simp add: descriptors_in_range_def)
  have z: "0 \<le> s_groups_count (EXT4_SB sb)" by simp
  have a: "fst (ext4_check_descriptors h k sb) \<longleftrightarrow>
        (s_flags sb AND MS_RDONLY h \<noteq> 0
         \<or> (\<forall>i < s_groups_count (EXT4_SB sb).
               ext4_group_desc_csum_verify h (EXT4_SB sb) i (ext4_get_group_desc sb i)))"
    using loop_characterised [OF rng z, of "s_groups_count (EXT4_SB sb)" "[]"]
    by (simp add: check_descriptors_fst)
  have b: "fst (ext4_check_descriptors h k sb) \<Longrightarrow>
        set (fst (snd (snd (ext4_check_descriptors h k sb)))) =
          {i. i < s_groups_count (EXT4_SB sb)
              \<and> \<not> ext4_group_desc_csum_verify h (EXT4_SB sb) i (ext4_get_group_desc sb i)}"
    using loop_warned [OF rng z, of "s_groups_count (EXT4_SB sb)" "[]"]
    by (simp add: check_descriptors_fst check_descriptors_warned)
  show ?thesis using a b by blast
qed

lemma le16_roundtrip:
  "ucast (ucast c :: u8) OR push_bit 8 (ucast (ucast (drop_bit 8 c) :: u8)) = (c :: u16)"
  by (rule bit_word_eqI) (auto simp add: bit_simps)

lemma sample_stored_checksum: "bg_checksum sample_h (sample_gd_stored c) = c"
  by (simp add: bg_checksum_def get_le16_def sample_gd_stored_def sample_h_def le16_roundtrip)

lemma sample_stored_csum:
  "ext4_group_desc_csum sample_h (EXT4_SB (sample_sb_one_group gd fl)) 0 (sample_gd_stored c) = sample_csum"
proof -
  have "csum_input sample_h (EXT4_SB (sample_sb_one_group gd fl)) 0 (sample_gd_stored c)
        = csum_input sample_h sample_sbi 0 sample_gd"
    by (rule csum_input_agree)
       (simp_all add: sample_sb_one_group_def sample_gd_stored_def csum_covered_def
          sample_defs accessor_defs)
  then show ?thesis
    by (simp add: sample_csum_def csum_as_crc sample_sb_one_group_def sample_defs accessor_defs)
qed

lemma sample_verify:
  "ext4_group_desc_csum_verify sample_h (EXT4_SB (sample_sb_one_group gd fl)) 0 (sample_gd_stored c)
     \<longleftrightarrow> c = sample_csum"
  by (simp add: ext4_group_desc_csum_verify_def sample_stored_checksum sample_stored_csum)
     (simp add: sample_sb_one_group_def sample_defs accessor_defs)

lemma sample_in_range:
  "descriptors_in_range sample_h (sample_sb_one_group (sample_gd_stored c) fl)"
  by (simp add: descriptors_in_range_def desc_in_range_def group_first_block_def word_less_1
        ext4_block_bitmap_def ext4_inode_bitmap_def ext4_inode_table_def get_le32_def
        EXT4_DESC_SIZE_def EXT4_BLOCKS_PER_GROUP_def ext4_get_group_desc_def
        sample_sb_one_group_def sample_gd_stored_def sample_gd_def sample_defs accessor_defs Let_def)


theorem check_descriptors_checksum_witness:
  "descriptors_in_range sample_h (sample_sb_one_group (sample_gd_stored (sample_csum XOR 1)) 0)
   \<and> \<not> fst (ext4_check_descriptors sample_h sample_k
              (sample_sb_one_group (sample_gd_stored (sample_csum XOR 1)) 0))
   \<and> fst (ext4_check_descriptors sample_h sample_k
              (sample_sb_one_group (sample_gd_stored (sample_csum XOR 1)) 1))
   \<and> fst (ext4_check_descriptors sample_h sample_k
              (sample_sb_one_group (sample_gd_stored sample_csum) 0))
   \<and> fst (ext4_check_descriptors sample_h sample_k
              (sample_sb_one_group (sample_gd_stored sample_csum) 1))"
proof -
  have ne: "sample_csum XOR 1 \<noteq> sample_csum"
  proof
    assume "sample_csum XOR 1 = sample_csum"
    then have "sample_csum XOR 1 = sample_csum XOR 0" by simp
    then have "(1 :: u16) = 0" by (rule xor_left_cancel)
    then show False by simp
  qed
  have g: "\<And>gd fl. s_groups_count (EXT4_SB (sample_sb_one_group gd fl)) = 1"
          "\<And>gd fl. ext4_get_group_desc (sample_sb_one_group gd fl) 0 = gd"
          "\<And>gd fl. s_flags (sample_sb_one_group gd fl) = fl"
          "MS_RDONLY sample_h = 1"
    by (simp_all add: sample_sb_one_group_def ext4_get_group_desc_def sample_defs accessor_defs)
  show ?thesis
    using check_descriptors_checksum [OF sample_in_range [where c = "sample_csum XOR 1" and fl = 0], where k = sample_k]
          check_descriptors_checksum [OF sample_in_range [where c = "sample_csum XOR 1" and fl = 1], where k = sample_k]
          check_descriptors_checksum [OF sample_in_range [where c = sample_csum and fl = 0], where k = sample_k]
          check_descriptors_checksum [OF sample_in_range [where c = sample_csum and fl = 1], where k = sample_k]
    by (simp add: sample_in_range g word_less_1 sample_verify ne)
qed

subsection \<open>Orphan convergence\<close>

lemma chain_Cons:
  "orphan_chain st h (i # xs) \<longleftrightarrow>
     h = i \<and> i \<noteq> 0 \<and> (\<exists>inode. st i = Some inode \<and> orphan_chain st (i_next_orphan inode) xs)"
  by (cases "st i") auto

declare orphan_chain.simps(2) [simp del]

lemma chain_unique:
  "orphan_chain st h xs \<Longrightarrow> orphan_chain st h ys \<Longrightarrow> xs = ys"
proof (induction xs arbitrary: h ys)
  case Nil
  then show ?case by (cases ys) (auto simp add: chain_Cons)
next
  case (Cons x xs)
  show ?case
  proof (cases ys)
    case Nil
    then show ?thesis using Cons.prems by (auto simp add: chain_Cons)
  next
    case (Cons y ys')
    from Cons.prems(1) obtain inode :: ext4_inode where hx: "h = x" and sx: "st x = Some inode"
      and tx: "orphan_chain st (i_next_orphan inode) xs" by (auto simp add: chain_Cons)
    from Cons.prems(2) Cons obtain inode' :: ext4_inode where hy: "h = y" and sy: "st y = Some inode'"
      and ty: "orphan_chain st (i_next_orphan inode') ys'" by (auto simp add: chain_Cons)
    from hx hy sx sy have "inode' = inode" by simp
    then have "xs = ys'" using Cons.IH [OF tx] ty by simp
    then show ?thesis using hx hy Cons by simp
  qed
qed

lemma chain_suffix:
  "orphan_chain st h (xs @ i # ys) \<Longrightarrow> orphan_chain st i (i # ys)"
proof (induction xs arbitrary: h)
  case Nil
  then show ?case by (auto simp add: chain_Cons)
next
  case (Cons x xs)
  from Cons.prems obtain inode :: ext4_inode where "orphan_chain st (i_next_orphan inode) (xs @ i # ys)"
    by (auto simp add: chain_Cons)
  then show ?case by (rule Cons.IH)
qed

lemma chain_head_fresh:
  assumes "orphan_chain st h (i # ys)"
  shows "i \<notin> set ys"
proof
  assume "i \<in> set ys"
  then obtain as bs where ys: "ys = as @ i # bs" by (auto simp add: in_set_conv_decomp)
  from assms obtain inode :: ext4_inode where "st i = Some inode" and t: "orphan_chain st (i_next_orphan inode) ys"
    and hi: "h = i" by (auto simp add: chain_Cons)
  from t ys have "orphan_chain st i (i # bs)" using chain_suffix by simp
  moreover from assms hi have "orphan_chain st i (i # ys)" by simp
  ultimately have "i # bs = i # ys" by (rule chain_unique)
  then show False using ys by simp
qed

lemma chain_distinct: "orphan_chain st h xs \<Longrightarrow> distinct xs"
proof (induction xs arbitrary: h)
  case Nil then show ?case by simp
next
  case (Cons x xs)
  from Cons.prems have "x \<notin> set xs" by (rule chain_head_fresh)
  moreover from Cons.prems obtain inode :: ext4_inode where "orphan_chain st (i_next_orphan inode) xs"
    by (auto simp add: chain_Cons)
  then have "distinct xs" by (rule Cons.IH)
  ultimately show ?case by simp
qed

lemma chain_nonzero: "orphan_chain st h xs \<Longrightarrow> 0 \<notin> set xs"
proof (induction xs arbitrary: h)
  case Nil then show ?case by simp
next
  case (Cons x xs)
  from Cons.prems obtain inode :: ext4_inode where "x \<noteq> 0" "orphan_chain st (i_next_orphan inode) xs"
    by (auto simp add: chain_Cons)
  then show ?case using Cons.IH by auto
qed

lemma chain_length: "orphan_chain st h xs \<Longrightarrow> length xs < 2 ^ 32"
proof -
  assume c: "orphan_chain st h xs"
  have "length xs = card (set xs)" using chain_distinct [OF c] by (simp add: distinct_card)
  also have "\<dots> \<le> card (UNIV - {0 :: u32})"
    using chain_nonzero [OF c] by (intro card_mono) auto
  also have "\<dots> = 2 ^ 32 - 1" by (simp add: card_Diff_singleton card_word)
  finally show ?thesis by simp
qed

lemma chain_store_upd:
  "i \<notin> set xs \<Longrightarrow> orphan_chain (st(i := v)) h xs = orphan_chain st h xs"
  by (induction xs arbitrary: h) (auto simp add: chain_Cons)

lemma unlinked_store_upd:
  "i \<notin> set xs \<Longrightarrow> filter (unlinked (st(i := v))) xs = filter (unlinked st) xs"
  "i \<notin> set xs \<Longrightarrow> filter (\<lambda>j. \<not> unlinked (st(i := v)) j) xs = filter (\<lambda>j. \<not> unlinked st j) xs"
  by (induction xs) (auto simp add: unlinked_def)

lemma orphan_step_truncate:
  "sb1 = iput (ext4_truncate (upd_sbi (\<lambda>sbi. sbi\<lparr>s_orphan := ino # s_orphan sbi\<rparr>) sb) ino) ino inode
   \<Longrightarrow> i_nlink inode \<noteq> 0 \<Longrightarrow>
     inode_store sb1 = inode_store sb
   \<and> s_last_orphan (s_es (EXT4_SB sb1)) = i_next_orphan inode
   \<and> deleted sb1 = deleted sb
   \<and> truncated sb1 = truncated sb @ [ino]
   \<and> s_flags sb1 = s_flags sb"
  by (simp add: iput_def ext4_truncate_def accessor_defs Let_def)

lemma orphan_step_delete:
  "sb1 = iput (upd_sbi (\<lambda>sbi. sbi\<lparr>s_orphan := ino # s_orphan sbi\<rparr>) sb) ino inode
   \<Longrightarrow> i_nlink inode = 0 \<Longrightarrow>
     inode_store sb1 = (inode_store sb)(ino := None)
   \<and> s_last_orphan (s_es (EXT4_SB sb1)) = i_next_orphan inode
   \<and> deleted sb1 = deleted sb @ [ino]
   \<and> truncated sb1 = truncated sb
   \<and> s_flags sb1 = s_flags sb"
  by (simp add: iput_def accessor_defs Let_def)

lemma orphan_loop_chain:
  "orphan_chain (inode_store sb) (s_last_orphan (s_es (EXT4_SB sb))) inos \<Longrightarrow>
   \<exists>sb'. orphan_loop sb nr_orphans nr_truncates =
            Some (sb', nr_orphans + of_nat (length (filter (unlinked (inode_store sb)) inos)),
                  nr_truncates + of_nat (length (filter (\<lambda>j. \<not> unlinked (inode_store sb) j) inos)))
     \<and> s_last_orphan (s_es (EXT4_SB sb')) = 0
     \<and> deleted sb' = deleted sb @ filter (unlinked (inode_store sb)) inos
     \<and> truncated sb' = truncated sb @ filter (\<lambda>j. \<not> unlinked (inode_store sb) j) inos
     \<and> s_flags sb' = s_flags sb"
proof (induction inos arbitrary: sb nr_orphans nr_truncates)
  case Nil
  then show ?case by (subst orphan_loop.simps) simp
next
  case (Cons i rest)
  let ?st = "inode_store sb"
  from Cons.prems obtain inode :: ext4_inode where hd: "s_last_orphan (s_es (EXT4_SB sb)) = i"
    and nz: "i \<noteq> 0" and res: "?st i = Some inode"
    and tl: "orphan_chain ?st (i_next_orphan inode) rest" by (auto simp add: chain_Cons)
  have fresh: "i \<notin> set rest" using Cons.prems by (rule chain_head_fresh)
  show ?case
  proof (cases "i_nlink inode = 0")
    case False
    define sb1 where "sb1 = iput (ext4_truncate (upd_sbi (\<lambda>sbi. sbi\<lparr>s_orphan := i # s_orphan sbi\<rparr>) sb) i) i inode"
    note s = orphan_step_truncate [OF sb1_def False]
    have st1: "inode_store sb1 = ?st" using s by simp
    have step: "orphan_loop sb nr_orphans nr_truncates = orphan_loop sb1 nr_orphans (nr_truncates + 1)"
      using hd nz res False
      by (subst orphan_loop.simps) (simp add: ext4_orphan_get_def sb1_def Let_def)
    have "orphan_chain (inode_store sb1) (s_last_orphan (s_es (EXT4_SB sb1))) rest"
      using tl s by simp
    from Cons.IH [OF this, of nr_orphans "nr_truncates + 1"]
    obtain sb' where r: "orphan_loop sb1 nr_orphans (nr_truncates + 1) =
            Some (sb', nr_orphans + of_nat (length (filter (unlinked (inode_store sb1)) rest)),
                  nr_truncates + 1 + of_nat (length (filter (\<lambda>j. \<not> unlinked (inode_store sb1) j) rest)))"
      and z: "s_last_orphan (s_es (EXT4_SB sb')) = 0"
      and dl: "deleted sb' = deleted sb1 @ filter (unlinked (inode_store sb1)) rest"
      and tr: "truncated sb' = truncated sb1 @ filter (\<lambda>j. \<not> unlinked (inode_store sb1) j) rest"
      and fl: "s_flags sb' = s_flags sb1"
      by blast
    have u: "\<not> unlinked ?st i" using res False by (simp add: unlinked_def)
    show ?thesis
      using step r z dl tr fl u s unfolding st1 by (simp add: algebra_simps)
  next
    case True
    define sb1 where "sb1 = iput (upd_sbi (\<lambda>sbi. sbi\<lparr>s_orphan := i # s_orphan sbi\<rparr>) sb) i inode"
    note s = orphan_step_delete [OF sb1_def True]
    have st1: "inode_store sb1 = ?st(i := None)" using s by simp
    have step: "orphan_loop sb nr_orphans nr_truncates = orphan_loop sb1 (nr_orphans + 1) nr_truncates"
      using hd nz res True
      by (subst orphan_loop.simps) (simp add: ext4_orphan_get_def sb1_def Let_def)
    have "orphan_chain (?st(i := None)) (i_next_orphan inode) rest"
      using tl chain_store_upd [OF fresh, of ?st None "i_next_orphan inode"] by simp
    then have "orphan_chain (inode_store sb1) (s_last_orphan (s_es (EXT4_SB sb1))) rest"
      using s by (simp only: st1)
    from Cons.IH [OF this, of "nr_orphans + 1" nr_truncates]
    obtain sb' where r: "orphan_loop sb1 (nr_orphans + 1) nr_truncates =
            Some (sb', nr_orphans + 1 + of_nat (length (filter (unlinked (inode_store sb1)) rest)),
                  nr_truncates + of_nat (length (filter (\<lambda>j. \<not> unlinked (inode_store sb1) j) rest)))"
      and z: "s_last_orphan (s_es (EXT4_SB sb')) = 0"
      and dl: "deleted sb' = deleted sb1 @ filter (unlinked (inode_store sb1)) rest"
      and tr: "truncated sb' = truncated sb1 @ filter (\<lambda>j. \<not> unlinked (inode_store sb1) j) rest"
      and fl: "s_flags sb' = s_flags sb1"
      by blast
    have f1: "filter (unlinked (inode_store sb1)) rest = filter (unlinked ?st) rest"
      unfolding st1 by (rule unlinked_store_upd(1) [OF fresh])
    have f2: "filter (\<lambda>j. \<not> unlinked (inode_store sb1) j) rest = filter (\<lambda>j. \<not> unlinked ?st j) rest"
      unfolding st1 by (rule unlinked_store_upd(2) [OF fresh])
    have u: "unlinked ?st i" using res True by (simp add: unlinked_def)
    have s': "deleted sb1 = deleted sb @ [i]" "truncated sb1 = truncated sb" "s_flags sb1 = s_flags sb"
      using s by simp_all
    show ?thesis
      using step r z dl tr fl u unfolding f1 f2 s' by (simp add: algebra_simps)
  qed
qed

lemma unat_of_nat32: "n < 2 ^ 32 \<Longrightarrow> unat (of_nat n :: u32) = n"
  by (simp add: unat_of_nat take_bit_nat_eq_self)

text \<open>
  C3. Orphan convergence. For a well-formed chain of \<open>N\<close> orphans (\<open>orphan_chain\<close>, every
  entry resolvable, zero-link and nonzero-link inodes mixed at will) on a volume that can be
  written (the device is not read-only and the feature set allows a read-write mount) and
  has no error flag, \<open>ext4_orphan_cleanup\<close> returns; afterwards the orphan head pointer is
  zero, the zero-link inodes of the chain have been deleted and the others truncated, in
  chain order, \<open>nr_orphans\<close> and \<open>nr_truncates\<close> count them, and the two counts add up to
  \<open>N\<close>. The mount flags are as before the call.
\<close>

theorem orphan_cleanup_converges:
  "orphan_chain (inode_store sb) (s_last_orphan (s_es (EXT4_SB sb))) inos \<Longrightarrow>
   \<not> bdev_ro sb \<Longrightarrow> ext4_feature_set_ok h sb 0 \<Longrightarrow>
   s_mount_state (EXT4_SB sb) AND EXT4_ERROR_FS h = 0 \<Longrightarrow>
   \<exists>sb' nr_orphans nr_truncates.
      ext4_orphan_cleanup h sb = Some (sb', nr_orphans, nr_truncates)
    \<and> s_last_orphan (s_es (EXT4_SB sb')) = 0
    \<and> unat nr_orphans = length (filter (unlinked (inode_store sb)) inos)
    \<and> unat nr_truncates = length (filter (\<lambda>j. \<not> unlinked (inode_store sb) j) inos)
    \<and> unat nr_orphans + unat nr_truncates = length inos
    \<and> deleted sb' = deleted sb @ filter (unlinked (inode_store sb)) inos
    \<and> truncated sb' = truncated sb @ filter (\<lambda>j. \<not> unlinked (inode_store sb) j) inos
    \<and> s_flags sb' = s_flags sb"
proof -
  assume chain: "orphan_chain (inode_store sb) (s_last_orphan (s_es (EXT4_SB sb))) inos"
    and rw: "\<not> bdev_ro sb" and ok: "ext4_feature_set_ok h sb 0"
    and clean: "s_mount_state (EXT4_SB sb) AND EXT4_ERROR_FS h = 0"
  let ?st = "inode_store sb"
  let ?D = "filter (unlinked ?st) inos"
  let ?T = "filter (\<lambda>j. \<not> unlinked ?st j) inos"
  have len: "length inos < 2 ^ 32" using chain by (rule chain_length)
  have sum: "length ?D + length ?T = length inos" by (rule sum_length_filter_compl)
  have uD: "unat (of_nat (length ?D) :: u32) = length ?D"
    using len sum by (intro unat_of_nat32) simp
  have uT: "unat (of_nat (length ?T) :: u32) = length ?T"
    using len sum by (intro unat_of_nat32) simp
  show ?thesis
  proof (cases "s_last_orphan (s_es (EXT4_SB sb)) = 0")
    case True
    have "inos = []"
    proof (cases inos)
      case Nil then show ?thesis .
    next
      case (Cons i rest)
      then show ?thesis using chain True by (auto simp add: chain_Cons)
    qed
    then show ?thesis using True by (simp add: ext4_orphan_cleanup_def Let_def)
  next
    case False
    define sb1 where "sb1 = (if s_flags sb AND MS_RDONLY h \<noteq> 0
                  then sb\<lparr>s_flags := s_flags sb AND NOT (MS_RDONLY h)\<rparr> else sb)"
    have p: "inode_store sb1 = ?st" "s_last_orphan (s_es (EXT4_SB sb1)) = s_last_orphan (s_es (EXT4_SB sb))"
            "deleted sb1 = deleted sb" "truncated sb1 = truncated sb"
      by (simp_all add: sb1_def EXT4_SB_def)
    have "orphan_chain (inode_store sb1) (s_last_orphan (s_es (EXT4_SB sb1))) inos"
      using chain by (simp only: p)
    from orphan_loop_chain [OF this, of 0 0]
    obtain sb2 where r: "orphan_loop sb1 0 0 = Some (sb2, of_nat (length ?D), of_nat (length ?T))"
      and z: "s_last_orphan (s_es (EXT4_SB sb2)) = 0"
      and dl: "deleted sb2 = deleted sb @ ?D"
      and tr: "truncated sb2 = truncated sb @ ?T"
      unfolding p by auto
    have c: "ext4_orphan_cleanup h sb =
               Some (sb2\<lparr>s_flags := s_flags sb\<rparr>, of_nat (length ?D), of_nat (length ?T))"
      using False rw ok clean r by (simp add: ext4_orphan_cleanup_def Let_def sb1_def)
    show ?thesis
      using c z dl tr uD uT sum by (simp add: EXT4_SB_def)
  qed
qed

lemma sample_two_orphans_chain:
  "orphan_chain (inode_store sample_sb_two_orphans)
     (s_last_orphan (s_es (EXT4_SB sample_sb_two_orphans))) [12, 15]"
  by (simp add: sample_sb_two_orphans_def chain_Cons sample_defs accessor_defs)

theorem orphan_cleanup_converges_witness:
  "orphan_chain (inode_store sample_sb_two_orphans)
     (s_last_orphan (s_es (EXT4_SB sample_sb_two_orphans))) [12, 15]
   \<and> (\<exists>sb'. ext4_orphan_cleanup sample_h sample_sb_two_orphans = Some (sb', 1, 1)
            \<and> s_last_orphan (s_es (EXT4_SB sb')) = 0
            \<and> deleted sb' = [12] \<and> truncated sb' = [15])"
proof -
  have rw: "\<not> bdev_ro sample_sb_two_orphans"
    by (simp add: sample_sb_two_orphans_def sample_defs accessor_defs)
  have ok: "ext4_feature_set_ok sample_h sample_sb_two_orphans 0"
    by (simp add: sample_sb_two_orphans_def ext4_feature_set_ok_def sample_defs accessor_defs)
  have clean: "s_mount_state (EXT4_SB sample_sb_two_orphans) AND EXT4_ERROR_FS sample_h = 0"
    by (simp add: sample_sb_two_orphans_def sample_defs accessor_defs)
  have u: "unlinked (inode_store sample_sb_two_orphans) 12"
          "\<not> unlinked (inode_store sample_sb_two_orphans) 15"
          "deleted sample_sb_two_orphans = []" "truncated sample_sb_two_orphans = []"
    by (simp_all add: unlinked_def sample_sb_two_orphans_def sample_defs accessor_defs)
  from orphan_cleanup_converges [OF sample_two_orphans_chain rw ok clean]
  obtain sb' nr_orphans nr_truncates where
    r: "ext4_orphan_cleanup sample_h sample_sb_two_orphans = Some (sb', nr_orphans, nr_truncates)"
    "s_last_orphan (s_es (EXT4_SB sb')) = 0"
    "unat nr_orphans = 1" "unat nr_truncates = 1"
    "deleted sb' = [12]" "truncated sb' = [15]"
    by (auto simp add: u)
  from r(3,4) have "nr_orphans = 1" "nr_truncates = 1"
    by (simp_all add: word_unat_eq_iff)
  then show ?thesis using sample_two_orphans_chain r by auto
qed

end
